theory Spec2Isabelle
  imports Complex_Main
begin

section \<open>Numbers and rounding helpers (utils.js)\<close>

text \<open>
  JavaScript numbers are modelled as exact reals: every arithmetic operation of the source is
  read as the real operation it approximates. The values \<open>NaN\<close>, the infinities and the
  negative zero have no counterpart here, and rounding error of IEEE doubles is not modelled.

  \<open>Math.round\<close> returns the integer closest to its argument and, of two equally close
  integers, the one closer to plus infinity; on reals this is the floor of the argument plus
  one half. \<open>Math.floor\<close> and \<open>Math.ceil\<close> are the floor and the ceiling. The remainder
  operator \<open>%\<close> takes the sign of the dividend: \<open>n % d = n - d * q\<close> where \<open>q\<close> is
  \<open>n / d\<close> truncated towards zero (the divisor is never zero in this program).
\<close>

definition Math_round :: "real \<Rightarrow> real" where
  "Math_round num = of_int \<lfloor>num + 1 / 2\<rfloor>"

definition Math_floor :: "real \<Rightarrow> real" where
  "Math_floor num = of_int \<lfloor>num\<rfloor>"

definition Math_ceil :: "real \<Rightarrow> real" where
  "Math_ceil num = of_int \<lceil>num\<rceil>"

definition truncInt :: "real \<Rightarrow> int" where
  "truncInt num = (if 0 \<le> num then \<lfloor>num\<rfloor> else \<lceil>num\<rceil>)"

definition js_rem :: "real \<Rightarrow> real \<Rightarrow> real" where
  "js_rem n d = n - d * of_int (truncInt (n / d))"

text \<open>\<^verbatim>\<open>function twoPtRound(num) { return Math.round(num * 100) / 100; }\<close>\<close>

definition twoPtRound :: "real \<Rightarrow> real" where
  "twoPtRound num = Math_round (num * 100) / 100"

text \<open>\<^verbatim>\<open>function halfRound(num) { return Math.round(num * 2) / 2; }\<close>\<close>

definition halfRound :: "real \<Rightarrow> real" where
  "halfRound num = Math_round (num * 2) / 2"

text \<open>\<^verbatim>\<open>function isInt(num) { return num % 1 === 0; }\<close>\<close>

definition isInt :: "real \<Rightarrow> bool" where
  "isInt num = (js_rem num 1 = 0)"

section \<open>Vectors, quaternions and meshes\<close>

text \<open>
  The fields \<open>x\<close>, \<open>y\<close>, \<open>z\<close>, \<open>w\<close> of the source's vector and quaternion classes carry a
  prefix here (\<open>vx\<close>, \<open>cx\<close>, \<open>qx\<close>, ...), since a record field is a global constant.
\<close>

record Vector3 =
  vx :: real
  vy :: real
  vz :: real

record Quaternion =
  qx :: real
  qy :: real
  qz :: real
  qw :: real

text \<open>The class \<open>Vector2XZ\<close> of utils.js: a board cell, or a position in the board plane.\<close>

record Vector2XZ =
  cx :: real
  cz :: real

definition Vector2XZ_floor :: "Vector2XZ \<Rightarrow> Vector2XZ" where
  "Vector2XZ_floor v = \<lparr>cx = Math_floor (cx v), cz = Math_floor (cz v)\<rparr>"

definition Vector2XZ_ceil :: "Vector2XZ \<Rightarrow> Vector2XZ" where
  "Vector2XZ_ceil v = \<lparr>cx = Math_ceil (cx v), cz = Math_ceil (cz v)\<rparr>"

definition Vector2XZ_halfRound :: "Vector2XZ \<Rightarrow> Vector2XZ" where
  "Vector2XZ_halfRound v = \<lparr>cx = halfRound (cx v), cz = halfRound (cz v)\<rparr>"

text \<open>
  A \<open>THREE.Mesh\<close>, as far as the game logic reads it: the position, the orientation
  quaternion and the visibility flag. Geometry, material, texture and colour are rendering
  data and are left out.

  JavaScript objects have an identity: the scene holds references to the very meshes the level
  holds, so a mesh that is rotated through the level is the same child of the scene as before.
  The field \<open>objectId\<close> is that identity. Each mesh a level creates takes the next number
  of a counter, and an update of a mesh keeps its number.
\<close>

record Mesh =
  objectId :: nat
  position :: Vector3
  quaternion :: Quaternion
  visible :: bool

definition xAxis :: Vector3 where
  "xAxis = \<lparr>vx = 1, vy = 0, vz = 0\<rparr>"

definition yAxis :: Vector3 where
  "yAxis = \<lparr>vx = 0, vy = 1, vz = 0\<rparr>"

definition zAxis :: Vector3 where
  "zAxis = \<lparr>vx = 0, vy = 0, vz = 1\<rparr>"

definition ninetyDegRad :: real where
  "ninetyDegRad = pi / 2"

subsection \<open>The three.js operations used by the source\<close>

text \<open>
  three.js is an external library; the operations below follow its published source.
  \<open>Quaternion.setFromAxisAngle\<close> stores \<open>axis * sin (angle / 2)\<close> and \<open>cos (angle / 2)\<close>;
  \<open>Quaternion.multiplyQuaternions\<close> is the Hamilton product; \<open>Object3D.applyQuaternion q\<close>
  premultiplies the object's quaternion by \<open>q\<close>; \<open>Vector3.applyQuaternion\<close> computes
  \<open>v + w * t + u \<times> t\<close> with \<open>t = 2 * (u \<times> v)\<close> for the quaternion \<open>(u, w)\<close>.
\<close>

definition setFromAxisAngle :: "Vector3 \<Rightarrow> real \<Rightarrow> Quaternion" where
  "setFromAxisAngle axis angle =
     (let halfAngle = angle / 2; s = sin halfAngle
      in \<lparr>qx = vx axis * s, qy = vy axis * s, qz = vz axis * s, qw = cos halfAngle\<rparr>)"

definition multiplyQuaternions :: "Quaternion \<Rightarrow> Quaternion \<Rightarrow> Quaternion" where
  "multiplyQuaternions a b =
     \<lparr>qx = qx a * qw b + qw a * qx b + qy a * qz b - qz a * qy b,
      qy = qy a * qw b + qw a * qy b + qz a * qx b - qx a * qz b,
      qz = qz a * qw b + qw a * qz b + qx a * qy b - qy a * qx b,
      qw = qw a * qw b - qx a * qx b - qy a * qy b - qz a * qz b\<rparr>"

definition Vector3_applyQuaternion :: "Vector3 \<Rightarrow> Quaternion \<Rightarrow> Vector3" where
  "Vector3_applyQuaternion v q =
     (let tx = 2 * (qy q * vz v - qz q * vy v);
          ty = 2 * (qz q * vx v - qx q * vz v);
          tz = 2 * (qx q * vy v - qy q * vx v)
      in \<lparr>vx = vx v + qw q * tx + qy q * tz - qz q * ty,
          vy = vy v + qw q * ty + qz q * tx - qx q * tz,
          vz = vz v + qw q * tz + qx q * ty - qy q * tx\<rparr>)"

definition Vector3_sub :: "Vector3 \<Rightarrow> Vector3 \<Rightarrow> Vector3" where
  "Vector3_sub a b = \<lparr>vx = vx a - vx b, vy = vy a - vy b, vz = vz a - vz b\<rparr>"

definition Vector3_add :: "Vector3 \<Rightarrow> Vector3 \<Rightarrow> Vector3" where
  "Vector3_add a b = \<lparr>vx = vx a + vx b, vy = vy a + vy b, vz = vz a + vz b\<rparr>"

definition Object3D_applyQuaternion :: "Mesh \<Rightarrow> Quaternion \<Rightarrow> Mesh" where
  "Object3D_applyQuaternion object q =
     object\<lparr>quaternion := multiplyQuaternions q (quaternion object)\<rparr>"

text \<open>
  The rotation part of the matrix three.js composes from a quaternion
  (\<open>Matrix4.compose\<close> with unit scale), row by row: the orientation the quaternion denotes.
\<close>

definition rotationMatrix :: "Quaternion \<Rightarrow> Vector3 \<times> Vector3 \<times> Vector3" where
  "rotationMatrix q =
     (let x2 = qx q + qx q; y2 = qy q + qy q; z2 = qz q + qz q;
          xx = qx q * x2; xy = qx q * y2; xz = qx q * z2;
          yy = qy q * y2; yz = qy q * z2; zz = qz q * z2;
          wx = qw q * x2; wy = qw q * y2; wz = qw q * z2
      in (\<lparr>vx = 1 - (yy + zz), vy = xy - wz, vz = xz + wy\<rparr>,
          \<lparr>vx = xy + wz, vy = 1 - (xx + zz), vz = yz - wx\<rparr>,
          \<lparr>vx = xz - wy, vy = yz + wx, vz = 1 - (xx + yy)\<rparr>))"

subsection \<open>Geometry utilities of utils.js\<close>

text \<open>
  \<^verbatim>\<open>
  function rotateAroundWorldAxis(object, point, axis, angle) {
      var q = new THREE.Quaternion();
      q.setFromAxisAngle(axis, angle);
      object.applyQuaternion(q);
      object.position.sub(point);
      object.position.applyQuaternion(q);
      object.position.add(point);
  }\<close>
  The source mutates \<open>object\<close>; the model returns the updated mesh.
\<close>

definition rotateAroundWorldAxis :: "Mesh \<Rightarrow> Vector3 \<Rightarrow> Vector3 \<Rightarrow> real \<Rightarrow> Mesh" where
  "rotateAroundWorldAxis object point axis angle =
     (let q = setFromAxisAngle axis angle;
          object1 = Object3D_applyQuaternion object q
      in object1\<lparr>position :=
           Vector3_add (Vector3_applyQuaternion (Vector3_sub (position object1) point) q) point\<rparr>)"

text \<open>
  \<open>getBlockPos\<close>: one cell when both half-rounded coordinates are integers, otherwise the
  floor and the ceiling of the half-rounded position.
\<close>

definition getBlockPos :: "Mesh \<Rightarrow> Vector2XZ list" where
  "getBlockPos block =
     (if isInt (halfRound (vx (position block))) \<and> isInt (halfRound (vz (position block)))
      then [Vector2XZ_halfRound \<lparr>cx = vx (position block), cz = vz (position block)\<rparr>]
      else [Vector2XZ_floor
              (Vector2XZ_halfRound \<lparr>cx = vx (position block), cz = vz (position block)\<rparr>),
            Vector2XZ_ceil
              (Vector2XZ_halfRound \<lparr>cx = vx (position block), cz = vz (position block)\<rparr>)])"

text \<open>
  \<open>getRotatedClone\<close>: \<open>block.clone()\<close> is a copy, which a value already is; the clone is
  rotated and the block itself is left as it was. (The clone is an object of its own in the
  program. It is only read for its position and never becomes a child of the scene, so the
  model gives it no number of its own.)
\<close>

definition getRotatedClone :: "Mesh \<Rightarrow> Vector3 \<Rightarrow> Vector3 \<Rightarrow> real \<Rightarrow> Mesh" where
  "getRotatedClone block point axis angle = rotateAroundWorldAxis block point axis angle"

section \<open>Levels (level.js)\<close>

text \<open>
  Reading a property of \<open>undefined\<close> raises a \<open>TypeError\<close> in JavaScript; it is the only
  exception this program can raise.
\<close>

datatype error = TypeError

text \<open>
  The class \<open>Level\<close>. Its private fields are the record's fields; the getter \<open>blockPos\<close>
  recomputes the cells from the block each time it is read (the field it also stores them in
  is never read elsewhere). \<open>winTile\<close> stays \<open>undefined\<close> (\<open>None\<close>) when a layout has no
  hole.
\<close>

record Level =
  totalLevels :: int
  levelNum :: int
  board :: "Mesh list"
  block :: Mesh
  winTile :: "Mesh option"

definition blockPos :: "Level \<Rightarrow> Vector2XZ list" where
  "blockPos lvl = getBlockPos (block lvl)"

subsection \<open>Level data\<close>

text \<open>\<^verbatim>\<open>const _LEVELS = 11;\<close> (a name cannot start with an underscore here).\<close>

definition LEVELS :: int where
  "LEVELS = 11"

definition BLOCK_POSITIONS :: "(real \<times> real) list" where
  "BLOCK_POSITIONS =
     [(5, 1), (1, 1), (1, 1), (3, 0), (1, 0), (0, 0),
      (1, 3), (13, 3), (0, 3), (2, 7), (0, 5), (9, 14)]"

text \<open>
  The layouts of the source are arrays of rows of one-character strings. Each row is a string
  here, one character per cell. The source marks a tile with the character U+25A0 (a filled
  square) and the hole with U+25A1 (an empty square); this text writes \<open>#\<close> for the tile and
  \<open>O\<close> for the hole, and a space is an empty cell as in the source.
\<close>

definition layout0 :: "string list" where
  "layout0 =
     [''  #####'',
      ''  #####'',
      ''  #####'',
      '' ##### '',
      '' ##### '',
      '' ##### '',
      ''#####  '',
      ''#O###  '',
      ''#####  '']"

definition layout1 :: "string list" where
  "layout1 =
     [''##### #####'',
      ''##### ##O##'',
      '' ###   ### '',
      '' ###   ### '',
      '' ###   ### '',
      '' #### #### '',
      ''   #####   '',
      ''    ###    '',
      ''     #     '']"

definition layout2 :: "string list" where
  "layout2 =
     ['' ##  '',
      ''#### '',
      ''##O##'',
      '' ####'',
      ''  ## '']"

definition layout3 :: "string list" where
  "layout3 =
     [''#####   '',
      ''####    '',
      ''###  ###'',
      ''##   #O#'',
      ''########'',
      ''     ###'',
      ''     ###'']"

definition layout4 :: "string list" where
  "layout4 =
     ['' ####'',
      ''    #'',
      ''### #'',
      ''#####'',
      ''#O#  '',
      ''###  '']"

definition layout5 :: "string list" where
  "layout5 =
     [''###   '',
      ''###   '',
      ''##### '',
      ''   ## '',
      ''##### '',
      ''###   '',
      ''######'',
      ''   #O#'',
      ''   ###'',
      ''    ##'']"

definition layout6 :: "string list" where
  "layout6 =
     [''      #######  '',
      ''####  ##   ##  '',
      ''#########  ####'',
      ''####       ##O#'',
      ''####       ####'',
      ''            ###'',
      ''               '',
      ''               '',
      ''               '',
      ''               '']"

definition layout7 :: "string list" where
  "layout7 =
     [''        ####   '',
      ''        ####   '',
      ''###    ##  ####'',
      ''#O#    ##   ###'',
      ''###   ###   ###'',
      ''###   ###   ###'',
      '' ###   #       '',
      ''  ######       '']"

definition layout8 :: "string list" where
  "layout8 =
     [''     ######    '',
      ''     #  ###    '',
      ''     #  #####  '',
      ''######     ####'',
      ''    ###    ##O#'',
      ''    ###     ###'',
      ''      #  ##    '',
      ''      #####    '',
      ''      #####    '',
      ''       ###     '']"

definition layout9 :: "string list" where
  "layout9 =
     [''          #### '',
      ''############O# '',
      ''###        ### '',
      ''####           '',
      ''  ########  ###'',
      ''       ########'',
      '' ####     #####'',
      '' ##########    '',
      '' ####          '']"

definition layout10 :: "string list" where
  "layout10 =
     ['' ####       '',
      '' #O##       '',
      '' ###        '',
      '' #   ###### '',
      '' #   ##  ## '',
      ''#######  ###'',
      ''     #     #'',
      ''     ####  #'',
      ''     #######'',
      ''        ### '']"

definition layout11 :: "string list" where
  "layout11 =
     [''                    '',
      ''                    '',
      ''     #### #         '',
      ''    ########        '',
      ''    #  #####        '',
      ''    #    # #        '',
      ''    #      ####     '',
      ''   ##    #   ##     '',
      ''   ##   ###   #     '',
      ''   ### ##O## ##     '',
      ''    #   ###   ###   '',
      ''    ###  #  #####   '',
      ''   ####  #  ###     '',
      ''   ####  #    #     '',
      ''   #    ###  ##     '',
      ''   ########  ##     '',
      ''        # ####      '',
      ''                    '',
      ''                    '',
      ''                    '']"

definition LAYOUTS :: "string list list" where
  "LAYOUTS =
     [layout0, layout1, layout2, layout3, layout4, layout5,
      layout6, layout7, layout8, layout9, layout10, layout11]"

subsection \<open>Building a level\<close>

text \<open>
  A fresh \<open>THREE.Mesh\<close> with the given identity: at the origin, with the identity
  quaternion, visible.
\<close>

definition Mesh_new :: "nat \<Rightarrow> Mesh" where
  "Mesh_new n = \<lparr>objectId = n, position = \<lparr>vx = 0, vy = 0, vz = 0\<rparr>,
                 quaternion = \<lparr>qx = 0, qy = 0, qz = 0, qw = 1\<rparr>,
                 visible = True\<rparr>"

text \<open>\<open>#createTile(x, z, color, texture)\<close>: \<^verbatim>\<open>tile.position.set(x, -0.1, z)\<close>.\<close>

definition createTile :: "real \<Rightarrow> real \<Rightarrow> nat \<Rightarrow> Mesh" where
  "createTile x z n = (Mesh_new n)\<lparr>position := \<lparr>vx = x, vy = - (1 / 10), vz = z\<rparr>\<rparr>"

text \<open>\<open>#createBlock(position)\<close>: the block stands at height 1 over the given cell.\<close>

definition createBlock :: "real \<times> real \<Rightarrow> nat \<Rightarrow> Mesh" where
  "createBlock pos n =
     (Mesh_new n)\<lparr>position := \<lparr>vx = fst pos, vy = 1, vz = snd pos\<rparr>\<rparr>"

text \<open>
  \<open>#boardFromLayout(layout)\<close>: the two nested \<open>for\<close> loops, the inner one over the cells
  \<open>j\<close> of row \<open>i\<close>. The accumulator is the board built so far, the winning tile and the
  counter of object identities. A tile is created at \<open>(j, i)\<close>; the hole is a tile that is
  invisible, is recorded as the winning tile and is pushed on the board as well (the board and
  \<open>winTile\<close> refer to the same mesh); any other character adds nothing.
\<close>

fun boardFromLayout_row ::
  "nat \<Rightarrow> nat \<Rightarrow> string \<Rightarrow> Mesh list \<times> Mesh option \<times> nat \<Rightarrow> Mesh list \<times> Mesh option \<times> nat"
  where
  "boardFromLayout_row i j [] acc = acc"
| "boardFromLayout_row i j (c # cs) (tiles, win, nextId) =
     boardFromLayout_row i (Suc j) cs
       (if c \<noteq> CHR '' '' then
          (if c = CHR ''#'' then (tiles @ [createTile (real j) (real i) nextId], win, nextId + 1)
           else if c = CHR ''O'' then
             (let hole = (createTile (real j) (real i) nextId)\<lparr>visible := False\<rparr>
              in (tiles @ [hole], Some hole, nextId + 1))
           else (tiles, win, nextId))
        else (tiles, win, nextId))"

fun boardFromLayout_rows ::
  "nat \<Rightarrow> string list \<Rightarrow> Mesh list \<times> Mesh option \<times> nat \<Rightarrow> Mesh list \<times> Mesh option \<times> nat"
  where
  "boardFromLayout_rows i [] acc = acc"
| "boardFromLayout_rows i (row # rows) acc =
     boardFromLayout_rows (Suc i) rows (boardFromLayout_row i 0 row acc)"

definition boardFromLayout :: "string list \<Rightarrow> nat \<Rightarrow> Mesh list \<times> Mesh option \<times> nat" where
  "boardFromLayout layout nextId = boardFromLayout_rows 0 layout ([], None, nextId)"

text \<open>
  The constructor: \<open>_LAYOUTS[levelNum]\<close> and \<open>_BLOCK_POSITIONS[levelNum]\<close> are \<open>undefined\<close>
  outside the arrays, and reading \<open>layout.length\<close> or \<open>position[0]\<close> then raises. The
  second argument is the counter of object identities, and the result carries the counter
  after the board and the block have been created.
\<close>

definition Level_new :: "int \<Rightarrow> nat \<Rightarrow> error + Level \<times> nat" where
  "Level_new n nextId =
     (if 0 \<le> n \<and> n < int (length LAYOUTS) \<and> n < int (length BLOCK_POSITIONS) then
        (case boardFromLayout (LAYOUTS ! nat n) nextId of
           (b, w, nextId1) \<Rightarrow>
             Inr (\<lparr>totalLevels = LEVELS, levelNum = n, board = b,
                   block = createBlock (BLOCK_POSITIONS ! nat n) nextId1, winTile = w\<rparr>,
                  nextId1 + 1))
      else Inl TypeError)"

section \<open>Movement (movement.js)\<close>

text \<open>The enumeration \<open>dirEnum\<close> of utils.js.\<close>

datatype dirEnum = posX | negX | posZ | negZ

text \<open>
  \<^verbatim>\<open>
  function offsetRotPointX() {
      return twoPtRound(level.block.position.y) === 0.5
          && isInt(twoPtRound(level.block.position.z)) ? 1 : 0.5;
  }\<close>
  and \<open>offsetRotPointZ\<close> with \<open>x\<close> for \<open>z\<close>. The global \<open>level\<close> is an argument.
\<close>

definition offsetRotPointX :: "Level \<Rightarrow> real" where
  "offsetRotPointX lvl =
     (if twoPtRound (vy (position (block lvl))) = 1 / 2
         \<and> isInt (twoPtRound (vz (position (block lvl))))
      then 1 else 1 / 2)"

definition offsetRotPointZ :: "Level \<Rightarrow> real" where
  "offsetRotPointZ lvl =
     (if twoPtRound (vy (position (block lvl))) = 1 / 2
         \<and> isInt (twoPtRound (vx (position (block lvl))))
      then 1 else 1 / 2)"

text \<open>
  \<open>isValidRotation\<close>: the \<open>forEach\<close> over the future cells updates the local \<open>isValid\<close>,
  which starts as \<open>true\<close>; \<open>some\<close> is \<open>list_ex\<close>.
\<close>

definition isValidRotation :: "Level \<Rightarrow> Vector3 \<Rightarrow> Vector3 \<Rightarrow> real \<Rightarrow> bool" where
  "isValidRotation lvl point axis angle =
     (let blockFuturePositions = getBlockPos (getRotatedClone (block lvl) point axis angle);
          tilePositions =
            map (\<lambda>tile. \<lparr>cx = vx (position tile), cz = vz (position tile)\<rparr>) (board lvl)
      in foldl
           (\<lambda>isValid bPos.
              (let validTile =
                     list_ex (\<lambda>tilePos. cx tilePos = cx bPos \<and> cz tilePos = cz bPos)
                       tilePositions
               in if \<not> validTile then False else isValid))
           True blockFuturePositions)"

text \<open>
  The \<open>switch\<close> of \<open>handleBlockMovement\<close>: it sets the rotation point (the origin with one
  coordinate replaced), the rotation axis and the angle modifier \<open>rotAngleMod\<close>.
\<close>

definition handleBlockMovement_switch :: "dirEnum \<Rightarrow> Level \<Rightarrow> Vector3 \<times> Vector3 \<times> real" where
  "handleBlockMovement_switch rotDir lvl =
     (case rotDir of
        posX \<Rightarrow>
          (\<lparr>vx = twoPtRound (vx (position (block lvl))) + offsetRotPointX lvl, vy = 0, vz = 0\<rparr>,
           zAxis, - 1)
      | negX \<Rightarrow>
          (\<lparr>vx = twoPtRound (vx (position (block lvl))) - offsetRotPointX lvl, vy = 0, vz = 0\<rparr>,
           zAxis, 1)
      | posZ \<Rightarrow>
          (\<lparr>vx = 0, vy = 0, vz = twoPtRound (vz (position (block lvl))) + offsetRotPointZ lvl\<rparr>,
           xAxis, 1)
      | negZ \<Rightarrow>
          (\<lparr>vx = 0, vy = 0, vz = twoPtRound (vz (position (block lvl))) - offsetRotPointZ lvl\<rparr>,
           xAxis, - 1))"

section \<open>The game state and its timers (main.js, animations.js)\<close>

text \<open>
  The module variables of the program, as one record: the current \<open>level\<close> and the children
  of the \<open>scene\<close> (main.js), the flag \<open>animationPlaying\<close> (animations.js), the
  \<open>buttonLock\<close> (main.js), and whether the computed visibility of the element
  \<open>pause-window-box\<close> is \<open>visible\<close>. The children of the scene are references to meshes,
  that is, their identities; \<open>nextObjectId\<close> is the counter the next level takes its
  identities from. The camera, the lights, the canvas opacity and the audio are rendering and
  output only and are left out.

  \<open>setInterval\<close> and \<open>setTimeout\<close> register a callback that the browser runs later. A
  registered callback is a \<open>timer\<close>: the constructor names the interval or timeout of the
  source and carries the variables its closure reads. \<open>timers\<close> lists the registered
  callbacks that have not been cleared, oldest first.
\<close>

datatype timer =
    RotationAnimation Vector3 Vector3 real nat
  | FailAnimationForward Vector3 Vector3 real nat
  | FailAnimationBackward Vector3 Vector3 real nat
  | WinDelay
  | WinAnimation
  | WinTransitionDelay
  | FadeOutAnimation int int
  | FadeInAnimation int
  | UnlockButton

record Game =
  level :: Level
  scene :: "nat list"
  nextObjectId :: nat
  animationPlaying :: bool
  buttonLock :: bool
  pauseVisible :: bool
  timers :: "timer list"

definition add_timer :: "timer \<Rightarrow> Game \<Rightarrow> Game" where
  "add_timer t g = g\<lparr>timers := timers g @ [t]\<rparr>"

definition clear_timer :: "nat \<Rightarrow> Game \<Rightarrow> Game" where
  "clear_timer k g = g\<lparr>timers := take k (timers g) @ drop (Suc k) (timers g)\<rparr>"

definition set_timer :: "nat \<Rightarrow> timer \<Rightarrow> Game \<Rightarrow> Game" where
  "set_timer k t g = g\<lparr>timers := (timers g)[k := t]\<rparr>"

text \<open>The block of the current level, rotated in place.\<close>

definition rotateBlock :: "Vector3 \<Rightarrow> Vector3 \<Rightarrow> real \<Rightarrow> Game \<Rightarrow> Game" where
  "rotateBlock rotPoint axis angle g =
     g\<lparr>level := (level g)\<lparr>block := rotateAroundWorldAxis (block (level g)) rotPoint axis angle\<rparr>\<rparr>"

subsection \<open>Win check and level change\<close>

text \<open>
  \<^verbatim>\<open>
  function _checkForWin() {
      let win = false;
      let blockPos = level.blockPos;
      let winTilePos = level.winTile.position;
      if (blockPos.length === 1) {
          win = blockPos[0].x === winTilePos.x && blockPos[0].z === winTilePos.z;
      }
      return win;
  }\<close>
  Reading \<open>level.winTile.position\<close> raises when the level has no winning tile.
\<close>

definition checkForWin :: "Level \<Rightarrow> error + bool" where
  "checkForWin lvl =
     (case winTile lvl of
        None \<Rightarrow> Inl TypeError
      | Some tile \<Rightarrow>
          Inr (if length (blockPos lvl) = 1
               then cx (blockPos lvl ! 0) = vx (position tile)
                    \<and> cz (blockPos lvl ! 0) = vz (position tile)
               else False))"

text \<open>\<open>_animateWin\<close> sets the flag and waits 50 ms before the slide starts.\<close>

definition animateWin :: "Game \<Rightarrow> Game" where
  "animateWin g = add_timer WinDelay (g\<lparr>animationPlaying := True\<rparr>)"

text \<open>
  \<open>fadeOutInLevel(offset)\<close> returns at once when the requested level is invalid; otherwise it
  sets the flag and starts the fade-out interval with \<open>intervals = 20\<close>.
\<close>

definition fadeOutInLevel :: "int \<Rightarrow> Game \<Rightarrow> Game" where
  "fadeOutInLevel offset g =
     (if levelNum (level g) + offset < 0 \<or> levelNum (level g) + offset > totalLevels (level g)
      then g
      else add_timer (FadeOutAnimation offset 20) (g\<lparr>animationPlaying := True\<rparr>))"

text \<open>
  \<open>scene.remove(a, b, ...)\<close> removes each argument that is a child, found by identity;
  \<open>scene.add(a, b, ...)\<close> appends the arguments.
\<close>

definition scene_remove :: "Mesh list \<Rightarrow> nat list \<Rightarrow> nat list" where
  "scene_remove objects children = foldl (\<lambda>cs obj. remove1 (objectId obj) cs) children objects"

definition scene_add :: "Mesh list \<Rightarrow> nat list \<Rightarrow> nat list" where
  "scene_add objects children = children @ map objectId objects"

text \<open>
  \<^verbatim>\<open>
  function changeLevel(offset) {
      scene.remove(...level.board);
      scene.remove(level.block);
      level = new Level(level.levelNum + offset);
      camera.position.copy(level.block.position).add(camOffset);
      scene.add(...level.board);
      scene.add(level.block);
  }\<close>
\<close>

definition changeLevel :: "int \<Rightarrow> Game \<Rightarrow> error + Game" where
  "changeLevel offset g =
     (let children1 = scene_remove [block (level g)] (scene_remove (board (level g)) (scene g))
      in case Level_new (levelNum (level g) + offset) (nextObjectId g) of
           Inl e \<Rightarrow> Inl e
         | Inr (lvl, nextId) \<Rightarrow>
             Inr (g\<lparr>level := lvl, nextObjectId := nextId,
                    scene := scene_add [block lvl] (scene_add (board lvl) children1)\<rparr>))"

text \<open>\<open>initLevel\<close>, on the state the page starts in (nothing playing, the pause window hidden).\<close>

definition initLevel :: "error + Game" where
  "initLevel =
     (case Level_new 0 0 of
        Inl e \<Rightarrow> Inl e
      | Inr (lvl, nextId) \<Rightarrow>
          Inr \<lparr>level = lvl, scene = scene_add [block lvl] (scene_add (board lvl) []),
               nextObjectId = nextId, animationPlaying = False,
               buttonLock = False, pauseVisible = False, timers = []\<rparr>)"

subsection \<open>Starting an animation\<close>

text \<open>
  \<open>animateRotation\<close> and \<open>animateFailedRotation\<close> set \<open>intervals = 0\<close> and the flag, and
  register their interval.
\<close>

definition animateRotation :: "Vector3 \<Rightarrow> Vector3 \<Rightarrow> real \<Rightarrow> Game \<Rightarrow> Game" where
  "animateRotation rotPoint axis angle g =
     add_timer (RotationAnimation rotPoint axis angle 0) (g\<lparr>animationPlaying := True\<rparr>)"

definition animateFailedRotation :: "Vector3 \<Rightarrow> Vector3 \<Rightarrow> real \<Rightarrow> Game \<Rightarrow> Game" where
  "animateFailedRotation rotPoint axis angle g =
     add_timer (FailAnimationForward rotPoint axis angle 0) (g\<lparr>animationPlaying := True\<rparr>)"

text \<open>
  \<^verbatim>\<open>
  function handleBlockMovement(rotDir, camera) {
      if (animationPlaying || getComputedStyle(...).visibility === "visible") { return; }
      ... switch (rotDir) ...
      if (isValidRotation(rotPoint, rotAxis, ninetyDegRad * rotAngleMod)) {
          animateRotation(rotPoint, rotAxis, ninetyDegRad * rotAngleMod, camera);
      } else {
          animateFailedRotation(rotPoint, rotAxis, Math.PI / (6 * rotAngleMod));
      }
  }\<close>
\<close>

definition handleBlockMovement :: "dirEnum \<Rightarrow> Game \<Rightarrow> Game" where
  "handleBlockMovement rotDir g =
     (if animationPlaying g \<or> pauseVisible g then g
      else
        (case handleBlockMovement_switch rotDir (level g) of
           (rotPoint, rotAxis, rotAngleMod) \<Rightarrow>
             if isValidRotation (level g) rotPoint rotAxis (ninetyDegRad * rotAngleMod)
             then animateRotation rotPoint rotAxis (ninetyDegRad * rotAngleMod) g
             else animateFailedRotation rotPoint rotAxis (pi / (6 * rotAngleMod)) g))"

subsection \<open>The callbacks\<close>

text \<open>
  \<open>callback t k g\<close> runs the callback of the timer \<open>t\<close>, registered at index \<open>k\<close>, once.
  An interval stays registered until its callback clears it; a timeout is cleared when it
  runs.
  \<^item> The rotation interval turns the block by an eighteenth of the angle; the eighteenth run
    clears the interval, resets the flag and checks for the win.
  \<^item> The failed rotation turns forward eighteen times, then registers the backward interval,
    whose eighteenth run resets the flag.
  \<^item> The win animation lowers the block by 0.1 while its height, rounded to two places, is at
    least -0.9; then it waits 100 ms and calls \<open>fadeOutInLevel(1)\<close>.
  \<^item> The fade-out interval tests \<open>intervals-- === 0\<close>: on 0 it clears itself, changes the
    level and registers the fade-in interval, which shares \<open>intervals\<close> (now -1) and resets
    the flag when \<open>intervals++ === 20\<close>.
  \<^item> \<open>unlockButton\<close> releases the button lock.
\<close>

fun callback :: "timer \<Rightarrow> nat \<Rightarrow> Game \<Rightarrow> error + Game" where
  "callback (RotationAnimation rotPoint axis angle intervals) k g =
     (let g1 = rotateBlock rotPoint axis (angle / 18) g
      in if Suc intervals = 18 then
           (let g2 = (clear_timer k g1)\<lparr>animationPlaying := False\<rparr>
            in case checkForWin (level g2) of
                 Inl e \<Rightarrow> Inl e
               | Inr win \<Rightarrow> Inr (if win then animateWin g2 else g2))
         else Inr (set_timer k (RotationAnimation rotPoint axis angle (Suc intervals)) g1))"
| "callback (FailAnimationForward rotPoint axis angle intervals) k g =
     (let g1 = rotateBlock rotPoint axis (angle / 18) g
      in if Suc intervals = 18 then
           Inr (add_timer (FailAnimationBackward rotPoint axis angle 0) (clear_timer k g1))
         else Inr (set_timer k (FailAnimationForward rotPoint axis angle (Suc intervals)) g1))"
| "callback (FailAnimationBackward rotPoint axis angle intervals) k g =
     (let g1 = rotateBlock rotPoint axis (- angle / 18) g
      in if Suc intervals = 18 then Inr ((clear_timer k g1)\<lparr>animationPlaying := False\<rparr>)
         else Inr (set_timer k (FailAnimationBackward rotPoint axis angle (Suc intervals)) g1))"
| "callback WinDelay k g = Inr (add_timer WinAnimation (clear_timer k g))"
| "callback WinAnimation k g =
     (if twoPtRound (vy (position (block (level g)))) \<ge> - (9 / 10) then
        Inr (g\<lparr>level := (level g)\<lparr>block := (block (level g))\<lparr>position :=
               (position (block (level g)))\<lparr>vy := vy (position (block (level g))) - 1 / 10\<rparr>\<rparr>\<rparr>\<rparr>)
      else Inr (add_timer WinTransitionDelay (clear_timer k g)))"
| "callback WinTransitionDelay k g = Inr (fadeOutInLevel 1 (clear_timer k g))"
| "callback (FadeOutAnimation offset intervals) k g =
     (if intervals = 0 then
        (case changeLevel offset (clear_timer k g) of
           Inl e \<Rightarrow> Inl e
         | Inr g1 \<Rightarrow> Inr (add_timer (FadeInAnimation (intervals - 1)) g1))
      else Inr (set_timer k (FadeOutAnimation offset (intervals - 1)) g))"
| "callback (FadeInAnimation intervals) k g =
     (if intervals = 20 then Inr ((clear_timer k g)\<lparr>animationPlaying := False\<rparr>)
      else Inr (set_timer k (FadeInAnimation (intervals + 1)) g))"
| "callback UnlockButton k g = Inr ((clear_timer k g)\<lparr>buttonLock := False\<rparr>)"

text \<open>The timer at index \<open>k\<close> fires; nothing happens when no timer is registered there.\<close>

definition fire :: "nat \<Rightarrow> Game \<Rightarrow> error + Game" where
  "fire k g = (if k < length (timers g) then callback (timers g ! k) k g else Inr g)"

subsection \<open>Input handlers (main.js)\<close>

text \<open>
  The \<open>keydown\<close> listener, by \<open>event.code\<close>. Escape toggles the pause window between
  \<open>hidden\<close> and \<open>visible\<close>; it asks for no flag.
\<close>

definition keydown :: "string \<Rightarrow> Game \<Rightarrow> Game" where
  "keydown code g =
     (if code = ''KeyD'' \<or> code = ''ArrowRight'' then handleBlockMovement posX g
      else if code = ''KeyA'' \<or> code = ''ArrowLeft'' then handleBlockMovement negX g
      else if code = ''KeyS'' \<or> code = ''ArrowDown'' then handleBlockMovement posZ g
      else if code = ''KeyW'' \<or> code = ''ArrowUp'' then handleBlockMovement negZ g
      else if code = ''Escape'' then g\<lparr>pauseVisible := \<not> pauseVisible g\<rparr>
      else g)"

datatype button = resume_button | previous_level_button | restart_level_button | next_level_button

text \<open>
  \<^verbatim>\<open>
  function clickLevelButton(offset) {
      if (!buttonLock) {
          buttonLock = true;
          fadeOutInLevel(offset);
          playAudio("./src/assets/audio/interface.mp3", 0.5);
          setTimeout(unlockButton, 1000);
      }
  }\<close>
\<close>

definition clickLevelButton :: "int \<Rightarrow> Game \<Rightarrow> Game" where
  "clickLevelButton offset g =
     (if \<not> buttonLock g then add_timer UnlockButton (fadeOutInLevel offset (g\<lparr>buttonLock := True\<rparr>))
      else g)"

definition click :: "button \<Rightarrow> Game \<Rightarrow> Game" where
  "click b g =
     (case b of
        resume_button \<Rightarrow>
          (if \<not> buttonLock g
           then add_timer UnlockButton (g\<lparr>buttonLock := True, pauseVisible := False\<rparr>)
           else g)
      | previous_level_button \<Rightarrow> clickLevelButton (- 1) g
      | restart_level_button \<Rightarrow> clickLevelButton 0 g
      | next_level_button \<Rightarrow> clickLevelButton 1 g)"

subsection \<open>Runs of the event loop\<close>

text \<open>
  The program is single-threaded: the browser runs one handler or callback at a time, to its
  end. A run is the list of the events handled, in order; it stops at the first exception.
\<close>

datatype event = KeyDown string | Click button | Fire nat

definition handle :: "event \<Rightarrow> Game \<Rightarrow> error + Game" where
  "handle ev g =
     (case ev of
        KeyDown code \<Rightarrow> Inr (keydown code g)
      | Click b \<Rightarrow> Inr (click b g)
      | Fire k \<Rightarrow> fire k g)"

fun run :: "event list \<Rightarrow> Game \<Rightarrow> error + Game" where
  "run [] g = Inr g"
| "run (ev # evs) g = (case handle ev g of Inl e \<Rightarrow> Inl e | Inr g1 \<Rightarrow> run evs g1)"

section \<open>Notions the properties are stated with\<close>

text \<open>The coordinates of the board's tiles, as a set of pairs \<open>(x, z)\<close>.\<close>

definition tileCoordinates :: "Level \<Rightarrow> (real \<times> real) set" where
  "tileCoordinates lvl = (\<lambda>tile. (vx (position tile), vz (position tile))) ` set (board lvl)"

text \<open>
  Two cells are adjacent when they differ by 1 along one axis and agree on the other. A
  classification is consistent when it is one cell, or two adjacent cells, with integer
  coordinates.
\<close>

definition isCell :: "Vector2XZ \<Rightarrow> bool" where
  "isCell c = (isInt (cx c) \<and> isInt (cz c))"

definition adjacentCells :: "Vector2XZ \<Rightarrow> Vector2XZ \<Rightarrow> bool" where
  "adjacentCells c d =
     ((\<bar>cx c - cx d\<bar> = 1 \<and> cz c = cz d) \<or> (cx c = cx d \<and> \<bar>cz c - cz d\<bar> = 1))"

fun classificationConsistent :: "Vector2XZ list \<Rightarrow> bool" where
  "classificationConsistent [c] = isCell c"
| "classificationConsistent [c, d] = (isCell c \<and> isCell d \<and> adjacentCells c d)"
| "classificationConsistent cells = False"

text \<open>The children of the scene are the meshes of the current level: its tiles, then its block.\<close>

definition sceneOfLevel :: "Game \<Rightarrow> bool" where
  "sceneOfLevel g =
     (scene g = map objectId (board (level g)) @ [objectId (block (level g))])"

text \<open>
  The three shapes of a block at rest: standing on one cell at height 1, or lying at height
  one half across two cells along \<open>x\<close> or along \<open>z\<close>.
\<close>

definition standing :: "Mesh \<Rightarrow> bool" where
  "standing b =
     (vy (position b) = 1 \<and> isInt (vx (position b)) \<and> isInt (vz (position b)))"

definition lyingAlongX :: "Mesh \<Rightarrow> bool" where
  "lyingAlongX b =
     (vy (position b) = 1 / 2 \<and> isInt (vx (position b) - 1 / 2) \<and> isInt (vz (position b)))"

definition lyingAlongZ :: "Mesh \<Rightarrow> bool" where
  "lyingAlongZ b =
     (vy (position b) = 1 / 2 \<and> isInt (vx (position b)) \<and> isInt (vz (position b) - 1 / 2))"

definition atRest :: "Mesh \<Rightarrow> bool" where
  "atRest b = (standing b \<or> lyingAlongX b \<or> lyingAlongZ b)"

text \<open>
  An accepted roll, run to its end: \<open>handleBlockMovement\<close> finds the rotation valid and
  \<open>animateRotation\<close> registers its interval, whose callback turns the block of the level by an
  eighteenth of the angle, eighteen times. A rejected roll gives \<open>None\<close>.
\<close>

definition roll :: "dirEnum \<Rightarrow> Level \<Rightarrow> Level option" where
  "roll rotDir lvl =
     (case handleBlockMovement_switch rotDir lvl of
        (rotPoint, rotAxis, rotAngleMod) \<Rightarrow>
          if isValidRotation lvl rotPoint rotAxis (ninetyDegRad * rotAngleMod)
          then Some (lvl\<lparr>block :=
                 ((\<lambda>b. rotateAroundWorldAxis b rotPoint rotAxis (ninetyDegRad * rotAngleMod / 18))
                    ^^ 18) (block lvl)\<rparr>)
          else None)"

text \<open>
  The Rodrigues form of a rotation of \<open>w\<close> about the axis \<open>a\<close>, given the sine \<open>S\<close> and the
  cosine \<open>C\<close> of the angle: \<open>w + S * (a \<times> w) + (1 - C) * (a \<times> (a \<times> w))\<close>, by components.
\<close>

definition rodrigues :: "Vector3 \<Rightarrow> real \<Rightarrow> real \<Rightarrow> Vector3 \<Rightarrow> Vector3" where
  "rodrigues a S C w =
     \<lparr>vx = vx w + S * (vy a * vz w - vz a * vy w)
            + (1 - C) * (vy a * (vx a * vy w - vy a * vx w) - vz a * (vz a * vx w - vx a * vz w)),
      vy = vy w + S * (vz a * vx w - vx a * vz w)
            + (1 - C) * (vz a * (vy a * vz w - vz a * vy w) - vx a * (vx a * vy w - vy a * vx w)),
      vz = vz w + S * (vx a * vy w - vy a * vx w)
            + (1 - C) * (vx a * (vz a * vx w - vx a * vz w) - vy a * (vy a * vz w - vz a * vy w))\<rparr>"

definition unitVector :: "Vector3 \<Rightarrow> bool" where
  "unitVector a = (vx a * vx a + vy a * vy a + vz a * vz a = 1)"


section \<open>Properties of the rounding helpers\<close>

lemma isInt_iff: "isInt num \<longleftrightarrow> num \<in> \<int>"
proof
  assume "isInt num"
  then have "num = of_int (truncInt num)"
    by (simp add: isInt_def js_rem_def)
  then show "num \<in> \<int>"
    by (metis Ints_of_int)
next
  assume "num \<in> \<int>"
  then obtain k :: int where k: "num = of_int k"
    by (auto elim: Ints_cases)
  show "isInt num"
    by (simp add: isInt_def js_rem_def truncInt_def k)
qed

lemma isInt_of_int: "isInt (of_int k)"
  by (simp add: isInt_iff)

lemma Math_round_of_int: "Math_round (of_int k) = of_int k"
proof -
  have "\<lfloor>(of_int k :: real) + 1 / 2\<rfloor> = k" by linarith
  then show ?thesis by (simp add: Math_round_def)
qed

lemma halfRound_floor: "halfRound num = of_int \<lfloor>2 * num + 1 / 2\<rfloor> / 2"
  by (simp add: halfRound_def Math_round_def mult.commute)

lemma halfRound_on_grid:
  assumes "2 * num \<in> \<int>"
  shows "halfRound num = num"
proof -
  obtain k :: int where k: "2 * num = of_int k"
    using assms by (auto elim: Ints_cases)
  have "halfRound num = Math_round (of_int k) / 2"
    by (simp add: halfRound_def k [symmetric] mult.commute)
  then show ?thesis
    using k by (simp add: Math_round_of_int)
qed

lemma twoPtRound_on_grid:
  assumes "100 * num \<in> \<int>"
  shows "twoPtRound num = num"
proof -
  obtain k :: int where k: "100 * num = of_int k"
    using assms by (auto elim: Ints_cases)
  have "twoPtRound num = Math_round (of_int k) / 100"
    by (simp add: twoPtRound_def k [symmetric] mult.commute)
  then show ?thesis
    using k by (simp add: Math_round_of_int)
qed

lemma twoPtRound_int: "isInt num \<Longrightarrow> twoPtRound num = num"
  by (rule twoPtRound_on_grid) (simp add: isInt_iff)

lemma twoPtRound_half_int:
  assumes "isInt (num - 1 / 2)"
  shows "twoPtRound num = num"
proof -
  obtain k :: int where k: "num - 1 / 2 = of_int k"
    using assms by (auto simp: isInt_iff elim: Ints_cases)
  have "100 * num = of_int (100 * k + 50)"
    using k by (simp add: algebra_simps)
  then have "100 * num \<in> \<int>"
    by (metis Ints_of_int)
  then show ?thesis by (rule twoPtRound_on_grid)
qed

lemma halfRound_int: "isInt num \<Longrightarrow> halfRound num = num"
  by (rule halfRound_on_grid) (simp add: isInt_iff)

lemma halfRound_half_int:
  assumes "isInt (num - 1 / 2)"
  shows "halfRound num = num"
proof -
  obtain k :: int where k: "num - 1 / 2 = of_int k"
    using assms by (auto simp: isInt_iff elim: Ints_cases)
  have "2 * num = of_int (2 * k + 1)"
    using k by (simp add: algebra_simps)
  then have "2 * num \<in> \<int>"
    by (metis Ints_of_int)
  then show ?thesis by (rule halfRound_on_grid)
qed

lemma not_int_and_half_int: "isInt num \<Longrightarrow> \<not> isInt (num - 1 / 2)"
proof
  assume "isInt num" and "isInt (num - 1 / 2)"
  then obtain i k :: int where "num = of_int i" and "num - 1 / 2 = of_int k"
    by (auto simp: isInt_iff elim!: Ints_cases)
  then have "(of_int (2 * i) :: real) = of_int (2 * k + 1)"
    by simp
  then have "2 * i = 2 * k + 1"
    by (simp only: of_int_eq_iff)
  then show False by presburger
qed

text \<open>A half-rounded number is an integer or an integer plus one half, never both.\<close>

lemma halfRound_cases: "isInt (halfRound num) \<noteq> isInt (halfRound num - 1 / 2)"
proof (cases "even \<lfloor>2 * num + 1 / 2\<rfloor>")
  case True
  then obtain j where j: "\<lfloor>2 * num + 1 / 2\<rfloor> = 2 * j"
    by (auto elim: evenE)
  have "halfRound num = of_int j"
    by (simp add: halfRound_floor j)
  then have "isInt (halfRound num)"
    by (simp add: isInt_of_int)
  then show ?thesis
    using not_int_and_half_int by blast
next
  case False
  then obtain j where j: "\<lfloor>2 * num + 1 / 2\<rfloor> = 2 * j + 1"
    by (auto elim: oddE)
  have "halfRound num - 1 / 2 = of_int j"
    by (simp add: halfRound_floor j add_divide_distrib)
  then have "isInt (halfRound num - 1 / 2)"
    by (simp add: isInt_of_int)
  then show ?thesis
    using not_int_and_half_int by blast
qed

lemma floor_ceil_half_int:
  assumes "isInt (h - 1 / 2)"
  shows "Math_floor h = h - 1 / 2" and "Math_ceil h = h + 1 / 2"
proof -
  obtain k :: int where k: "h - 1 / 2 = of_int k"
    using assms by (auto simp: isInt_iff elim: Ints_cases)
  then have h: "h = of_int k + 1 / 2" by simp
  have "\<lfloor>h\<rfloor> = k" unfolding h by linarith
  then show "Math_floor h = h - 1 / 2"
    by (simp add: Math_floor_def k)
  have "\<lceil>h\<rceil> = k + 1" unfolding h by linarith
  then show "Math_ceil h = h + 1 / 2"
    by (simp add: Math_ceil_def h)
qed

lemma floor_ceil_int:
  assumes "isInt h"
  shows "Math_floor h = h" and "Math_ceil h = h"
proof -
  obtain k :: int where k: "h = of_int k"
    using assms by (auto simp: isInt_iff elim: Ints_cases)
  show "Math_floor h = h" by (simp add: Math_floor_def k)
  show "Math_ceil h = h" by (simp add: Math_ceil_def k)
qed

lemma halfRound_neg_no_tie:
  assumes "2 * num + 1 / 2 \<notin> \<int>"
  shows "halfRound (- num) = - halfRound num"
proof -
  define y where "y = 2 * num + 1 / 2"
  have y: "y \<notin> \<int>" using assms by (simp add: y_def)
  have "of_int \<lfloor>y\<rfloor> < y"
    using y by (metis Ints_of_int of_int_floor_le order_le_less)
  then have "\<lfloor>1 - y\<rfloor> = - \<lfloor>y\<rfloor>"
    by linarith
  moreover have "2 * (- num) + 1 / 2 = 1 - y" by (simp add: y_def)
  ultimately show ?thesis
    by (simp add: halfRound_floor y_def)
qed

lemma halfRound_neg_tie:
  assumes "2 * num + 1 / 2 \<in> \<int>"
  shows "halfRound (- num) = - halfRound num + 1 / 2"
proof -
  obtain k :: int where k: "2 * num + 1 / 2 = of_int k"
    using assms by (auto elim: Ints_cases)
  have "2 * (- num) + 1 / 2 = of_int (1 - k)" using k by simp
  then have "\<lfloor>2 * (- num) + 1 / 2\<rfloor> = 1 - k" by (metis floor_of_int)
  moreover have "\<lfloor>2 * num + 1 / 2\<rfloor> = k" using k by simp
  ultimately show ?thesis by (simp add: halfRound_floor diff_divide_distrib)
qed


section \<open>Claims about the rounding helpers and the cell classification\<close>

text \<open>
  C10 (as amended). \<open>halfRound\<close> computes \<open>Math.round (num * 2) / 2\<close>, which is the floor
  of \<open>2 * num + 1/2\<close>, halved: it rounds to the nearest half unit and resolves a tie towards
  plus infinity. So \<open>halfRound (- num) = - halfRound num\<close> holds exactly off the ties (when
  \<open>2 * num + 1/2\<close> is not an integer), and on a tie the two differ by one half. \<open>isInt\<close>
  computes \<open>num % 1 === 0\<close> and holds exactly for the whole numbers, the negative ones
  included.
\<close>

theorem halfRound_isInt_negative:
  "halfRound num = Math_round (num * 2) / 2
   \<and> halfRound num = of_int \<lfloor>2 * num + 1 / 2\<rfloor> / 2
   \<and> isInt num = (js_rem num 1 = 0)
   \<and> (isInt num \<longleftrightarrow> num \<in> \<int>)
   \<and> isInt (of_int k) \<and> isInt (- of_int k)
   \<and> (2 * num + 1 / 2 \<notin> \<int> \<longrightarrow> halfRound (- num) = - halfRound num)
   \<and> (2 * num + 1 / 2 \<in> \<int> \<longrightarrow> halfRound (- num) = - halfRound num + 1 / 2)"
proof (intro conjI impI)
  show "halfRound num = Math_round (num * 2) / 2"
    by (simp add: halfRound_def)
  show "halfRound num = of_int \<lfloor>2 * num + 1 / 2\<rfloor> / 2"
    by (rule halfRound_floor)
  show "isInt num = (js_rem num 1 = 0)"
    by (simp add: isInt_def)
  show "isInt num \<longleftrightarrow> num \<in> \<int>"
    by (rule isInt_iff)
  show "isInt (of_int k)"
    by (rule isInt_of_int)
  show "isInt (- of_int k)"
    using isInt_of_int [of "- k"] by simp
  show "halfRound (- num) = - halfRound num" if "2 * num + 1 / 2 \<notin> \<int>"
    using that by (rule halfRound_neg_no_tie)
  show "halfRound (- num) = - halfRound num + 1 / 2" if "2 * num + 1 / 2 \<in> \<int>"
    using that by (rule halfRound_neg_tie)
qed

theorem halfRound_isInt_negative_witness:
  "halfRound (- (- (3 / 2))) = - halfRound (- (3 / 2))
   \<and> halfRound (- (1 / 4)) = - halfRound (1 / 4) + 1 / 2
   \<and> isInt (- 3) \<and> halfRound (- (3 / 2)) = - (3 / 2)"
proof -
  have no_tie: "2 * (- (3 / 2)) + 1 / 2 \<notin> (\<int> :: real set)"
  proof
    assume "2 * (- (3 / 2)) + 1 / 2 \<in> (\<int> :: real set)"
    then obtain k :: int where "(2 * (- (3 / 2)) + 1 / 2 :: real) = of_int k"
      by (auto elim: Ints_cases)
    then have "(of_int (2 * k) :: real) = of_int (- 5)" by simp
    then have "2 * k = - 5" by (simp only: of_int_eq_iff)
    then show False by presburger
  qed
  have tie: "2 * (1 / 4) + 1 / 2 \<in> (\<int> :: real set)" by simp
  have a: "halfRound (- (- (3 / 2))) = - halfRound (- (3 / 2))"
    using halfRound_isInt_negative [of "- (3 / 2)" 3] no_tie by blast
  have b: "halfRound (- (1 / 4)) = - halfRound (1 / 4) + 1 / 2"
    using halfRound_isInt_negative [of "1 / 4" 3] tie by blast
  have c: "isInt (- 3)"
    using halfRound_isInt_negative [of 0 3] by simp
  have d: "halfRound (- (3 / 2)) = - (3 / 2)"
    by (simp add: halfRound_def Math_round_def)
  from a b c d show ?thesis by blast
qed

text \<open>
  C10 as stated fails: the rounding is not symmetric about zero. One quarter is a tie and is
  rounded up to one half, but minus one quarter is a tie too and is rounded up to zero.
\<close>

theorem halfRound_not_symmetric:
  "halfRound (1 / 4) = 1 / 2 \<and> halfRound (- (1 / 4)) = 0
   \<and> halfRound (- (1 / 4)) \<noteq> - halfRound (1 / 4)
   \<and> \<not> (\<forall>num. halfRound (- num) = - halfRound num)"
proof -
  have a: "halfRound (1 / 4) = 1 / 2"
    by (simp add: halfRound_def Math_round_def)
  have b: "halfRound (- (1 / 4)) = 0"
    by (simp add: halfRound_def Math_round_def)
  have c: "halfRound (- (1 / 4)) \<noteq> - halfRound (1 / 4)"
    by (simp add: a b)
  then have "\<not> (\<forall>num. halfRound (- num) = - halfRound num)"
    by blast
  with a b c show ?thesis by blast
qed

text \<open>
  C2. When both half-rounded coordinates are integers, \<open>getBlockPos\<close> returns the one cell
  they name. When exactly one of them is not an integer, it is an integer plus one half, and
  \<open>getBlockPos\<close> returns two cells: that coordinate's floor and ceiling, which differ by 1,
  each with the other coordinate unchanged.
\<close>

theorem getBlockPos_cells:
  "(isInt (halfRound (vx (position b))) \<and> isInt (halfRound (vz (position b))) \<longrightarrow>
      getBlockPos b = [\<lparr>cx = halfRound (vx (position b)), cz = halfRound (vz (position b))\<rparr>])
   \<and> (\<not> isInt (halfRound (vx (position b))) \<and> isInt (halfRound (vz (position b))) \<longrightarrow>
      isInt (halfRound (vx (position b)) - 1 / 2)
      \<and> getBlockPos b =
          [\<lparr>cx = Math_floor (halfRound (vx (position b))), cz = halfRound (vz (position b))\<rparr>,
           \<lparr>cx = Math_ceil (halfRound (vx (position b))), cz = halfRound (vz (position b))\<rparr>]
      \<and> Math_floor (halfRound (vx (position b))) = halfRound (vx (position b)) - 1 / 2
      \<and> Math_ceil (halfRound (vx (position b))) = Math_floor (halfRound (vx (position b))) + 1)
   \<and> (isInt (halfRound (vx (position b))) \<and> \<not> isInt (halfRound (vz (position b))) \<longrightarrow>
      isInt (halfRound (vz (position b)) - 1 / 2)
      \<and> getBlockPos b =
          [\<lparr>cx = halfRound (vx (position b)), cz = Math_floor (halfRound (vz (position b)))\<rparr>,
           \<lparr>cx = halfRound (vx (position b)), cz = Math_ceil (halfRound (vz (position b)))\<rparr>]
      \<and> Math_floor (halfRound (vz (position b))) = halfRound (vz (position b)) - 1 / 2
      \<and> Math_ceil (halfRound (vz (position b))) = Math_floor (halfRound (vz (position b))) + 1)"
proof (intro conjI impI)
  assume "isInt (halfRound (vx (position b))) \<and> isInt (halfRound (vz (position b)))"
  then show "getBlockPos b
      = [\<lparr>cx = halfRound (vx (position b)), cz = halfRound (vz (position b))\<rparr>]"
    by (simp add: getBlockPos_def Vector2XZ_halfRound_def)
next
  assume a: "\<not> isInt (halfRound (vx (position b))) \<and> isInt (halfRound (vz (position b)))"
  then show hx: "isInt (halfRound (vx (position b)) - 1 / 2)"
    using halfRound_cases [of "vx (position b)"] by blast
  show "getBlockPos b =
          [\<lparr>cx = Math_floor (halfRound (vx (position b))), cz = halfRound (vz (position b))\<rparr>,
           \<lparr>cx = Math_ceil (halfRound (vx (position b))), cz = halfRound (vz (position b))\<rparr>]"
    using a floor_ceil_int [of "halfRound (vz (position b))"]
    by (simp add: getBlockPos_def Vector2XZ_halfRound_def Vector2XZ_floor_def Vector2XZ_ceil_def)
  show "Math_floor (halfRound (vx (position b))) = halfRound (vx (position b)) - 1 / 2"
    using floor_ceil_half_int [OF hx] by simp
  show "Math_ceil (halfRound (vx (position b))) = Math_floor (halfRound (vx (position b))) + 1"
    using floor_ceil_half_int [OF hx] by simp
next
  assume a: "isInt (halfRound (vx (position b))) \<and> \<not> isInt (halfRound (vz (position b)))"
  then show hz: "isInt (halfRound (vz (position b)) - 1 / 2)"
    using halfRound_cases [of "vz (position b)"] by blast
  show "getBlockPos b =
          [\<lparr>cx = halfRound (vx (position b)), cz = Math_floor (halfRound (vz (position b)))\<rparr>,
           \<lparr>cx = halfRound (vx (position b)), cz = Math_ceil (halfRound (vz (position b)))\<rparr>]"
    using a floor_ceil_int [of "halfRound (vx (position b))"]
    by (simp add: getBlockPos_def Vector2XZ_halfRound_def Vector2XZ_floor_def Vector2XZ_ceil_def)
  show "Math_floor (halfRound (vz (position b))) = halfRound (vz (position b)) - 1 / 2"
    using floor_ceil_half_int [OF hz] by simp
  show "Math_ceil (halfRound (vz (position b))) = Math_floor (halfRound (vz (position b))) + 1"
    using floor_ceil_half_int [OF hz] by simp
qed

theorem getBlockPos_cells_witness:
  "getBlockPos (createBlock (5, 1) 0) = [\<lparr>cx = 5, cz = 1\<rparr>]
   \<and> getBlockPos ((Mesh_new 0)\<lparr>position := \<lparr>vx = 7 / 2, vy = 1 / 2, vz = 1\<rparr>\<rparr>)
       = [\<lparr>cx = 3, cz = 1\<rparr>, \<lparr>cx = 4, cz = 1\<rparr>]
   \<and> getBlockPos ((Mesh_new 0)\<lparr>position := \<lparr>vx = - 2, vy = 1 / 2, vz = - (5 / 2)\<rparr>\<rparr>)
       = [\<lparr>cx = - 2, cz = - 3\<rparr>, \<lparr>cx = - 2, cz = - 2\<rparr>]"
proof -
  have a: "getBlockPos (createBlock (5, 1) 0) = [\<lparr>cx = 5, cz = 1\<rparr>]"
    using getBlockPos_cells [of "createBlock (5, 1) 0"]
    by (simp add: createBlock_def Mesh_new_def halfRound_def Math_round_def isInt_def
        js_rem_def truncInt_def)
  have b: "getBlockPos ((Mesh_new 0)\<lparr>position := \<lparr>vx = 7 / 2, vy = 1 / 2, vz = 1\<rparr>\<rparr>)
       = [\<lparr>cx = 3, cz = 1\<rparr>, \<lparr>cx = 4, cz = 1\<rparr>]"
    using getBlockPos_cells [of "(Mesh_new 0)\<lparr>position := \<lparr>vx = 7 / 2, vy = 1 / 2, vz = 1\<rparr>\<rparr>"]
    by (simp add: Mesh_new_def halfRound_def Math_round_def isInt_def
        js_rem_def truncInt_def Math_floor_def Math_ceil_def)
  have c: "getBlockPos ((Mesh_new 0)\<lparr>position := \<lparr>vx = - 2, vy = 1 / 2, vz = - (5 / 2)\<rparr>\<rparr>)
       = [\<lparr>cx = - 2, cz = - 3\<rparr>, \<lparr>cx = - 2, cz = - 2\<rparr>]"
    using getBlockPos_cells [of "(Mesh_new 0)\<lparr>position := \<lparr>vx = - 2, vy = 1 / 2, vz = - (5 / 2)\<rparr>\<rparr>"]
    by (simp add: Mesh_new_def halfRound_def Math_round_def isInt_def
        js_rem_def truncInt_def Math_floor_def Math_ceil_def)
  from a b c show ?thesis by blast
qed


section \<open>Properties of the rotation about a world axis\<close>

lemma Vector3_eqI:
  "vx a = vx b \<Longrightarrow> vy a = vy b \<Longrightarrow> vz a = vz b \<Longrightarrow> (a :: Vector3) = b"
  by simp

lemma Quaternion_eqI:
  "qx a = qx b \<Longrightarrow> qy a = qy b \<Longrightarrow> qz a = qz b \<Longrightarrow> qw a = qw b \<Longrightarrow> (a :: Quaternion) = b"
  by simp

lemma applyQuaternion_axis:
  "Vector3_applyQuaternion w (setFromAxisAngle a \<theta>) = rodrigues a (sin \<theta>) (cos \<theta>) w"
proof -
  define s where "s = sin (\<theta> / 2)"
  define c where "c = cos (\<theta> / 2)"
  have S: "sin \<theta> = 2 * s * c"
    using sin_double [of "\<theta> / 2"] by (simp add: s_def c_def)
  have C: "cos \<theta> = 1 - 2 * s * s"
    using cos_double_sin [of "\<theta> / 2"] by (simp add: s_def power2_eq_square)
  show ?thesis
    unfolding Vector3_applyQuaternion_def setFromAxisAngle_def rodrigues_def Let_def S C
      s_def [symmetric] c_def [symmetric]
    by (simp add: algebra_simps)
qed

lemma rodrigues_compose:
  assumes "unitVector a"
  shows "rodrigues a S2 C2 (rodrigues a S1 C1 w)
         = rodrigues a (S1 * C2 + C1 * S2) (C1 * C2 - S1 * S2) w"
proof (rule Vector3_eqI)
  have unit: "vx a * vx a + vy a * vy a + vz a * vz a = 1"
    using assms by (simp add: unitVector_def)
  show "vx (rodrigues a S2 C2 (rodrigues a S1 C1 w))
        = vx (rodrigues a (S1 * C2 + C1 * S2) (C1 * C2 - S1 * S2) w)"
    using unit unfolding rodrigues_def by simp algebra
  show "vy (rodrigues a S2 C2 (rodrigues a S1 C1 w))
        = vy (rodrigues a (S1 * C2 + C1 * S2) (C1 * C2 - S1 * S2) w)"
    using unit unfolding rodrigues_def by simp algebra
  show "vz (rodrigues a S2 C2 (rodrigues a S1 C1 w))
        = vz (rodrigues a (S1 * C2 + C1 * S2) (C1 * C2 - S1 * S2) w)"
    using unit unfolding rodrigues_def by simp algebra
qed

lemma applyQuaternion_compose:
  assumes "unitVector a"
  shows "Vector3_applyQuaternion (Vector3_applyQuaternion w (setFromAxisAngle a \<alpha>))
           (setFromAxisAngle a \<beta>)
         = Vector3_applyQuaternion w (setFromAxisAngle a (\<alpha> + \<beta>))"
  by (simp add: applyQuaternion_axis rodrigues_compose [OF assms] sin_add cos_add)

lemma multiplyQuaternions_assoc:
  "multiplyQuaternions a (multiplyQuaternions b c)
   = multiplyQuaternions (multiplyQuaternions a b) c"
  by (rule Quaternion_eqI) (simp_all add: multiplyQuaternions_def algebra_simps)

lemma setFromAxisAngle_compose:
  assumes "unitVector a"
  shows "multiplyQuaternions (setFromAxisAngle a \<beta>) (setFromAxisAngle a \<alpha>)
         = setFromAxisAngle a (\<alpha> + \<beta>)"
proof -
  define s1 where "s1 = sin (\<alpha> / 2)"
  define c1 where "c1 = cos (\<alpha> / 2)"
  define s2 where "s2 = sin (\<beta> / 2)"
  define c2 where "c2 = cos (\<beta> / 2)"
  have unit: "vx a * vx a + vy a * vy a + vz a * vz a = 1"
    using assms by (simp add: unitVector_def)
  have S: "sin ((\<alpha> + \<beta>) / 2) = s1 * c2 + c1 * s2"
    using sin_add [of "\<alpha> / 2" "\<beta> / 2"]
    by (simp add: add_divide_distrib s1_def c1_def s2_def c2_def)
  have C: "cos ((\<alpha> + \<beta>) / 2) = c1 * c2 - s1 * s2"
    using cos_add [of "\<alpha> / 2" "\<beta> / 2"]
    by (simp add: add_divide_distrib s1_def c1_def s2_def c2_def)
  have w: "c2 * c1 - vx a * s2 * (vx a * s1) - vy a * s2 * (vy a * s1) - vz a * s2 * (vz a * s1)
           = c1 * c2 - s1 * s2"
    using unit by algebra
  show ?thesis
    unfolding multiplyQuaternions_def setFromAxisAngle_def Let_def S C
      s1_def [symmetric] c1_def [symmetric] s2_def [symmetric] c2_def [symmetric]
    by (rule Quaternion_eqI) (simp_all add: w, simp_all add: algebra_simps)
qed

lemma Vector3_sub_add: "Vector3_sub (Vector3_add w p) p = w"
  by (simp add: Vector3_sub_def Vector3_add_def)

text \<open>Two rotations about the same point and unit axis add their angles.\<close>

lemma rotateAroundWorldAxis_compose:
  assumes "unitVector a"
  shows "rotateAroundWorldAxis (rotateAroundWorldAxis b p a \<alpha>) p a \<beta>
         = rotateAroundWorldAxis b p a (\<alpha> + \<beta>)"
  by (simp add: rotateAroundWorldAxis_def Object3D_applyQuaternion_def Let_def Vector3_sub_add
      applyQuaternion_compose [OF assms] multiplyQuaternions_assoc
      setFromAxisAngle_compose [OF assms])

lemma rotateAroundWorldAxis_zero: "rotateAroundWorldAxis b p a 0 = b"
  by (simp add: rotateAroundWorldAxis_def Object3D_applyQuaternion_def Let_def
      setFromAxisAngle_def multiplyQuaternions_def Vector3_applyQuaternion_def
      Vector3_sub_def Vector3_add_def)

lemma rotateAroundWorldAxis_funpow:
  assumes "unitVector a"
  shows "((\<lambda>b. rotateAroundWorldAxis b p a \<theta>) ^^ n) b = rotateAroundWorldAxis b p a (real n * \<theta>)"
proof (induction n)
  case 0
  show ?case by (simp add: rotateAroundWorldAxis_zero)
next
  case (Suc n)
  have "real (Suc n) * \<theta> = real n * \<theta> + \<theta>"
    by (simp add: algebra_simps)
  then show ?case
    by (simp add: Suc rotateAroundWorldAxis_compose [OF assms])
qed

lemma unitVector_axes: "unitVector xAxis" "unitVector yAxis" "unitVector zAxis"
  by (simp_all add: unitVector_def xAxis_def yAxis_def zAxis_def)

text \<open>The position after a rotation about the world \<open>z\<close> axis, and about the world \<open>x\<close> axis.\<close>

lemma position_rotate_zAxis:
  "position (rotateAroundWorldAxis b p zAxis \<theta>) =
     \<lparr>vx = vx p + (vx (position b) - vx p) * cos \<theta> - (vy (position b) - vy p) * sin \<theta>,
      vy = vy p + (vx (position b) - vx p) * sin \<theta> + (vy (position b) - vy p) * cos \<theta>,
      vz = vz (position b)\<rparr>"
  by (simp add: rotateAroundWorldAxis_def Object3D_applyQuaternion_def Let_def
      applyQuaternion_axis rodrigues_def zAxis_def Vector3_sub_def Vector3_add_def algebra_simps)

lemma position_rotate_xAxis:
  "position (rotateAroundWorldAxis b p xAxis \<theta>) =
     \<lparr>vx = vx (position b),
      vy = vy p + (vy (position b) - vy p) * cos \<theta> - (vz (position b) - vz p) * sin \<theta>,
      vz = vz p + (vy (position b) - vy p) * sin \<theta> + (vz (position b) - vz p) * cos \<theta>\<rparr>"
  by (simp add: rotateAroundWorldAxis_def Object3D_applyQuaternion_def Let_def
      applyQuaternion_axis rodrigues_def xAxis_def Vector3_sub_def Vector3_add_def algebra_simps)

text \<open>The eighteen steps of the rotation interval amount to one rotation by the whole angle.\<close>

lemma eighteen_steps:
  assumes "unitVector a"
  shows "((\<lambda>b. rotateAroundWorldAxis b p a (\<theta> / 18)) ^^ 18) b = rotateAroundWorldAxis b p a \<theta>"
  by (simp add: rotateAroundWorldAxis_funpow [OF assms])


text \<open>Quarter turns about the world \<open>z\<close> and \<open>x\<close> axes, by position.\<close>

lemma quarter_turn_zAxis:
  "position (rotateAroundWorldAxis b p zAxis ninetyDegRad) =
     \<lparr>vx = vx p - (vy (position b) - vy p), vy = vy p + (vx (position b) - vx p),
      vz = vz (position b)\<rparr>"
  "position (rotateAroundWorldAxis b p zAxis (- ninetyDegRad)) =
     \<lparr>vx = vx p + (vy (position b) - vy p), vy = vy p - (vx (position b) - vx p),
      vz = vz (position b)\<rparr>"
  by (simp_all add: position_rotate_zAxis ninetyDegRad_def)

lemma quarter_turn_xAxis:
  "position (rotateAroundWorldAxis b p xAxis ninetyDegRad) =
     \<lparr>vx = vx (position b), vy = vy p - (vz (position b) - vz p),
      vz = vz p + (vy (position b) - vy p)\<rparr>"
  "position (rotateAroundWorldAxis b p xAxis (- ninetyDegRad)) =
     \<lparr>vx = vx (position b), vy = vy p + (vz (position b) - vz p),
      vz = vz p - (vy (position b) - vy p)\<rparr>"
  by (simp_all add: position_rotate_xAxis ninetyDegRad_def)


section \<open>Claim about four quarter turns\<close>

text \<open>
  C9. Four applications of \<open>rotateAroundWorldAxis\<close> with the same point, the same unit axis
  and the same angle of plus or minus ninety degrees return the body to where it was: the
  position is the original position, and the orientation is the original orientation. The
  stored quaternion comes back with all four components negated, which denotes the same
  orientation: the rotation matrix three.js composes from it, and the rotation it applies to
  any vector, are those of the original quaternion. This is exact real arithmetic; rounding
  error of the floating-point implementation is outside the model.
\<close>

theorem rotate_four_quarter_turns:
  assumes "unitVector axis"
    and "angle = ninetyDegRad \<or> angle = - ninetyDegRad"
    and "r4 = rotateAroundWorldAxis (rotateAroundWorldAxis (rotateAroundWorldAxis
                (rotateAroundWorldAxis object point axis angle) point axis angle)
                point axis angle) point axis angle"
  shows "position r4 = position object
         \<and> visible r4 = visible object
         \<and> quaternion r4 = \<lparr>qx = - qx (quaternion object), qy = - qy (quaternion object),
                             qz = - qz (quaternion object), qw = - qw (quaternion object)\<rparr>
         \<and> rotationMatrix (quaternion r4) = rotationMatrix (quaternion object)
         \<and> Vector3_applyQuaternion v (quaternion r4)
             = Vector3_applyQuaternion v (quaternion object)"
proof -
  have r4: "r4 = rotateAroundWorldAxis object point axis (4 * angle)"
    unfolding assms(3) by (simp add: rotateAroundWorldAxis_compose [OF assms(1)])
  have half: "4 * angle / 2 = 2 * angle"
    by simp
  have "2 * angle = pi \<or> 2 * angle = - pi"
    using assms(2) by (auto simp: ninetyDegRad_def)
  then have "sin (2 * angle) = 0 \<and> cos (2 * angle) = - 1"
    by (elim disjE) simp_all
  then have q: "setFromAxisAngle axis (4 * angle) = \<lparr>qx = 0, qy = 0, qz = 0, qw = - 1\<rparr>"
    unfolding setFromAxisAngle_def Let_def half by simp
  have pos: "position r4 = position object"
    unfolding r4 rotateAroundWorldAxis_def Let_def q
    by (simp add: Object3D_applyQuaternion_def Vector3_applyQuaternion_def
        Vector3_sub_def Vector3_add_def)
  have vis: "visible r4 = visible object"
    unfolding r4 rotateAroundWorldAxis_def Let_def q
    by (simp add: Object3D_applyQuaternion_def)
  have quat: "quaternion r4 = \<lparr>qx = - qx (quaternion object), qy = - qy (quaternion object),
                             qz = - qz (quaternion object), qw = - qw (quaternion object)\<rparr>"
    unfolding r4 rotateAroundWorldAxis_def Let_def q
    by (simp add: Object3D_applyQuaternion_def multiplyQuaternions_def)
  have mat: "rotationMatrix (quaternion r4) = rotationMatrix (quaternion object)"
    unfolding quat by (simp add: rotationMatrix_def Let_def algebra_simps)
  have app: "Vector3_applyQuaternion v (quaternion r4)
             = Vector3_applyQuaternion v (quaternion object)"
    unfolding quat by (simp add: Vector3_applyQuaternion_def Let_def algebra_simps)
  from pos vis quat mat app show ?thesis by blast
qed

theorem rotate_four_quarter_turns_witness:
  "position (rotateAroundWorldAxis (rotateAroundWorldAxis (rotateAroundWorldAxis
      (rotateAroundWorldAxis (createBlock (5, 1) 0) \<lparr>vx = 11 / 2, vy = 0, vz = 0\<rparr> zAxis
         (- ninetyDegRad)) \<lparr>vx = 11 / 2, vy = 0, vz = 0\<rparr> zAxis (- ninetyDegRad))
      \<lparr>vx = 11 / 2, vy = 0, vz = 0\<rparr> zAxis (- ninetyDegRad))
      \<lparr>vx = 11 / 2, vy = 0, vz = 0\<rparr> zAxis (- ninetyDegRad))
   = \<lparr>vx = 5, vy = 1, vz = 1\<rparr>
   \<and> rotationMatrix (quaternion (rotateAroundWorldAxis (rotateAroundWorldAxis
        (rotateAroundWorldAxis (rotateAroundWorldAxis (createBlock (5, 1) 0)
           \<lparr>vx = 11 / 2, vy = 0, vz = 0\<rparr> zAxis (- ninetyDegRad))
           \<lparr>vx = 11 / 2, vy = 0, vz = 0\<rparr> zAxis (- ninetyDegRad))
        \<lparr>vx = 11 / 2, vy = 0, vz = 0\<rparr> zAxis (- ninetyDegRad))
        \<lparr>vx = 11 / 2, vy = 0, vz = 0\<rparr> zAxis (- ninetyDegRad)))
     = (\<lparr>vx = 1, vy = 0, vz = 0\<rparr>, \<lparr>vx = 0, vy = 1, vz = 0\<rparr>, \<lparr>vx = 0, vy = 0, vz = 1\<rparr>)"
proof -
  have unit: "unitVector zAxis"
    by (simp add: unitVector_def zAxis_def)
  have ang: "- ninetyDegRad = ninetyDegRad \<or> - ninetyDegRad = - ninetyDegRad"
    by simp
  let ?p = "\<lparr>vx = 11 / 2, vy = 0, vz = 0\<rparr>"
  let ?r4 = "rotateAroundWorldAxis (rotateAroundWorldAxis (rotateAroundWorldAxis
      (rotateAroundWorldAxis (createBlock (5, 1) 0) ?p zAxis (- ninetyDegRad))
      ?p zAxis (- ninetyDegRad)) ?p zAxis (- ninetyDegRad)) ?p zAxis (- ninetyDegRad)"
  note t = rotate_four_quarter_turns [OF unit ang refl, of "createBlock (5, 1) 0" ?p]
  have a: "position ?r4 = position (createBlock (5, 1) 0)"
    using t by blast
  have b: "rotationMatrix (quaternion ?r4) = rotationMatrix (quaternion (createBlock (5, 1) 0))"
    using t by blast
  have p: "position (createBlock (5, 1) 0) = \<lparr>vx = 5, vy = 1, vz = 1\<rparr>"
    by (simp add: createBlock_def Mesh_new_def)
  have m: "rotationMatrix (quaternion (createBlock (5, 1) 0))
           = (\<lparr>vx = 1, vy = 0, vz = 0\<rparr>, \<lparr>vx = 0, vy = 1, vz = 0\<rparr>, \<lparr>vx = 0, vy = 0, vz = 1\<rparr>)"
    by (simp add: createBlock_def Mesh_new_def rotationMatrix_def Let_def)
  show ?thesis
    unfolding a b p m by (rule conjI) (rule refl)+
qed


section \<open>Claims about the pivot offset and the direction table\<close>

lemma twoPtRound_one: "twoPtRound 1 = 1"
  by (simp add: twoPtRound_def Math_round_def)

lemma twoPtRound_half: "twoPtRound (1 / 2) = 1 / 2"
  by (simp add: twoPtRound_def Math_round_def)

lemma half_int_not_int: "isInt (num - 1 / 2) \<Longrightarrow> \<not> isInt num"
  using not_int_and_half_int by blast

lemma standingD:
  assumes "standing b"
  shows "vy (position b) = 1" and "isInt (vx (position b))" and "isInt (vz (position b))"
  using assms by (simp_all add: standing_def)

lemma lyingAlongXD:
  assumes "lyingAlongX b"
  shows "vy (position b) = 1 / 2" and "isInt (vx (position b) - 1 / 2)"
    and "isInt (vz (position b))"
  using assms by (simp_all add: lyingAlongX_def)

lemma lyingAlongZD:
  assumes "lyingAlongZ b"
  shows "vy (position b) = 1 / 2" and "isInt (vx (position b))"
    and "isInt (vz (position b) - 1 / 2)"
  using assms by (simp_all add: lyingAlongZ_def)

lemma atRest_twoPtRound:
  assumes "atRest b"
  shows "twoPtRound (vx (position b)) = vx (position b)"
    and "twoPtRound (vy (position b)) = vy (position b)"
    and "twoPtRound (vz (position b)) = vz (position b)"
proof -
  have "twoPtRound (vx (position b)) = vx (position b)
        \<and> twoPtRound (vy (position b)) = vy (position b)
        \<and> twoPtRound (vz (position b)) = vz (position b)"
    using assms unfolding atRest_def
  proof (elim disjE)
    assume s: "standing b"
    show ?thesis
      unfolding standingD(1) [OF s]
      by (simp only: twoPtRound_one twoPtRound_int [OF standingD(2) [OF s]]
          twoPtRound_int [OF standingD(3) [OF s]])
  next
    assume s: "lyingAlongX b"
    show ?thesis
      unfolding lyingAlongXD(1) [OF s]
      by (simp only: twoPtRound_half twoPtRound_half_int [OF lyingAlongXD(2) [OF s]]
          twoPtRound_int [OF lyingAlongXD(3) [OF s]])
  next
    assume s: "lyingAlongZ b"
    show ?thesis
      unfolding lyingAlongZD(1) [OF s]
      by (simp only: twoPtRound_half twoPtRound_int [OF lyingAlongZD(2) [OF s]]
          twoPtRound_half_int [OF lyingAlongZD(3) [OF s]])
  qed
  then show "twoPtRound (vx (position b)) = vx (position b)"
    and "twoPtRound (vy (position b)) = vy (position b)"
    and "twoPtRound (vz (position b)) = vz (position b)"
    by blast+
qed

text \<open>
  C3. \<open>offsetRotPointX\<close> is 1 exactly when the height of the block, rounded to two places, is
  one half and its \<open>z\<close> coordinate, rounded to two places, is an integer; otherwise it is one
  half. \<open>offsetRotPointZ\<close> is the same with \<open>x\<close> for \<open>z\<close>. For a block at rest this means:
  standing, both offsets are one half; lying along \<open>x\<close>, the \<open>x\<close> offset is 1 and the \<open>z\<close>
  offset one half; lying along \<open>z\<close>, the other way round.
\<close>

theorem offsetRotPoint_values:
  "(offsetRotPointX lvl = 1 \<longleftrightarrow>
      twoPtRound (vy (position (block lvl))) = 1 / 2
      \<and> isInt (twoPtRound (vz (position (block lvl)))))
   \<and> (offsetRotPointX lvl = 1 \<or> offsetRotPointX lvl = 1 / 2)
   \<and> (offsetRotPointZ lvl = 1 \<longleftrightarrow>
      twoPtRound (vy (position (block lvl))) = 1 / 2
      \<and> isInt (twoPtRound (vx (position (block lvl)))))
   \<and> (offsetRotPointZ lvl = 1 \<or> offsetRotPointZ lvl = 1 / 2)
   \<and> (standing (block lvl) \<longrightarrow> offsetRotPointX lvl = 1 / 2 \<and> offsetRotPointZ lvl = 1 / 2)
   \<and> (lyingAlongX (block lvl) \<longrightarrow> offsetRotPointX lvl = 1 \<and> offsetRotPointZ lvl = 1 / 2)
   \<and> (lyingAlongZ (block lvl) \<longrightarrow> offsetRotPointX lvl = 1 / 2 \<and> offsetRotPointZ lvl = 1)"
proof (intro conjI impI)
  show "offsetRotPointX lvl = 1 \<longleftrightarrow>
      twoPtRound (vy (position (block lvl))) = 1 / 2
      \<and> isInt (twoPtRound (vz (position (block lvl))))"
    by (simp add: offsetRotPointX_def)
  show "offsetRotPointX lvl = 1 \<or> offsetRotPointX lvl = 1 / 2"
    by (simp add: offsetRotPointX_def)
  show "offsetRotPointZ lvl = 1 \<longleftrightarrow>
      twoPtRound (vy (position (block lvl))) = 1 / 2
      \<and> isInt (twoPtRound (vx (position (block lvl))))"
    by (simp add: offsetRotPointZ_def)
  show "offsetRotPointZ lvl = 1 \<or> offsetRotPointZ lvl = 1 / 2"
    by (simp add: offsetRotPointZ_def)
next
  assume s: "standing (block lvl)"
  have "twoPtRound (vy (position (block lvl))) = 1"
    unfolding standingD(1) [OF s] by (rule twoPtRound_one)
  then show "offsetRotPointX lvl = 1 / 2" and "offsetRotPointZ lvl = 1 / 2"
    by (simp_all add: offsetRotPointX_def offsetRotPointZ_def)
next
  assume a: "lyingAlongX (block lvl)"
  have y: "twoPtRound (vy (position (block lvl))) = 1 / 2"
    unfolding lyingAlongXD(1) [OF a] by (rule twoPtRound_half)
  have z: "isInt (twoPtRound (vz (position (block lvl))))"
    using a by (simp add: lyingAlongX_def twoPtRound_int)
  have x: "\<not> isInt (twoPtRound (vx (position (block lvl))))"
    using a by (simp add: lyingAlongX_def twoPtRound_half_int half_int_not_int)
  show "offsetRotPointX lvl = 1"
    using y z by (simp add: offsetRotPointX_def)
  show "offsetRotPointZ lvl = 1 / 2"
    using x by (simp add: offsetRotPointZ_def)
next
  assume a: "lyingAlongZ (block lvl)"
  have y: "twoPtRound (vy (position (block lvl))) = 1 / 2"
    unfolding lyingAlongZD(1) [OF a] by (rule twoPtRound_half)
  have x: "isInt (twoPtRound (vx (position (block lvl))))"
    using a by (simp add: lyingAlongZ_def twoPtRound_int)
  have z: "\<not> isInt (twoPtRound (vz (position (block lvl))))"
    using a by (simp add: lyingAlongZ_def twoPtRound_half_int half_int_not_int)
  show "offsetRotPointX lvl = 1 / 2"
    using z by (simp add: offsetRotPointX_def)
  show "offsetRotPointZ lvl = 1"
    using y x by (simp add: offsetRotPointZ_def)
qed

theorem offsetRotPoint_values_witness:
  "offsetRotPointX \<lparr>totalLevels = 11, levelNum = 0, board = [],
       block = (Mesh_new 0)\<lparr>position := \<lparr>vx = 7 / 2, vy = 1 / 2, vz = 1\<rparr>\<rparr>, winTile = None\<rparr> = 1
   \<and> offsetRotPointZ \<lparr>totalLevels = 11, levelNum = 0, board = [],
       block = (Mesh_new 0)\<lparr>position := \<lparr>vx = 7 / 2, vy = 1 / 2, vz = 1\<rparr>\<rparr>, winTile = None\<rparr> = 1 / 2
   \<and> offsetRotPointX \<lparr>totalLevels = 11, levelNum = 0, board = [],
       block = createBlock (5, 1) 0, winTile = None\<rparr> = 1 / 2
   \<and> offsetRotPointZ \<lparr>totalLevels = 11, levelNum = 0, board = [],
       block = (Mesh_new 0)\<lparr>position := \<lparr>vx = 5, vy = 1 / 2, vz = - (3 / 2)\<rparr>\<rparr>, winTile = None\<rparr> = 1"
proof -
  let ?lx = "\<lparr>totalLevels = 11, levelNum = 0, board = [],
       block = (Mesh_new 0)\<lparr>position := \<lparr>vx = 7 / 2, vy = 1 / 2, vz = 1\<rparr>\<rparr>, winTile = None\<rparr>"
  let ?ls = "\<lparr>totalLevels = 11, levelNum = 0, board = [],
       block = createBlock (5, 1) 0, winTile = None\<rparr>"
  let ?lz = "\<lparr>totalLevels = 11, levelNum = 0, board = [],
       block = (Mesh_new 0)\<lparr>position := \<lparr>vx = 5, vy = 1 / 2, vz = - (3 / 2)\<rparr>\<rparr>, winTile = None\<rparr>"
  have lx: "lyingAlongX (block ?lx)"
    by (simp add: lyingAlongX_def Mesh_new_def isInt_def js_rem_def truncInt_def)
  have ls: "standing (block ?ls)"
    by (simp add: standing_def createBlock_def Mesh_new_def isInt_def js_rem_def truncInt_def)
  have lz: "lyingAlongZ (block ?lz)"
    by (simp add: lyingAlongZ_def Mesh_new_def isInt_def js_rem_def truncInt_def)
  have "offsetRotPointX ?lx = 1 \<and> offsetRotPointZ ?lx = 1 / 2"
    using offsetRotPoint_values [of ?lx] lx by blast
  moreover have "offsetRotPointX ?ls = 1 / 2"
    using offsetRotPoint_values [of ?ls] ls by blast
  moreover have "offsetRotPointZ ?lz = 1"
    using offsetRotPoint_values [of ?lz] lz by blast
  ultimately show ?thesis by blast
qed


section \<open>Claims about the validity of a roll and the win check\<close>

lemma forEach_isValid:
  "foldl (\<lambda>isValid bPos. if \<not> P bPos then False else isValid) acc cells
   = (acc \<and> list_all P cells)"
  by (induction cells arbitrary: acc) auto

lemma some_tile_iff:
  "list_ex (\<lambda>tilePos. cx tilePos = cx c \<and> cz tilePos = cz c)
     (map (\<lambda>tile. \<lparr>cx = vx (position tile), cz = vz (position tile)\<rparr>) (board lvl))
   \<longleftrightarrow> (cx c, cz c) \<in> tileCoordinates lvl"
  by (force simp: list_ex_iff tileCoordinates_def)

lemma isValidRotation_iff:
  "isValidRotation lvl point axis angle \<longleftrightarrow>
     (\<forall>c \<in> set (getBlockPos (getRotatedClone (block lvl) point axis angle)).
        (cx c, cz c) \<in> tileCoordinates lvl)"
  unfolding isValidRotation_def Let_def forEach_isValid
  by (simp add: list_all_iff some_tile_iff)

lemma getBlockPos_length: "length (getBlockPos b) = 1 \<or> length (getBlockPos b) = 2"
  by (simp add: getBlockPos_def)

text \<open>
  C1. The rotation is valid exactly when every cell the rotated clone of the block occupies
  (there are one or two) has its coordinates among the tiles of the board. When no animation
  is playing and the pause window is hidden, \<open>handleBlockMovement\<close> probes the quarter turn of
  the direction table: if every future cell is a tile it starts the rotation, and if any
  future cell is missing it starts the failed rotation instead.
\<close>

theorem roll_legal_iff_all_cells_tiled:
  "(isValidRotation lvl point axis angle \<longleftrightarrow>
      (\<forall>c \<in> set (getBlockPos (getRotatedClone (block lvl) point axis angle)).
         (cx c, cz c) \<in> tileCoordinates lvl))
   \<and> (length (getBlockPos (getRotatedClone (block lvl) point axis angle)) = 1
       \<or> length (getBlockPos (getRotatedClone (block lvl) point axis angle)) = 2)
   \<and> (\<not> animationPlaying g \<and> \<not> pauseVisible g
        \<and> handleBlockMovement_switch rotDir (level g) = (rotPoint, rotAxis, rotAngleMod) \<longrightarrow>
        ((\<forall>c \<in> set (getBlockPos (getRotatedClone (block (level g)) rotPoint rotAxis
                         (ninetyDegRad * rotAngleMod))).
            (cx c, cz c) \<in> tileCoordinates (level g)) \<longrightarrow>
         handleBlockMovement rotDir g
           = animateRotation rotPoint rotAxis (ninetyDegRad * rotAngleMod) g)
        \<and> ((\<exists>c \<in> set (getBlockPos (getRotatedClone (block (level g)) rotPoint rotAxis
                          (ninetyDegRad * rotAngleMod))).
              (cx c, cz c) \<notin> tileCoordinates (level g)) \<longrightarrow>
           handleBlockMovement rotDir g
             = animateFailedRotation rotPoint rotAxis (pi / (6 * rotAngleMod)) g))"
proof (intro conjI impI)
  show "isValidRotation lvl point axis angle \<longleftrightarrow>
      (\<forall>c \<in> set (getBlockPos (getRotatedClone (block lvl) point axis angle)).
         (cx c, cz c) \<in> tileCoordinates lvl)"
    by (rule isValidRotation_iff)
  show "length (getBlockPos (getRotatedClone (block lvl) point axis angle)) = 1
       \<or> length (getBlockPos (getRotatedClone (block lvl) point axis angle)) = 2"
    by (rule getBlockPos_length)
next
  assume a: "\<not> animationPlaying g \<and> \<not> pauseVisible g
        \<and> handleBlockMovement_switch rotDir (level g) = (rotPoint, rotAxis, rotAngleMod)"
    and "\<forall>c \<in> set (getBlockPos (getRotatedClone (block (level g)) rotPoint rotAxis
                         (ninetyDegRad * rotAngleMod))).
            (cx c, cz c) \<in> tileCoordinates (level g)"
  then have "isValidRotation (level g) rotPoint rotAxis (ninetyDegRad * rotAngleMod)"
    by (simp add: isValidRotation_iff)
  then show "handleBlockMovement rotDir g
           = animateRotation rotPoint rotAxis (ninetyDegRad * rotAngleMod) g"
    using a by (simp add: handleBlockMovement_def)
next
  assume a: "\<not> animationPlaying g \<and> \<not> pauseVisible g
        \<and> handleBlockMovement_switch rotDir (level g) = (rotPoint, rotAxis, rotAngleMod)"
    and "\<exists>c \<in> set (getBlockPos (getRotatedClone (block (level g)) rotPoint rotAxis
                          (ninetyDegRad * rotAngleMod))).
              (cx c, cz c) \<notin> tileCoordinates (level g)"
  then have "\<not> isValidRotation (level g) rotPoint rotAxis (ninetyDegRad * rotAngleMod)"
    by (simp add: isValidRotation_iff)
  then show "handleBlockMovement rotDir g
             = animateFailedRotation rotPoint rotAxis (pi / (6 * rotAngleMod)) g"
    using a by (simp add: handleBlockMovement_def)
qed


text \<open>
  A board with the tiles \<open>(0,0)\<close>, \<open>(1,0)\<close>, \<open>(2,0)\<close> and \<open>(0,1)\<close>, and a block lying across
  \<open>(0,0)\<close> and \<open>(1,0)\<close>. Towards \<open>+x\<close> the block would stand on \<open>(2,0)\<close>, a tile: the roll
  is accepted. Towards \<open>+z\<close> it would lie across \<open>(0,1)\<close> and \<open>(1,1)\<close>, of which only the
  first is a tile: the roll is rejected.
\<close>

theorem roll_legal_iff_all_cells_tiled_witness:
  "handleBlockMovement posX
     \<lparr>level = \<lparr>totalLevels = 11, levelNum = 0, board = fst (boardFromLayout [''###'', ''#  ''] 0),
               block = (Mesh_new 4)\<lparr>position := \<lparr>vx = 1 / 2, vy = 1 / 2, vz = 0\<rparr>\<rparr>,
               winTile = None\<rparr>,
      scene = [], nextObjectId = 5, animationPlaying = False, buttonLock = False, pauseVisible = False,
      timers = []\<rparr>
   = animateRotation \<lparr>vx = 3 / 2, vy = 0, vz = 0\<rparr> zAxis (- ninetyDegRad)
     \<lparr>level = \<lparr>totalLevels = 11, levelNum = 0, board = fst (boardFromLayout [''###'', ''#  ''] 0),
               block = (Mesh_new 4)\<lparr>position := \<lparr>vx = 1 / 2, vy = 1 / 2, vz = 0\<rparr>\<rparr>,
               winTile = None\<rparr>,
      scene = [], nextObjectId = 5, animationPlaying = False, buttonLock = False, pauseVisible = False,
      timers = []\<rparr>
   \<and> handleBlockMovement posZ
     \<lparr>level = \<lparr>totalLevels = 11, levelNum = 0, board = fst (boardFromLayout [''###'', ''#  ''] 0),
               block = (Mesh_new 4)\<lparr>position := \<lparr>vx = 1 / 2, vy = 1 / 2, vz = 0\<rparr>\<rparr>,
               winTile = None\<rparr>,
      scene = [], nextObjectId = 5, animationPlaying = False, buttonLock = False, pauseVisible = False,
      timers = []\<rparr>
   = animateFailedRotation \<lparr>vx = 0, vy = 0, vz = 1 / 2\<rparr> xAxis (pi / 6)
     \<lparr>level = \<lparr>totalLevels = 11, levelNum = 0, board = fst (boardFromLayout [''###'', ''#  ''] 0),
               block = (Mesh_new 4)\<lparr>position := \<lparr>vx = 1 / 2, vy = 1 / 2, vz = 0\<rparr>\<rparr>,
               winTile = None\<rparr>,
      scene = [], nextObjectId = 5, animationPlaying = False, buttonLock = False, pauseVisible = False,
      timers = []\<rparr>
   \<and> getBlockPos (getRotatedClone ((Mesh_new 4)\<lparr>position := \<lparr>vx = 1 / 2, vy = 1 / 2, vz = 0\<rparr>\<rparr>)
        \<lparr>vx = 0, vy = 0, vz = 1 / 2\<rparr> xAxis ninetyDegRad)
     = [\<lparr>cx = 0, cz = 1\<rparr>, \<lparr>cx = 1, cz = 1\<rparr>]"
proof -
  let ?b = "(Mesh_new 4)\<lparr>position := \<lparr>vx = 1 / 2, vy = 1 / 2, vz = 0\<rparr>\<rparr>"
  let ?lvl = "\<lparr>totalLevels = 11, levelNum = 0, board = fst (boardFromLayout [''###'', ''#  ''] 0),
               block = ?b, winTile = None\<rparr>"
  let ?g = "\<lparr>level = ?lvl, scene = [], nextObjectId = 5, animationPlaying = False, buttonLock = False,
             pauseVisible = False, timers = []\<rparr>"
  have tiles: "tileCoordinates ?lvl = {(0, 0), (1, 0), (2, 0), (0, 1)}"
    by (simp add: tileCoordinates_def boardFromLayout_def createTile_def Mesh_new_def Let_def)
  have ly: "lyingAlongX (block ?lvl)"
    by (simp add: lyingAlongX_def Mesh_new_def isInt_def js_rem_def truncInt_def)
  have off: "offsetRotPointX ?lvl = 1" "offsetRotPointZ ?lvl = 1 / 2"
    by (simp_all add: offsetRotPointX_def offsetRotPointZ_def Mesh_new_def twoPtRound_def
        Math_round_def isInt_def js_rem_def truncInt_def)
  have swX: "handleBlockMovement_switch posX (level ?g) = (\<lparr>vx = 3 / 2, vy = 0, vz = 0\<rparr>, zAxis, - 1)"
    by (simp add: handleBlockMovement_switch_def off)
      (simp add: Mesh_new_def twoPtRound_def Math_round_def)
  have swZ: "handleBlockMovement_switch posZ (level ?g) = (\<lparr>vx = 0, vy = 0, vz = 1 / 2\<rparr>, xAxis, 1)"
    by (simp add: handleBlockMovement_switch_def off)
      (simp add: Mesh_new_def twoPtRound_def Math_round_def)
  have cellsX: "getBlockPos (getRotatedClone (block (level ?g)) \<lparr>vx = 3 / 2, vy = 0, vz = 0\<rparr> zAxis
                  (ninetyDegRad * (- 1))) = [\<lparr>cx = 2, cz = 0\<rparr>]"
    by (simp add: getRotatedClone_def getBlockPos_def quarter_turn_zAxis Mesh_new_def
        halfRound_def Math_round_def isInt_def js_rem_def truncInt_def Vector2XZ_halfRound_def)
  have cellsZ: "getBlockPos (getRotatedClone (block (level ?g)) \<lparr>vx = 0, vy = 0, vz = 1 / 2\<rparr> xAxis
                  (ninetyDegRad * 1)) = [\<lparr>cx = 0, cz = 1\<rparr>, \<lparr>cx = 1, cz = 1\<rparr>]"
    by (simp add: getRotatedClone_def getBlockPos_def quarter_turn_xAxis Mesh_new_def
        halfRound_def Math_round_def isInt_def js_rem_def truncInt_def Vector2XZ_halfRound_def
        Vector2XZ_floor_def Vector2XZ_ceil_def Math_floor_def Math_ceil_def ceiling_def)
  have allX: "\<forall>c \<in> set (getBlockPos (getRotatedClone (block (level ?g))
                  \<lparr>vx = 3 / 2, vy = 0, vz = 0\<rparr> zAxis (ninetyDegRad * (- 1)))).
               (cx c, cz c) \<in> tileCoordinates (level ?g)"
    unfolding cellsX using tiles by simp
  have someZ: "\<exists>c \<in> set (getBlockPos (getRotatedClone (block (level ?g))
                  \<lparr>vx = 0, vy = 0, vz = 1 / 2\<rparr> xAxis (ninetyDegRad * 1))).
               (cx c, cz c) \<notin> tileCoordinates (level ?g)"
    unfolding cellsZ using tiles by simp
  have flags: "\<not> animationPlaying ?g \<and> \<not> pauseVisible ?g"
    by simp
  have a: "handleBlockMovement posX ?g
           = animateRotation \<lparr>vx = 3 / 2, vy = 0, vz = 0\<rparr> zAxis (ninetyDegRad * (- 1)) ?g"
    using roll_legal_iff_all_cells_tiled [of ?lvl undefined undefined undefined ?g posX
        "\<lparr>vx = 3 / 2, vy = 0, vz = 0\<rparr>" zAxis "- 1"] flags swX allX
    by blast
  have b: "handleBlockMovement posZ ?g
           = animateFailedRotation \<lparr>vx = 0, vy = 0, vz = 1 / 2\<rparr> xAxis (pi / (6 * 1)) ?g"
    using roll_legal_iff_all_cells_tiled [of ?lvl undefined undefined undefined ?g posZ
        "\<lparr>vx = 0, vy = 0, vz = 1 / 2\<rparr>" xAxis 1] flags swZ someZ
    by blast
  have c: "getBlockPos (getRotatedClone ?b \<lparr>vx = 0, vy = 0, vz = 1 / 2\<rparr> xAxis ninetyDegRad)
     = [\<lparr>cx = 0, cz = 1\<rparr>, \<lparr>cx = 1, cz = 1\<rparr>]"
    using cellsZ by simp
  from a b c show ?thesis by simp
qed


section \<open>The first level\<close>

lemma layout0_next: "snd (snd (boardFromLayout layout0 0)) = 45"
  by (simp add: boardFromLayout_def layout0_def Let_def)

lemma Level_new_0:
  "Level_new 0 0 =
     Inr (\<lparr>totalLevels = 11, levelNum = 0, board = fst (boardFromLayout layout0 0),
           block = createBlock (5, 1) 45, winTile = fst (snd (boardFromLayout layout0 0))\<rparr>, 46)"
  using layout0_next
  by (auto simp: Level_new_def LAYOUTS_def BLOCK_POSITIONS_def LEVELS_def split: prod.split)

lemma initLevel_0:
  "initLevel =
     Inr \<lparr>level = \<lparr>totalLevels = 11, levelNum = 0, board = fst (boardFromLayout layout0 0),
                    block = createBlock (5, 1) 45, winTile = fst (snd (boardFromLayout layout0 0))\<rparr>,
          scene = map objectId (fst (boardFromLayout layout0 0)) @ [45],
          nextObjectId = 46, animationPlaying = False, buttonLock = False, pauseVisible = False, timers = []\<rparr>"
  by (simp add: initLevel_def Level_new_0 scene_add_def createBlock_def Mesh_new_def)

lemma layout0_winTile:
  "fst (snd (boardFromLayout layout0 0)) = Some ((createTile 1 7 36)\<lparr>visible := False\<rparr>)"
  by (simp add: boardFromLayout_def layout0_def Let_def createTile_def Mesh_new_def)

lemma layout0_tiles:
  "(2, 1) \<in> (\<lambda>tile. (vx (position tile), vz (position tile))) ` set (fst (boardFromLayout layout0 0))"
  "(3, 1) \<in> (\<lambda>tile. (vx (position tile), vz (position tile))) ` set (fst (boardFromLayout layout0 0))"
  "(4, 1) \<in> (\<lambda>tile. (vx (position tile), vz (position tile))) ` set (fst (boardFromLayout layout0 0))"
  by (simp_all add: boardFromLayout_def layout0_def Let_def createTile_def Mesh_new_def)


text \<open>The first roll of the first level towards \<open>-x\<close>: the block comes to lie on \<open>(3,1)\<close> and \<open>(4,1)\<close>.\<close>

lemma level0_first_position:
  "position (rotateAroundWorldAxis (createBlock (5, 1) 45) \<lparr>vx = 9 / 2, vy = 0, vz = 0\<rparr> zAxis
     ninetyDegRad) = \<lparr>vx = 7 / 2, vy = 1 / 2, vz = 1\<rparr>"
  by (simp add: quarter_turn_zAxis createBlock_def Mesh_new_def)

lemma level0_first_cells:
  "getBlockPos (rotateAroundWorldAxis (createBlock (5, 1) 45) \<lparr>vx = 9 / 2, vy = 0, vz = 0\<rparr> zAxis
     ninetyDegRad) = [\<lparr>cx = 3, cz = 1\<rparr>, \<lparr>cx = 4, cz = 1\<rparr>]"
  by (simp add: getBlockPos_def level0_first_position halfRound_def Math_round_def isInt_def
      js_rem_def truncInt_def Vector2XZ_halfRound_def Vector2XZ_floor_def Vector2XZ_ceil_def
      Math_floor_def Math_ceil_def)

lemma level0_switch_negX:
  "handleBlockMovement_switch negX
     \<lparr>totalLevels = 11, levelNum = 0, board = fst (boardFromLayout layout0 0),
      block = createBlock (5, 1) 45, winTile = fst (snd (boardFromLayout layout0 0))\<rparr>
   = (\<lparr>vx = 9 / 2, vy = 0, vz = 0\<rparr>, zAxis, 1)"
  by (simp add: handleBlockMovement_switch_def offsetRotPointX_def createBlock_def Mesh_new_def
      twoPtRound_def Math_round_def)

lemma level0_valid_negX:
  "isValidRotation
     \<lparr>totalLevels = 11, levelNum = 0, board = fst (boardFromLayout layout0 0),
      block = createBlock (5, 1) 45, winTile = fst (snd (boardFromLayout layout0 0))\<rparr>
     \<lparr>vx = 9 / 2, vy = 0, vz = 0\<rparr> zAxis ninetyDegRad"
  unfolding isValidRotation_iff
  using layout0_tiles by (simp add: getRotatedClone_def level0_first_cells tileCoordinates_def)

lemma level0_roll_negX:
  "roll negX
     \<lparr>totalLevels = 11, levelNum = 0, board = fst (boardFromLayout layout0 0),
      block = createBlock (5, 1) 45, winTile = fst (snd (boardFromLayout layout0 0))\<rparr>
   = Some \<lparr>totalLevels = 11, levelNum = 0, board = fst (boardFromLayout layout0 0),
           block = rotateAroundWorldAxis (createBlock (5, 1) 45) \<lparr>vx = 9 / 2, vy = 0, vz = 0\<rparr>
                     zAxis ninetyDegRad,
           winTile = fst (snd (boardFromLayout layout0 0))\<rparr>"
  unfolding roll_def level0_switch_negX
  using level0_valid_negX
  by (simp add: eighteen_steps [OF unitVector_axes(3)])


text \<open>
  C4 (as amended). The direction table of \<open>handleBlockMovement\<close>: towards \<open>+x\<close> the block
  turns about the world \<open>z\<close> axis by minus ninety degrees, towards \<open>-x\<close> about the \<open>z\<close> axis
  by plus ninety degrees, towards \<open>+z\<close> about the world \<open>x\<close> axis by plus ninety degrees and
  towards \<open>-z\<close> about the \<open>x\<close> axis by minus ninety degrees. The rotation point is the origin
  with one coordinate replaced: the block's \<open>x\<close> (or \<open>z\<close>) coordinate rounded to two places,
  plus or minus the offset. For a block at rest the rounding changes nothing, and the
  coordinate is the centre plus or minus the offset. The quarter turn is what the validity
  check probes and what an accepted roll animates; a rejected roll is animated about the same
  point and axis with a sixth of \<open>pi\<close>, of the same sign.
\<close>

theorem direction_table:
  "handleBlockMovement_switch posX lvl =
     (\<lparr>vx = twoPtRound (vx (position (block lvl))) + offsetRotPointX lvl, vy = 0, vz = 0\<rparr>,
      zAxis, - 1)
   \<and> handleBlockMovement_switch negX lvl =
     (\<lparr>vx = twoPtRound (vx (position (block lvl))) - offsetRotPointX lvl, vy = 0, vz = 0\<rparr>,
      zAxis, 1)
   \<and> handleBlockMovement_switch posZ lvl =
     (\<lparr>vx = 0, vy = 0, vz = twoPtRound (vz (position (block lvl))) + offsetRotPointZ lvl\<rparr>,
      xAxis, 1)
   \<and> handleBlockMovement_switch negZ lvl =
     (\<lparr>vx = 0, vy = 0, vz = twoPtRound (vz (position (block lvl))) - offsetRotPointZ lvl\<rparr>,
      xAxis, - 1)
   \<and> ninetyDegRad * (- 1) = - (pi / 2) \<and> ninetyDegRad * 1 = pi / 2
   \<and> (atRest (block lvl) \<longrightarrow>
        twoPtRound (vx (position (block lvl))) = vx (position (block lvl))
        \<and> twoPtRound (vz (position (block lvl))) = vz (position (block lvl)))
   \<and> (\<not> animationPlaying g \<and> \<not> pauseVisible g
        \<and> handleBlockMovement_switch rotDir (level g) = (rotPoint, rotAxis, rotAngleMod) \<longrightarrow>
        handleBlockMovement rotDir g =
          (if isValidRotation (level g) rotPoint rotAxis (ninetyDegRad * rotAngleMod)
           then animateRotation rotPoint rotAxis (ninetyDegRad * rotAngleMod) g
           else animateFailedRotation rotPoint rotAxis (pi / (6 * rotAngleMod)) g))"
proof (intro conjI impI)
  show "handleBlockMovement_switch posX lvl =
     (\<lparr>vx = twoPtRound (vx (position (block lvl))) + offsetRotPointX lvl, vy = 0, vz = 0\<rparr>,
      zAxis, - 1)"
    by (simp add: handleBlockMovement_switch_def)
  show "handleBlockMovement_switch negX lvl =
     (\<lparr>vx = twoPtRound (vx (position (block lvl))) - offsetRotPointX lvl, vy = 0, vz = 0\<rparr>,
      zAxis, 1)"
    by (simp add: handleBlockMovement_switch_def)
  show "handleBlockMovement_switch posZ lvl =
     (\<lparr>vx = 0, vy = 0, vz = twoPtRound (vz (position (block lvl))) + offsetRotPointZ lvl\<rparr>,
      xAxis, 1)"
    by (simp add: handleBlockMovement_switch_def)
  show "handleBlockMovement_switch negZ lvl =
     (\<lparr>vx = 0, vy = 0, vz = twoPtRound (vz (position (block lvl))) - offsetRotPointZ lvl\<rparr>,
      xAxis, - 1)"
    by (simp add: handleBlockMovement_switch_def)
  show "ninetyDegRad * (- 1) = - (pi / 2)" and "ninetyDegRad * 1 = pi / 2"
    by (simp_all add: ninetyDegRad_def)
next
  assume "atRest (block lvl)"
  then show "twoPtRound (vx (position (block lvl))) = vx (position (block lvl))"
    and "twoPtRound (vz (position (block lvl))) = vz (position (block lvl))"
    by (rule atRest_twoPtRound)+
next
  assume "\<not> animationPlaying g \<and> \<not> pauseVisible g
        \<and> handleBlockMovement_switch rotDir (level g) = (rotPoint, rotAxis, rotAngleMod)"
  then show "handleBlockMovement rotDir g =
          (if isValidRotation (level g) rotPoint rotAxis (ninetyDegRad * rotAngleMod)
           then animateRotation rotPoint rotAxis (ninetyDegRad * rotAngleMod) g
           else animateFailedRotation rotPoint rotAxis (pi / (6 * rotAngleMod)) g)"
    by (simp add: handleBlockMovement_def)
qed

theorem direction_table_witness:
  "\<exists>g. initLevel = Inr g
     \<and> handleBlockMovement_switch posX (level g) = (\<lparr>vx = 11 / 2, vy = 0, vz = 0\<rparr>, zAxis, - 1)
     \<and> handleBlockMovement_switch negX (level g) = (\<lparr>vx = 9 / 2, vy = 0, vz = 0\<rparr>, zAxis, 1)
     \<and> handleBlockMovement_switch posZ (level g) = (\<lparr>vx = 0, vy = 0, vz = 3 / 2\<rparr>, xAxis, 1)
     \<and> handleBlockMovement_switch negZ (level g) = (\<lparr>vx = 0, vy = 0, vz = 1 / 2\<rparr>, xAxis, - 1)
     \<and> handleBlockMovement negX g
         = animateRotation \<lparr>vx = 9 / 2, vy = 0, vz = 0\<rparr> zAxis (pi / 2) g"
proof -
  let ?lvl = "\<lparr>totalLevels = 11, levelNum = 0, board = fst (boardFromLayout layout0 0),
          block = createBlock (5, 1) 45, winTile = fst (snd (boardFromLayout layout0 0))\<rparr>"
  let ?g = "\<lparr>level = ?lvl, scene = map objectId (fst (boardFromLayout layout0 0)) @ [45],
          nextObjectId = 46, animationPlaying = False, buttonLock = False, pauseVisible = False, timers = []\<rparr>"
  have s: "standing (block ?lvl)"
    by (simp add: standing_def createBlock_def Mesh_new_def isInt_def js_rem_def truncInt_def)
  then have r: "atRest (block ?lvl)"
    by (simp add: atRest_def)
  have o: "offsetRotPointX ?lvl = 1 / 2" "offsetRotPointZ ?lvl = 1 / 2"
    using s by (simp_all add: offsetRotPointX_def offsetRotPointZ_def standingD(1) twoPtRound_one)
  have p: "vx (position (block ?lvl)) = 5" "vz (position (block ?lvl)) = 1"
    by (simp_all add: createBlock_def Mesh_new_def)
  have flags: "\<not> animationPlaying ?g \<and> \<not> pauseVisible ?g"
    by simp
  note t = direction_table [of ?lvl ?g negX "\<lparr>vx = 9 / 2, vy = 0, vz = 0\<rparr>" zAxis 1]
  have x: "twoPtRound (vx (position (block ?lvl))) = 5"
    and z: "twoPtRound (vz (position (block ?lvl))) = 1"
    using t r p by simp_all
  have a: "handleBlockMovement_switch posX ?lvl = (\<lparr>vx = 11 / 2, vy = 0, vz = 0\<rparr>, zAxis, - 1)"
    using t unfolding x o by simp
  have b: "handleBlockMovement_switch negX ?lvl = (\<lparr>vx = 9 / 2, vy = 0, vz = 0\<rparr>, zAxis, 1)"
    using t unfolding x o by simp
  have c: "handleBlockMovement_switch posZ ?lvl = (\<lparr>vx = 0, vy = 0, vz = 3 / 2\<rparr>, xAxis, 1)"
    using t unfolding z o by simp
  have d: "handleBlockMovement_switch negZ ?lvl = (\<lparr>vx = 0, vy = 0, vz = 1 / 2\<rparr>, xAxis, - 1)"
    using t unfolding z o by simp
  have cells: "getBlockPos (getRotatedClone (block ?lvl) \<lparr>vx = 9 / 2, vy = 0, vz = 0\<rparr> zAxis
                  (ninetyDegRad * 1)) = [\<lparr>cx = 3, cz = 1\<rparr>, \<lparr>cx = 4, cz = 1\<rparr>]"
    by (simp add: getRotatedClone_def getBlockPos_def quarter_turn_zAxis createBlock_def
        Mesh_new_def halfRound_def Math_round_def isInt_def js_rem_def truncInt_def
        Vector2XZ_halfRound_def Vector2XZ_floor_def Vector2XZ_ceil_def Math_floor_def
        Math_ceil_def)
  have valid: "isValidRotation ?lvl \<lparr>vx = 9 / 2, vy = 0, vz = 0\<rparr> zAxis (ninetyDegRad * 1)"
    unfolding isValidRotation_iff cells using layout0_tiles
    by (simp add: tileCoordinates_def)
  have "handleBlockMovement negX ?g
        = animateRotation \<lparr>vx = 9 / 2, vy = 0, vz = 0\<rparr> zAxis (ninetyDegRad * 1) ?g"
    using t flags b valid by simp
  then have e: "handleBlockMovement negX ?g
        = animateRotation \<lparr>vx = 9 / 2, vy = 0, vz = 0\<rparr> zAxis (pi / 2) ?g"
    by (simp add: ninetyDegRad_def)
  show ?thesis
  proof (intro exI [of _ ?g] conjI)
    show "initLevel = Inr ?g"
      by (rule initLevel_0)
    show "handleBlockMovement_switch posX (level ?g) = (\<lparr>vx = 11 / 2, vy = 0, vz = 0\<rparr>, zAxis, - 1)"
      using a by simp
    show "handleBlockMovement_switch negX (level ?g) = (\<lparr>vx = 9 / 2, vy = 0, vz = 0\<rparr>, zAxis, 1)"
      using b by simp
    show "handleBlockMovement_switch posZ (level ?g) = (\<lparr>vx = 0, vy = 0, vz = 3 / 2\<rparr>, xAxis, 1)"
      using c by simp
    show "handleBlockMovement_switch negZ (level ?g) = (\<lparr>vx = 0, vy = 0, vz = 1 / 2\<rparr>, xAxis, - 1)"
      using d by simp
    show "handleBlockMovement negX ?g
          = animateRotation \<lparr>vx = 9 / 2, vy = 0, vz = 0\<rparr> zAxis (pi / 2) ?g"
      by (rule e)
  qed
qed

text \<open>
  C4 as stated fails where the block's coordinate is not a multiple of one hundredth: the
  rotation point is computed from the rounded coordinate, not from the centre itself. A block
  standing at \<open>x = 0.004\<close> is turned towards \<open>+x\<close> about \<open>x = 0.5\<close>, not \<open>x = 0.504\<close>.
\<close>

theorem direction_table_counterexample:
  "fst (handleBlockMovement_switch posX
          \<lparr>totalLevels = 11, levelNum = 0, board = [],
           block = createBlock (1 / 250, 0) 0, winTile = None\<rparr>)
     = \<lparr>vx = 1 / 2, vy = 0, vz = 0\<rparr>
   \<and> vx (position (block \<lparr>totalLevels = 11, levelNum = 0, board = [],
           block = createBlock (1 / 250, 0) 0, winTile = None\<rparr>))
       + offsetRotPointX \<lparr>totalLevels = 11, levelNum = 0, board = [],
           block = createBlock (1 / 250, 0) 0, winTile = None\<rparr> = 63 / 125
   \<and> vx (fst (handleBlockMovement_switch posX
          \<lparr>totalLevels = 11, levelNum = 0, board = [],
           block = createBlock (1 / 250, 0) 0, winTile = None\<rparr>))
       \<noteq> vx (position (block \<lparr>totalLevels = 11, levelNum = 0, board = [],
           block = createBlock (1 / 250, 0) 0, winTile = None\<rparr>))
         + offsetRotPointX \<lparr>totalLevels = 11, levelNum = 0, board = [],
           block = createBlock (1 / 250, 0) 0, winTile = None\<rparr>"
  by (simp add: handleBlockMovement_switch_def offsetRotPointX_def createBlock_def Mesh_new_def
      twoPtRound_def Math_round_def)


lemma getBlockPos_standing:
  assumes "standing b"
  shows "getBlockPos b = [\<lparr>cx = vx (position b), cz = vz (position b)\<rparr>]"
  using standingD [OF assms]
  by (simp add: getBlockPos_def Vector2XZ_halfRound_def halfRound_int)

lemma getBlockPos_lyingAlongX:
  assumes "lyingAlongX b"
  shows "getBlockPos b = [\<lparr>cx = vx (position b) - 1 / 2, cz = vz (position b)\<rparr>,
                          \<lparr>cx = vx (position b) + 1 / 2, cz = vz (position b)\<rparr>]"
proof -
  note d = lyingAlongXD [OF assms]
  have x: "halfRound (vx (position b)) = vx (position b)"
    using d(2) by (rule halfRound_half_int)
  have z: "halfRound (vz (position b)) = vz (position b)"
    using d(3) by (rule halfRound_int)
  have n: "\<not> isInt (vx (position b))"
    using d(2) by (rule half_int_not_int)
  show ?thesis
    using n by (simp add: getBlockPos_def Vector2XZ_halfRound_def Vector2XZ_floor_def
        Vector2XZ_ceil_def x z floor_ceil_half_int [OF d(2)] floor_ceil_int [OF d(3)])
qed

lemma getBlockPos_lyingAlongZ:
  assumes "lyingAlongZ b"
  shows "getBlockPos b = [\<lparr>cx = vx (position b), cz = vz (position b) - 1 / 2\<rparr>,
                          \<lparr>cx = vx (position b), cz = vz (position b) + 1 / 2\<rparr>]"
proof -
  note d = lyingAlongZD [OF assms]
  have x: "halfRound (vx (position b)) = vx (position b)"
    using d(2) by (rule halfRound_int)
  have z: "halfRound (vz (position b)) = vz (position b)"
    using d(3) by (rule halfRound_half_int)
  have n: "\<not> isInt (vz (position b))"
    using d(3) by (rule half_int_not_int)
  show ?thesis
    using n by (simp add: getBlockPos_def Vector2XZ_halfRound_def Vector2XZ_floor_def
        Vector2XZ_ceil_def x z floor_ceil_half_int [OF d(3)] floor_ceil_int [OF d(2)])
qed

text \<open>
  C5. For a level with a winning tile, \<open>_checkForWin\<close> returns true exactly when the block
  occupies one cell and that cell has the \<open>x\<close> and \<open>z\<close> of the winning tile. A block that
  occupies two cells never wins; in particular a block lying along \<open>x\<close> or along \<open>z\<close> does
  not, whichever cells it covers. A standing block wins exactly when its own \<open>x\<close> and \<open>z\<close>
  are those of the winning tile.
\<close>

theorem checkForWin_iff:
  assumes "winTile lvl = Some tile"
  shows "checkForWin lvl =
           Inr (\<exists>c. blockPos lvl = [c] \<and> cx c = vx (position tile) \<and> cz c = vz (position tile))
         \<and> (length (blockPos lvl) = 2 \<longrightarrow> checkForWin lvl = Inr False)
         \<and> (lyingAlongX (block lvl) \<or> lyingAlongZ (block lvl) \<longrightarrow>
              length (blockPos lvl) = 2 \<and> checkForWin lvl = Inr False)
         \<and> (standing (block lvl) \<longrightarrow>
              checkForWin lvl = Inr (vx (position (block lvl)) = vx (position tile)
                                     \<and> vz (position (block lvl)) = vz (position tile)))"
proof (intro conjI impI)
  show "checkForWin lvl =
           Inr (\<exists>c. blockPos lvl = [c] \<and> cx c = vx (position tile) \<and> cz c = vz (position tile))"
    using assms by (cases "blockPos lvl") (auto simp: checkForWin_def)
  show "checkForWin lvl = Inr False" if "length (blockPos lvl) = 2"
    using assms that by (simp add: checkForWin_def)
  show "length (blockPos lvl) = 2" if "lyingAlongX (block lvl) \<or> lyingAlongZ (block lvl)"
    using that by (auto simp: blockPos_def getBlockPos_lyingAlongX getBlockPos_lyingAlongZ)
  then show "checkForWin lvl = Inr False" if "lyingAlongX (block lvl) \<or> lyingAlongZ (block lvl)"
    using assms that by (simp add: checkForWin_def)
  show "checkForWin lvl = Inr (vx (position (block lvl)) = vx (position tile)
                                     \<and> vz (position (block lvl)) = vz (position tile))"
    if "standing (block lvl)"
    using assms by (simp add: checkForWin_def blockPos_def getBlockPos_standing [OF that])
qed

theorem checkForWin_iff_witness:
  "checkForWin \<lparr>totalLevels = 11, levelNum = 0, board = fst (boardFromLayout [''##O''] 0),
       block = createBlock (2, 0) 3, winTile = fst (snd (boardFromLayout [''##O''] 0))\<rparr> = Inr True
   \<and> checkForWin \<lparr>totalLevels = 11, levelNum = 0, board = fst (boardFromLayout [''##O''] 0),
       block = createBlock (1, 0) 3, winTile = fst (snd (boardFromLayout [''##O''] 0))\<rparr> = Inr False
   \<and> checkForWin \<lparr>totalLevels = 11, levelNum = 0, board = fst (boardFromLayout [''##O''] 0),
       block = (Mesh_new 3)\<lparr>position := \<lparr>vx = 3 / 2, vy = 1 / 2, vz = 0\<rparr>\<rparr>,
       winTile = fst (snd (boardFromLayout [''##O''] 0))\<rparr> = Inr False
   \<and> blockPos \<lparr>totalLevels = 11, levelNum = 0, board = fst (boardFromLayout [''##O''] 0),
       block = (Mesh_new 3)\<lparr>position := \<lparr>vx = 3 / 2, vy = 1 / 2, vz = 0\<rparr>\<rparr>,
       winTile = fst (snd (boardFromLayout [''##O''] 0))\<rparr> = [\<lparr>cx = 1, cz = 0\<rparr>, \<lparr>cx = 2, cz = 0\<rparr>]"
proof -
  let ?hole = "(createTile 2 0 2)\<lparr>visible := False\<rparr>"
  let ?l = "\<lambda>b. \<lparr>totalLevels = 11, levelNum = 0, board = fst (boardFromLayout [''##O''] 0),
       block = b, winTile = fst (snd (boardFromLayout [''##O''] 0))\<rparr>"
  let ?lying = "(Mesh_new 3)\<lparr>position := \<lparr>vx = 3 / 2, vy = 1 / 2, vz = 0\<rparr>\<rparr>"
  have w: "winTile (?l b) = Some ?hole" for b
    by (simp add: boardFromLayout_def Let_def createTile_def Mesh_new_def)
  have hole: "vx (position ?hole) = 2" "vz (position ?hole) = 0"
    by (simp_all add: createTile_def Mesh_new_def)
  have s2: "standing (block (?l (createBlock (2, 0) 3)))"
    by (simp add: standing_def createBlock_def Mesh_new_def isInt_def js_rem_def truncInt_def)
  have s1: "standing (block (?l (createBlock (1, 0) 3)))"
    by (simp add: standing_def createBlock_def Mesh_new_def isInt_def js_rem_def truncInt_def)
  have ly: "lyingAlongX (block (?l ?lying))"
    by (simp add: lyingAlongX_def Mesh_new_def isInt_def js_rem_def truncInt_def)
  have "checkForWin (?l (createBlock (2, 0) 3))
        = Inr (vx (position (block (?l (createBlock (2, 0) 3)))) = vx (position ?hole)
               \<and> vz (position (block (?l (createBlock (2, 0) 3)))) = vz (position ?hole))"
    using checkForWin_iff [OF w, of "createBlock (2, 0) 3"] s2 by blast
  then have a: "checkForWin (?l (createBlock (2, 0) 3)) = Inr True"
    unfolding hole by (simp add: createBlock_def Mesh_new_def)
  have "checkForWin (?l (createBlock (1, 0) 3))
        = Inr (vx (position (block (?l (createBlock (1, 0) 3)))) = vx (position ?hole)
               \<and> vz (position (block (?l (createBlock (1, 0) 3)))) = vz (position ?hole))"
    using checkForWin_iff [OF w, of "createBlock (1, 0) 3"] s1 by blast
  then have b: "checkForWin (?l (createBlock (1, 0) 3)) = Inr False"
    unfolding hole by (simp add: createBlock_def Mesh_new_def)
  have c: "checkForWin (?l ?lying) = Inr False"
    using checkForWin_iff [OF w, of ?lying] ly by blast
  have d: "blockPos (?l ?lying) = [\<lparr>cx = 1, cz = 0\<rparr>, \<lparr>cx = 2, cz = 0\<rparr>]"
    using getBlockPos_lyingAlongX [OF ly] by (simp add: blockPos_def Mesh_new_def)
  from a b c d show ?thesis by blast
qed


section \<open>Rolling a block at rest\<close>

lemma offset_standing:
  assumes "standing (block lvl)"
  shows "offsetRotPointX lvl = 1 / 2" and "offsetRotPointZ lvl = 1 / 2"
proof -
  have "twoPtRound (vy (position (block lvl))) = 1"
    unfolding standingD(1) [OF assms] by (rule twoPtRound_one)
  then show "offsetRotPointX lvl = 1 / 2" and "offsetRotPointZ lvl = 1 / 2"
    by (simp_all add: offsetRotPointX_def offsetRotPointZ_def)
qed

lemma offset_lyingAlongX:
  assumes "lyingAlongX (block lvl)"
  shows "offsetRotPointX lvl = 1" and "offsetRotPointZ lvl = 1 / 2"
proof -
  note d = lyingAlongXD [OF assms]
  have y: "twoPtRound (vy (position (block lvl))) = 1 / 2"
    unfolding d(1) by (rule twoPtRound_half)
  have z: "isInt (twoPtRound (vz (position (block lvl))))"
    using d(3) by (simp add: twoPtRound_int)
  have x: "\<not> isInt (twoPtRound (vx (position (block lvl))))"
    using d(2) by (simp add: twoPtRound_half_int half_int_not_int)
  show "offsetRotPointX lvl = 1"
    using y z by (simp add: offsetRotPointX_def)
  show "offsetRotPointZ lvl = 1 / 2"
    using x by (simp add: offsetRotPointZ_def)
qed

lemma offset_lyingAlongZ:
  assumes "lyingAlongZ (block lvl)"
  shows "offsetRotPointX lvl = 1 / 2" and "offsetRotPointZ lvl = 1"
proof -
  note d = lyingAlongZD [OF assms]
  have y: "twoPtRound (vy (position (block lvl))) = 1 / 2"
    unfolding d(1) by (rule twoPtRound_half)
  have x: "isInt (twoPtRound (vx (position (block lvl))))"
    using d(2) by (simp add: twoPtRound_int)
  have z: "\<not> isInt (twoPtRound (vz (position (block lvl))))"
    using d(3) by (simp add: twoPtRound_half_int half_int_not_int)
  show "offsetRotPointX lvl = 1 / 2"
    using z by (simp add: offsetRotPointX_def)
  show "offsetRotPointZ lvl = 1"
    using y x by (simp add: offsetRotPointZ_def)
qed

lemma isInt_shift: "isInt a \<Longrightarrow> b - a \<in> \<int> \<Longrightarrow> isInt b"
proof -
  assume "isInt a" and "b - a \<in> \<int>"
  then have "a + (b - a) \<in> \<int>"
    unfolding isInt_iff by (rule Ints_add)
  then show "isInt b"
    by (simp add: isInt_iff)
qed

text \<open>
  The rolls of a block at rest, direction by direction. Along the direction of the roll a
  standing block comes to lie, a block lying along that direction stands up, and a block lying
  across it stays lying across it, one cell further.
\<close>

lemma roll_posX:
  shows "standing (block lvl) \<Longrightarrow> lyingAlongX (rotateAroundWorldAxis (block lvl)
           \<lparr>vx = twoPtRound (vx (position (block lvl))) + offsetRotPointX lvl, vy = 0, vz = 0\<rparr>
           zAxis (- ninetyDegRad))"
    and "lyingAlongX (block lvl) \<Longrightarrow> standing (rotateAroundWorldAxis (block lvl)
           \<lparr>vx = twoPtRound (vx (position (block lvl))) + offsetRotPointX lvl, vy = 0, vz = 0\<rparr>
           zAxis (- ninetyDegRad))"
    and "lyingAlongZ (block lvl) \<Longrightarrow> lyingAlongZ (rotateAroundWorldAxis (block lvl)
           \<lparr>vx = twoPtRound (vx (position (block lvl))) + offsetRotPointX lvl, vy = 0, vz = 0\<rparr>
           zAxis (- ninetyDegRad))"
proof -
  assume s: "standing (block lvl)"
  note d = standingD [OF s]
  have r: "twoPtRound (vx (position (block lvl))) = vx (position (block lvl))"
    using d(2) by (rule twoPtRound_int)
  show "lyingAlongX (rotateAroundWorldAxis (block lvl)
           \<lparr>vx = twoPtRound (vx (position (block lvl))) + offsetRotPointX lvl, vy = 0, vz = 0\<rparr>
           zAxis (- ninetyDegRad))"
    unfolding lyingAlongX_def quarter_turn_zAxis r offset_standing [OF s] d(1)
    using d(2) d(3) by (auto intro: isInt_shift)
next
  assume s: "lyingAlongX (block lvl)"
  note d = lyingAlongXD [OF s]
  have r: "twoPtRound (vx (position (block lvl))) = vx (position (block lvl))"
    using d(2) by (rule twoPtRound_half_int)
  show "standing (rotateAroundWorldAxis (block lvl)
           \<lparr>vx = twoPtRound (vx (position (block lvl))) + offsetRotPointX lvl, vy = 0, vz = 0\<rparr>
           zAxis (- ninetyDegRad))"
    unfolding standing_def quarter_turn_zAxis r offset_lyingAlongX [OF s] d(1)
    using d(2) d(3) by (auto intro: isInt_shift)
next
  assume s: "lyingAlongZ (block lvl)"
  note d = lyingAlongZD [OF s]
  have r: "twoPtRound (vx (position (block lvl))) = vx (position (block lvl))"
    using d(2) by (rule twoPtRound_int)
  show "lyingAlongZ (rotateAroundWorldAxis (block lvl)
           \<lparr>vx = twoPtRound (vx (position (block lvl))) + offsetRotPointX lvl, vy = 0, vz = 0\<rparr>
           zAxis (- ninetyDegRad))"
    unfolding lyingAlongZ_def quarter_turn_zAxis r offset_lyingAlongZ [OF s] d(1)
    using d(2) d(3) by (auto intro: isInt_shift)
qed

lemma roll_negX:
  shows "standing (block lvl) \<Longrightarrow> lyingAlongX (rotateAroundWorldAxis (block lvl)
           \<lparr>vx = twoPtRound (vx (position (block lvl))) - offsetRotPointX lvl, vy = 0, vz = 0\<rparr>
           zAxis (ninetyDegRad))"
    and "lyingAlongX (block lvl) \<Longrightarrow> standing (rotateAroundWorldAxis (block lvl)
           \<lparr>vx = twoPtRound (vx (position (block lvl))) - offsetRotPointX lvl, vy = 0, vz = 0\<rparr>
           zAxis (ninetyDegRad))"
    and "lyingAlongZ (block lvl) \<Longrightarrow> lyingAlongZ (rotateAroundWorldAxis (block lvl)
           \<lparr>vx = twoPtRound (vx (position (block lvl))) - offsetRotPointX lvl, vy = 0, vz = 0\<rparr>
           zAxis (ninetyDegRad))"
proof -
  assume s: "standing (block lvl)"
  note d = standingD [OF s]
  have r: "twoPtRound (vx (position (block lvl))) = vx (position (block lvl))"
    using d(2) by (rule twoPtRound_int)
  show "lyingAlongX (rotateAroundWorldAxis (block lvl)
           \<lparr>vx = twoPtRound (vx (position (block lvl))) - offsetRotPointX lvl, vy = 0, vz = 0\<rparr>
           zAxis (ninetyDegRad))"
    unfolding lyingAlongX_def quarter_turn_zAxis r offset_standing [OF s] d(1)
    using d(2) d(3) by (auto intro: isInt_shift)
next
  assume s: "lyingAlongX (block lvl)"
  note d = lyingAlongXD [OF s]
  have r: "twoPtRound (vx (position (block lvl))) = vx (position (block lvl))"
    using d(2) by (rule twoPtRound_half_int)
  show "standing (rotateAroundWorldAxis (block lvl)
           \<lparr>vx = twoPtRound (vx (position (block lvl))) - offsetRotPointX lvl, vy = 0, vz = 0\<rparr>
           zAxis (ninetyDegRad))"
    unfolding standing_def quarter_turn_zAxis r offset_lyingAlongX [OF s] d(1)
    using d(2) d(3) by (auto intro: isInt_shift)
next
  assume s: "lyingAlongZ (block lvl)"
  note d = lyingAlongZD [OF s]
  have r: "twoPtRound (vx (position (block lvl))) = vx (position (block lvl))"
    using d(2) by (rule twoPtRound_int)
  show "lyingAlongZ (rotateAroundWorldAxis (block lvl)
           \<lparr>vx = twoPtRound (vx (position (block lvl))) - offsetRotPointX lvl, vy = 0, vz = 0\<rparr>
           zAxis (ninetyDegRad))"
    unfolding lyingAlongZ_def quarter_turn_zAxis r offset_lyingAlongZ [OF s] d(1)
    using d(2) d(3) by (auto intro: isInt_shift)
qed

lemma roll_posZ:
  shows "standing (block lvl) \<Longrightarrow> lyingAlongZ (rotateAroundWorldAxis (block lvl)
           \<lparr>vx = 0, vy = 0, vz = twoPtRound (vz (position (block lvl))) + offsetRotPointZ lvl\<rparr>
           xAxis (ninetyDegRad))"
    and "lyingAlongZ (block lvl) \<Longrightarrow> standing (rotateAroundWorldAxis (block lvl)
           \<lparr>vx = 0, vy = 0, vz = twoPtRound (vz (position (block lvl))) + offsetRotPointZ lvl\<rparr>
           xAxis (ninetyDegRad))"
    and "lyingAlongX (block lvl) \<Longrightarrow> lyingAlongX (rotateAroundWorldAxis (block lvl)
           \<lparr>vx = 0, vy = 0, vz = twoPtRound (vz (position (block lvl))) + offsetRotPointZ lvl\<rparr>
           xAxis (ninetyDegRad))"
proof -
  assume s: "standing (block lvl)"
  note d = standingD [OF s]
  have r: "twoPtRound (vz (position (block lvl))) = vz (position (block lvl))"
    using d(3) by (rule twoPtRound_int)
  show "lyingAlongZ (rotateAroundWorldAxis (block lvl)
           \<lparr>vx = 0, vy = 0, vz = twoPtRound (vz (position (block lvl))) + offsetRotPointZ lvl\<rparr>
           xAxis (ninetyDegRad))"
    unfolding lyingAlongZ_def quarter_turn_xAxis r offset_standing [OF s] d(1)
    using d(2) d(3) by (auto intro: isInt_shift)
next
  assume s: "lyingAlongZ (block lvl)"
  note d = lyingAlongZD [OF s]
  have r: "twoPtRound (vz (position (block lvl))) = vz (position (block lvl))"
    using d(3) by (rule twoPtRound_half_int)
  show "standing (rotateAroundWorldAxis (block lvl)
           \<lparr>vx = 0, vy = 0, vz = twoPtRound (vz (position (block lvl))) + offsetRotPointZ lvl\<rparr>
           xAxis (ninetyDegRad))"
    unfolding standing_def quarter_turn_xAxis r offset_lyingAlongZ [OF s] d(1)
    using d(2) d(3) by (auto intro: isInt_shift)
next
  assume s: "lyingAlongX (block lvl)"
  note d = lyingAlongXD [OF s]
  have r: "twoPtRound (vz (position (block lvl))) = vz (position (block lvl))"
    using d(3) by (rule twoPtRound_int)
  show "lyingAlongX (rotateAroundWorldAxis (block lvl)
           \<lparr>vx = 0, vy = 0, vz = twoPtRound (vz (position (block lvl))) + offsetRotPointZ lvl\<rparr>
           xAxis (ninetyDegRad))"
    unfolding lyingAlongX_def quarter_turn_xAxis r offset_lyingAlongX [OF s] d(1)
    using d(2) d(3) by (auto intro: isInt_shift)
qed

lemma roll_negZ:
  shows "standing (block lvl) \<Longrightarrow> lyingAlongZ (rotateAroundWorldAxis (block lvl)
           \<lparr>vx = 0, vy = 0, vz = twoPtRound (vz (position (block lvl))) - offsetRotPointZ lvl\<rparr>
           xAxis (- ninetyDegRad))"
    and "lyingAlongZ (block lvl) \<Longrightarrow> standing (rotateAroundWorldAxis (block lvl)
           \<lparr>vx = 0, vy = 0, vz = twoPtRound (vz (position (block lvl))) - offsetRotPointZ lvl\<rparr>
           xAxis (- ninetyDegRad))"
    and "lyingAlongX (block lvl) \<Longrightarrow> lyingAlongX (rotateAroundWorldAxis (block lvl)
           \<lparr>vx = 0, vy = 0, vz = twoPtRound (vz (position (block lvl))) - offsetRotPointZ lvl\<rparr>
           xAxis (- ninetyDegRad))"
proof -
  assume s: "standing (block lvl)"
  note d = standingD [OF s]
  have r: "twoPtRound (vz (position (block lvl))) = vz (position (block lvl))"
    using d(3) by (rule twoPtRound_int)
  show "lyingAlongZ (rotateAroundWorldAxis (block lvl)
           \<lparr>vx = 0, vy = 0, vz = twoPtRound (vz (position (block lvl))) - offsetRotPointZ lvl\<rparr>
           xAxis (- ninetyDegRad))"
    unfolding lyingAlongZ_def quarter_turn_xAxis r offset_standing [OF s] d(1)
    using d(2) d(3) by (auto intro: isInt_shift)
next
  assume s: "lyingAlongZ (block lvl)"
  note d = lyingAlongZD [OF s]
  have r: "twoPtRound (vz (position (block lvl))) = vz (position (block lvl))"
    using d(3) by (rule twoPtRound_half_int)
  show "standing (rotateAroundWorldAxis (block lvl)
           \<lparr>vx = 0, vy = 0, vz = twoPtRound (vz (position (block lvl))) - offsetRotPointZ lvl\<rparr>
           xAxis (- ninetyDegRad))"
    unfolding standing_def quarter_turn_xAxis r offset_lyingAlongZ [OF s] d(1)
    using d(2) d(3) by (auto intro: isInt_shift)
next
  assume s: "lyingAlongX (block lvl)"
  note d = lyingAlongXD [OF s]
  have r: "twoPtRound (vz (position (block lvl))) = vz (position (block lvl))"
    using d(3) by (rule twoPtRound_int)
  show "lyingAlongX (rotateAroundWorldAxis (block lvl)
           \<lparr>vx = 0, vy = 0, vz = twoPtRound (vz (position (block lvl))) - offsetRotPointZ lvl\<rparr>
           xAxis (- ninetyDegRad))"
    unfolding lyingAlongX_def quarter_turn_xAxis r offset_lyingAlongX [OF s] d(1)
    using d(2) d(3) by (auto intro: isInt_shift)
qed

section \<open>A block at rest stays at rest\<close>

lemma switch_cases:
  assumes "handleBlockMovement_switch rotDir lvl = (p, a, m)"
  shows "(a = zAxis \<or> a = xAxis) \<and> (m = 1 \<or> m = - 1)"
  using assms by (cases rotDir) (auto simp: handleBlockMovement_switch_def)

lemma switch_unit:
  assumes "handleBlockMovement_switch rotDir lvl = (p, a, m)"
  shows "unitVector a"
  using switch_cases [OF assms] unitVector_axes by auto

lemma roll_atRest:
  assumes "atRest (block lvl)"
    and "handleBlockMovement_switch rotDir lvl = (p, a, m)"
  shows "atRest (rotateAroundWorldAxis (block lvl) p a (ninetyDegRad * m))"
proof (cases rotDir)
  case posX
  then have "p = \<lparr>vx = twoPtRound (vx (position (block lvl))) + offsetRotPointX lvl, vy = 0, vz = 0\<rparr>"
    and "a = zAxis" and "ninetyDegRad * m = - ninetyDegRad"
    using assms(2) by (auto simp: handleBlockMovement_switch_def)
  then show ?thesis
    using assms(1) roll_posX [of lvl] unfolding atRest_def by auto
next
  case negX
  then have "p = \<lparr>vx = twoPtRound (vx (position (block lvl))) - offsetRotPointX lvl, vy = 0, vz = 0\<rparr>"
    and "a = zAxis" and "ninetyDegRad * m = ninetyDegRad"
    using assms(2) by (auto simp: handleBlockMovement_switch_def)
  then show ?thesis
    using assms(1) roll_negX [of lvl] unfolding atRest_def by auto
next
  case posZ
  then have "p = \<lparr>vx = 0, vy = 0, vz = twoPtRound (vz (position (block lvl))) + offsetRotPointZ lvl\<rparr>"
    and "a = xAxis" and "ninetyDegRad * m = ninetyDegRad"
    using assms(2) by (auto simp: handleBlockMovement_switch_def)
  then show ?thesis
    using assms(1) roll_posZ [of lvl] unfolding atRest_def by auto
next
  case negZ
  then have "p = \<lparr>vx = 0, vy = 0, vz = twoPtRound (vz (position (block lvl))) - offsetRotPointZ lvl\<rparr>"
    and "a = xAxis" and "ninetyDegRad * m = - ninetyDegRad"
    using assms(2) by (auto simp: handleBlockMovement_switch_def)
  then show ?thesis
    using assms(1) roll_negZ [of lvl] unfolding atRest_def by auto
qed

text \<open>An accepted roll turns the block by the quarter turn that was probed.\<close>

lemma roll_SomeD:
  assumes "roll rotDir lvl = Some lvl'"
  obtains p a m where "handleBlockMovement_switch rotDir lvl = (p, a, m)"
    and "isValidRotation lvl p a (ninetyDegRad * m)"
    and "lvl' = lvl\<lparr>block := rotateAroundWorldAxis (block lvl) p a (ninetyDegRad * m)\<rparr>"
    and "lvl' = lvl\<lparr>block := getRotatedClone (block lvl) p a (ninetyDegRad * m)\<rparr>"
proof -
  obtain p a m where sw: "handleBlockMovement_switch rotDir lvl = (p, a, m)"
    by (cases "handleBlockMovement_switch rotDir lvl") auto
  have valid: "isValidRotation lvl p a (ninetyDegRad * m)"
    using assms sw by (simp add: roll_def split: if_splits)
  have "lvl' = lvl\<lparr>block := ((\<lambda>b. rotateAroundWorldAxis b p a (ninetyDegRad * m / 18)) ^^ 18)
                               (block lvl)\<rparr>"
    using assms sw valid by (simp add: roll_def)
  then have eq: "lvl' = lvl\<lparr>block := rotateAroundWorldAxis (block lvl) p a (ninetyDegRad * m)\<rparr>"
    by (simp only: eighteen_steps [OF switch_unit [OF sw]])
  then have "lvl' = lvl\<lparr>block := getRotatedClone (block lvl) p a (ninetyDegRad * m)\<rparr>"
    by (simp add: getRotatedClone_def)
  with sw valid eq show thesis
    by (rule that)
qed

lemma BLOCK_POSITIONS_int:
  assumes "n < length BLOCK_POSITIONS"
  shows "isInt (fst (BLOCK_POSITIONS ! n)) \<and> isInt (snd (BLOCK_POSITIONS ! n))"
proof -
  have "\<forall>p \<in> set BLOCK_POSITIONS. isInt (fst p) \<and> isInt (snd p)"
    by (simp add: BLOCK_POSITIONS_def isInt_iff)
  then show ?thesis
    using assms nth_mem by blast
qed

lemma Level_new_InrD:
  assumes "Level_new n nextId = Inr (lvl, nextId')"
  shows "0 \<le> n" and "n \<le> 11" and "levelNum lvl = n" and "totalLevels lvl = 11"
    and "block lvl = createBlock (BLOCK_POSITIONS ! nat n)
                       (snd (snd (boardFromLayout (LAYOUTS ! nat n) nextId)))"
    and "board lvl = fst (boardFromLayout (LAYOUTS ! nat n) nextId)"
    and "winTile lvl = fst (snd (boardFromLayout (LAYOUTS ! nat n) nextId))"
proof -
  have r: "0 \<le> n \<and> n < int (length LAYOUTS) \<and> n < int (length BLOCK_POSITIONS)"
    using assms by (simp add: Level_new_def split: if_splits)
  then show "0 \<le> n" and "n \<le> 11"
    by (simp_all add: LAYOUTS_def)
  have "lvl = \<lparr>totalLevels = LEVELS, levelNum = n,
                board = fst (boardFromLayout (LAYOUTS ! nat n) nextId),
                block = createBlock (BLOCK_POSITIONS ! nat n)
                          (snd (snd (boardFromLayout (LAYOUTS ! nat n) nextId))),
                winTile = fst (snd (boardFromLayout (LAYOUTS ! nat n) nextId))\<rparr>"
    using assms r by (auto simp: Level_new_def split: prod.splits)
  then show "levelNum lvl = n" and "totalLevels lvl = 11"
    and "block lvl = createBlock (BLOCK_POSITIONS ! nat n)
                       (snd (snd (boardFromLayout (LAYOUTS ! nat n) nextId)))"
    and "board lvl = fst (boardFromLayout (LAYOUTS ! nat n) nextId)"
    and "winTile lvl = fst (snd (boardFromLayout (LAYOUTS ! nat n) nextId))"
    by (simp_all add: LEVELS_def)
qed

lemma Level_new_standing:
  assumes "Level_new n nextId = Inr (lvl, nextId')"
  shows "standing (block lvl)"
proof -
  have "0 \<le> n \<and> n < int (length BLOCK_POSITIONS)"
    using assms by (simp add: Level_new_def split: if_splits)
  then have "nat n < length BLOCK_POSITIONS"
    by linarith
  then have "isInt (fst (BLOCK_POSITIONS ! nat n)) \<and> isInt (snd (BLOCK_POSITIONS ! nat n))"
    by (rule BLOCK_POSITIONS_int)
  then show ?thesis
    unfolding Level_new_InrD(5) [OF assms]
    by (simp add: standing_def createBlock_def Mesh_new_def)
qed

lemma atRest_consistent:
  assumes "atRest b"
  shows "classificationConsistent (getBlockPos b)"
  using assms unfolding atRest_def
proof (elim disjE)
  assume s: "standing b"
  show ?thesis
    unfolding getBlockPos_standing [OF s]
    using standingD [OF s] by (simp add: isCell_def)
next
  assume s: "lyingAlongX b"
  note d = lyingAlongXD [OF s]
  have "isInt (vx (position b) + 1 / 2)"
    using d(2) by (rule isInt_shift) simp
  then show ?thesis
    unfolding getBlockPos_lyingAlongX [OF s]
    using d by (simp add: isCell_def adjacentCells_def)
next
  assume s: "lyingAlongZ b"
  note d = lyingAlongZD [OF s]
  have "isInt (vz (position b) + 1 / 2)"
    using d(3) by (rule isInt_shift) simp
  then show ?thesis
    unfolding getBlockPos_lyingAlongZ [OF s]
    using d by (simp add: isCell_def adjacentCells_def)
qed

text \<open>
  The block a level is constructed with stands on a cell. An accepted roll leaves a block at
  rest where the probed quarter turn puts it, at rest again. A block at rest classifies to
  one cell or to two adjacent cells.
\<close>

lemma Level_new_atRest:
  assumes "Level_new n nextId = Inr (lvl, nextId')"
  shows "atRest (block lvl)" and "classificationConsistent (getBlockPos (block lvl))"
proof -
  show r: "atRest (block lvl)"
    using assms by (simp add: atRest_def Level_new_standing)
  show "classificationConsistent (getBlockPos (block lvl))"
    using r by (rule atRest_consistent)
qed

lemma atRest_roll:
  assumes "atRest (block lvl)" and "roll rotDir lvl = Some lvl'"
  shows "atRest (block lvl')" and "classificationConsistent (getBlockPos (block lvl'))"
proof -
  from assms(2) obtain p a m
    where sw: "handleBlockMovement_switch rotDir lvl = (p, a, m)"
      and lvl': "lvl' = lvl\<lparr>block := rotateAroundWorldAxis (block lvl) p a (ninetyDegRad * m)\<rparr>"
    by (rule roll_SomeD)
  show r: "atRest (block lvl')"
    unfolding lvl' using roll_atRest [OF assms(1) sw] by simp
  show "classificationConsistent (getBlockPos (block lvl'))"
    using r by (rule atRest_consistent)
qed

section \<open>Runs of the rotation and the fade-out intervals\<close>

lemma run_rotation_ticks:
  assumes "k < length (timers h)"
    and "timers h ! k = RotationAnimation p a \<theta> n"
    and "n + j = 18" and "0 < j"
    and "winTile (level h) \<noteq> None"
  shows "\<exists>h'. run (replicate j (Fire k)) h = Inr h'
           \<and> level h' = (level h)\<lparr>block :=
                ((\<lambda>b. rotateAroundWorldAxis b p a (\<theta> / 18)) ^^ j) (block (level h))\<rparr>"
  using assms
proof (induction j arbitrary: h n)
  case 0
  then show ?case by simp
next
  case (Suc j)
  let ?g1 = "rotateBlock p a (\<theta> / 18) h"
  show ?case
  proof (cases "j = 0")
    case True
    then have n: "Suc n = 18"
      using Suc.prems(3) by simp
    let ?g2 = "(clear_timer k ?g1)\<lparr>animationPlaying := False\<rparr>"
    have lvl: "level ?g2 = (level h)\<lparr>block := rotateAroundWorldAxis (block (level h)) p a (\<theta> / 18)\<rparr>"
      by (simp add: clear_timer_def rotateBlock_def)
    obtain tile where tile: "winTile (level ?g2) = Some tile"
      using Suc.prems(5) by (auto simp: lvl)
    obtain win where win: "checkForWin (level ?g2) = Inr win"
      using tile by (simp add: checkForWin_def)
    have "fire k h = Inr (if win then animateWin ?g2 else ?g2)"
      using Suc.prems(1,2) n win by (simp add: fire_def Let_def)
    moreover have "level (if win then animateWin ?g2 else ?g2) = level ?g2"
      by (simp add: animateWin_def add_timer_def)
    ultimately show ?thesis
      using True lvl by (simp add: handle_def)
  next
    case False
    then have n: "Suc n \<noteq> 18" and j: "0 < j" and nj: "Suc n + j = 18"
      using Suc.prems(3) by simp_all
    let ?h1 = "set_timer k (RotationAnimation p a \<theta> (Suc n)) ?g1"
    have f: "fire k h = Inr ?h1"
      using Suc.prems(1,2) n by (simp add: fire_def Let_def)
    have k: "k < length (timers ?h1)"
      using Suc.prems(1) by (simp add: set_timer_def rotateBlock_def)
    have t: "timers ?h1 ! k = RotationAnimation p a \<theta> (Suc n)"
      using Suc.prems(1) by (simp add: set_timer_def rotateBlock_def)
    have l: "level ?h1 = (level h)\<lparr>block := rotateAroundWorldAxis (block (level h)) p a (\<theta> / 18)\<rparr>"
      by (simp add: set_timer_def rotateBlock_def)
    have w: "winTile (level ?h1) \<noteq> None"
      using Suc.prems(5) by (simp add: l)
    obtain h' where h': "run (replicate j (Fire k)) ?h1 = Inr h'"
      and lh': "level h' = (level ?h1)\<lparr>block :=
                ((\<lambda>b. rotateAroundWorldAxis b p a (\<theta> / 18)) ^^ j) (block (level ?h1))\<rparr>"
      using Suc.IH [OF k t nj j w] by blast
    have "((\<lambda>b. rotateAroundWorldAxis b p a (\<theta> / 18)) ^^ j)
            (rotateAroundWorldAxis (block (level h)) p a (\<theta> / 18))
          = ((\<lambda>b. rotateAroundWorldAxis b p a (\<theta> / 18)) ^^ Suc j) (block (level h))"
      using funpow_swap1 [of "\<lambda>b. rotateAroundWorldAxis b p a (\<theta> / 18)" j "block (level h)"]
      by simp
    then have "level h' = (level h)\<lparr>block :=
            ((\<lambda>b. rotateAroundWorldAxis b p a (\<theta> / 18)) ^^ Suc j) (block (level h))\<rparr>"
      unfolding lh' l by simp
    then show ?thesis
      using f h' by (simp add: handle_def)
  qed
qed

text \<open>
  \<open>roll\<close> is what the program does: when the key handler accepts a roll and the interval it
  registers fires eighteen times, the level is the one \<open>roll\<close> gives.
\<close>

lemma run_roll:
  assumes "\<not> animationPlaying g" and "\<not> pauseVisible g"
    and "roll rotDir (level g) = Some lvl'"
    and "winTile (level g) \<noteq> None"
  shows "\<exists>g'. run (replicate 18 (Fire (length (timers g)))) (handleBlockMovement rotDir g) = Inr g'
           \<and> level g' = lvl'"
proof -
  obtain p a m where sw: "handleBlockMovement_switch rotDir (level g) = (p, a, m)"
    by (cases "handleBlockMovement_switch rotDir (level g)") auto
  have valid: "isValidRotation (level g) p a (ninetyDegRad * m)"
    using assms(3) sw by (simp add: roll_def split: if_splits)
  have lvl': "lvl' = (level g)\<lparr>block :=
      ((\<lambda>b. rotateAroundWorldAxis b p a (ninetyDegRad * m / 18)) ^^ 18) (block (level g))\<rparr>"
    using assms(3) sw valid by (simp add: roll_def)
  let ?h = "handleBlockMovement rotDir g"
  have h: "?h = animateRotation p a (ninetyDegRad * m) g"
    using assms(1,2) sw valid by (simp add: handleBlockMovement_def)
  have k: "length (timers g) < length (timers ?h)"
    by (simp add: h animateRotation_def add_timer_def)
  have t: "timers ?h ! length (timers g) = RotationAnimation p a (ninetyDegRad * m) 0"
    by (simp add: h animateRotation_def add_timer_def)
  have l: "level ?h = level g"
    by (simp add: h animateRotation_def add_timer_def)
  have w: "winTile (level ?h) \<noteq> None"
    using assms(4) by (simp add: l)
  show ?thesis
    using run_rotation_ticks [OF k t _ _ w, of 18] by (simp add: l lvl')
qed


section \<open>Claim about the level change\<close>

lemma scene_remove_prefix: "scene_remove xs (map objectId xs @ ys) = ys"
  unfolding scene_remove_def by (induction xs) simp_all


text \<open>The scene holds the meshes of the current level, and every handler keeps it so.\<close>

lemma objectId_rotate: "objectId (rotateAroundWorldAxis b p a \<theta>) = objectId b"
  by (simp add: rotateAroundWorldAxis_def Object3D_applyQuaternion_def Let_def)

lemma changeLevel_scene:
  assumes "changeLevel offset g = Inr g'"
    and "scene g = map objectId (board (level g)) @ [objectId (block (level g))]"
  shows "scene g' = map objectId (board (level g')) @ [objectId (block (level g'))]"
proof -
  have e: "scene_remove [block (level g)] (scene_remove (board (level g)) (scene g)) = []"
    using scene_remove_prefix [of "board (level g)" "[objectId (block (level g))]"]
      scene_remove_prefix [of "[block (level g)]" "[]"]
    by (simp add: assms(2))
  show ?thesis
    using assms(1) unfolding changeLevel_def Let_def e
    by (auto simp: scene_add_def split: sum.splits)
qed

lemma handleBlockMovement_level_scene:
  "level (handleBlockMovement rotDir g) = level g"
  "scene (handleBlockMovement rotDir g) = scene g"
  by (simp_all add: handleBlockMovement_def animateRotation_def animateFailedRotation_def
      add_timer_def split: prod.split)

lemma keydown_level_scene:
  "level (keydown code g) = level g" "scene (keydown code g) = scene g"
  by (simp_all add: keydown_def handleBlockMovement_level_scene)

lemma fadeOutInLevel_level_scene:
  "level (fadeOutInLevel offset g) = level g" "scene (fadeOutInLevel offset g) = scene g"
  by (simp_all add: fadeOutInLevel_def add_timer_def)

lemma click_level_scene:
  "level (click b g) = level g" "scene (click b g) = scene g"
  by (cases b; simp add: click_def clickLevelButton_def fadeOutInLevel_level_scene add_timer_def)+

lemma sceneOfLevel_timers [simp]:
  "sceneOfLevel (add_timer t g) = sceneOfLevel g"
  "sceneOfLevel (clear_timer k g) = sceneOfLevel g"
  "sceneOfLevel (set_timer k t g) = sceneOfLevel g"
  "sceneOfLevel (g\<lparr>animationPlaying := f\<rparr>) = sceneOfLevel g"
  "sceneOfLevel (g\<lparr>buttonLock := f\<rparr>) = sceneOfLevel g"
  "sceneOfLevel (rotateBlock p a \<theta> g) = sceneOfLevel g"
  by (simp_all add: sceneOfLevel_def add_timer_def clear_timer_def set_timer_def rotateBlock_def
      objectId_rotate)

lemma callback_scene:
  assumes "callback t k g = Inr g'" and "sceneOfLevel g"
  shows "sceneOfLevel g'"
proof (cases t)
  case (RotationAnimation p a \<theta> n)
  show ?thesis
  proof (cases "Suc n = 18")
    case True
    let ?g2 = "(clear_timer k (rotateBlock p a (\<theta> / 18) g))\<lparr>animationPlaying := False\<rparr>"
    obtain win where "g' = (if win then animateWin ?g2 else ?g2)"
      using assms(1) RotationAnimation True by (auto simp: Let_def split: sum.splits)
    then show ?thesis
      using assms(2) by (simp add: animateWin_def)
  next
    case False
    then have "g' = set_timer k (RotationAnimation p a \<theta> (Suc n)) (rotateBlock p a (\<theta> / 18) g)"
      using assms(1) RotationAnimation by (simp add: Let_def)
    then show ?thesis
      using assms(2) by simp
  qed
next
  case (FailAnimationForward p a \<theta> n)
  then have "g' = add_timer (FailAnimationBackward p a \<theta> 0)
                    (clear_timer k (rotateBlock p a (\<theta> / 18) g))
             \<or> g' = set_timer k (FailAnimationForward p a \<theta> (Suc n))
                    (rotateBlock p a (\<theta> / 18) g)"
    using assms(1) by (simp add: Let_def split: if_splits)
  then show ?thesis
    using assms(2) by auto
next
  case (FailAnimationBackward p a \<theta> n)
  then have "g' = (clear_timer k (rotateBlock p a (- \<theta> / 18) g))\<lparr>animationPlaying := False\<rparr>
             \<or> g' = set_timer k (FailAnimationBackward p a \<theta> (Suc n))
                    (rotateBlock p a (- \<theta> / 18) g)"
    using assms(1) by (simp add: Let_def split: if_splits)
  then show ?thesis
    using assms(2) by auto
next
  case WinDelay
  then show ?thesis
    using assms by auto
next
  case WinAnimation
  then have "g' = add_timer WinTransitionDelay (clear_timer k g)
             \<or> (level g' = (level g)\<lparr>block := (block (level g))\<lparr>position :=
                   (position (block (level g)))\<lparr>vy := vy (position (block (level g))) - 1 / 10\<rparr>\<rparr>\<rparr>
                 \<and> scene g' = scene g)"
    using assms(1) by (auto split: if_splits)
  then show ?thesis
  proof
    assume "g' = add_timer WinTransitionDelay (clear_timer k g)"
    then show ?thesis
      using assms(2) by simp
  next
    assume "level g' = (level g)\<lparr>block := (block (level g))\<lparr>position :=
                   (position (block (level g)))\<lparr>vy := vy (position (block (level g))) - 1 / 10\<rparr>\<rparr>\<rparr>
                 \<and> scene g' = scene g"
    then show ?thesis
      using assms(2) by (simp add: sceneOfLevel_def)
  qed
next
  case WinTransitionDelay
  then have "level g' = level g \<and> scene g' = scene g"
    using assms(1) by (auto simp: fadeOutInLevel_level_scene clear_timer_def)
  then show ?thesis
    using assms(2) by (simp add: sceneOfLevel_def)
next
  case (FadeOutAnimation offset intervals)
  show ?thesis
  proof (cases "intervals = 0")
    case True
    then obtain g1 where g1: "changeLevel offset (clear_timer k g) = Inr g1"
      and g': "g' = add_timer (FadeInAnimation (intervals - 1)) g1"
      using assms(1) FadeOutAnimation by (auto split: sum.splits)
    have "sceneOfLevel (clear_timer k g)"
      using assms(2) by simp
    then have "sceneOfLevel g1"
      unfolding sceneOfLevel_def by (rule changeLevel_scene [OF g1])
    then show ?thesis
      by (simp add: g')
  next
    case False
    then show ?thesis
      using assms FadeOutAnimation by auto
  qed
next
  case (FadeInAnimation intervals)
  then show ?thesis
    using assms by (auto split: if_splits)
next
  case UnlockButton
  then show ?thesis
    using assms by auto
qed

lemma handle_scene:
  assumes "handle ev g = Inr g'" and "sceneOfLevel g"
  shows "sceneOfLevel g'"
proof (cases ev)
  case (KeyDown code)
  then have "g' = keydown code g"
    using assms(1) by (simp add: handle_def)
  then show ?thesis
    using assms(2) by (simp add: sceneOfLevel_def keydown_level_scene)
next
  case (Click b)
  then have "g' = click b g"
    using assms(1) by (simp add: handle_def)
  then show ?thesis
    using assms(2) by (simp add: sceneOfLevel_def click_level_scene)
next
  case (Fire k)
  then have "fire k g = Inr g'"
    using assms(1) by (simp add: handle_def)
  then show ?thesis
    using assms(2) callback_scene [of "timers g ! k" k g g']
    by (auto simp: fire_def split: if_splits)
qed

lemma run_scene:
  assumes "run evs g = Inr g'" and "sceneOfLevel g"
  shows "sceneOfLevel g'"
  using assms
proof (induction evs arbitrary: g)
  case Nil
  then show ?case by simp
next
  case (Cons ev evs)
  then obtain g1 where g1: "handle ev g = Inr g1" and r: "run evs g1 = Inr g'"
    by (auto split: sum.splits)
  show ?case
    using Cons.IH [OF r handle_scene [OF g1 Cons.prems(2)]] .
qed


lemma initLevel_scene:
  assumes "initLevel = Inr g0" and "run evs g0 = Inr g"
  shows "sceneOfLevel g"
proof -
  have "sceneOfLevel g0"
    using assms(1)
    by (auto simp: initLevel_def sceneOfLevel_def scene_add_def split: sum.splits prod.splits)
  then show ?thesis
    by (rule run_scene [OF assms(2)])
qed





section \<open>Claim about the busy flag\<close>

text \<open>
  The guard of \<open>handleBlockMovement\<close>: while the flag is set or the pause window is visible, a
  roll request changes nothing at all.
\<close>

lemma handleBlockMovement_guard:
  "animationPlaying g \<or> pauseVisible g \<Longrightarrow> handleBlockMovement rotDir g = g"
  by (simp add: handleBlockMovement_def)

lemmas run_defs = handle_def keydown_def click_def clickLevelButton_def fadeOutInLevel_def
  fire_def add_timer_def set_timer_def clear_timer_def rotateBlock_def animateRotation_def
  animateFailedRotation_def animateWin_def handleBlockMovement_def Let_def

lemma run_append:
  assumes "run xs g = Inr h"
  shows "run (xs @ ys) g = run ys h"
  using assms by (induction xs arbitrary: g) (auto split: sum.splits)

lemma level0_second_position:
  "position (rotateAroundWorldAxis
       (rotateAroundWorldAxis (createBlock (5, 1) 45) \<lparr>vx = 9 / 2, vy = 0, vz = 0\<rparr> zAxis
          ninetyDegRad)
       \<lparr>vx = 5 / 2, vy = 0, vz = 0\<rparr> zAxis ninetyDegRad) = \<lparr>vx = 2, vy = 1, vz = 1\<rparr>"
  by (simp add: quarter_turn_zAxis createBlock_def Mesh_new_def)

lemma level0_second_switch:
  "handleBlockMovement_switch negX
     \<lparr>totalLevels = 11, levelNum = 0, board = fst (boardFromLayout layout0 0),
      block = rotateAroundWorldAxis (createBlock (5, 1) 45) \<lparr>vx = 9 / 2, vy = 0, vz = 0\<rparr> zAxis
                ninetyDegRad,
      winTile = fst (snd (boardFromLayout layout0 0))\<rparr>
   = (\<lparr>vx = 5 / 2, vy = 0, vz = 0\<rparr>, zAxis, 1)"
  by (simp add: handleBlockMovement_switch_def offsetRotPointX_def level0_first_position
      twoPtRound_def Math_round_def isInt_def js_rem_def truncInt_def)

lemma level0_second_valid:
  "isValidRotation
     \<lparr>totalLevels = 11, levelNum = 0, board = fst (boardFromLayout layout0 0),
      block = rotateAroundWorldAxis (createBlock (5, 1) 45) \<lparr>vx = 9 / 2, vy = 0, vz = 0\<rparr> zAxis
                ninetyDegRad,
      winTile = fst (snd (boardFromLayout layout0 0))\<rparr>
     \<lparr>vx = 5 / 2, vy = 0, vz = 0\<rparr> zAxis ninetyDegRad"
  unfolding isValidRotation_iff
  using layout0_tiles
  by (simp add: getRotatedClone_def getBlockPos_def level0_second_position tileCoordinates_def
      halfRound_def Math_round_def isInt_def js_rem_def truncInt_def Vector2XZ_halfRound_def)

text \<open>
  A run from the start of the game: the key A, Escape, a click on the button for the next
  level, the eighteen runs of the rotation interval with ten runs of the fade-out interval in
  between, Escape again and one more run of the fade-out interval.
\<close>

lemma level0_trace_to_fade:
  "run [KeyDown ''KeyA'', KeyDown ''Escape'', Click next_level_button,
        Fire 0, Fire 0, Fire 1, Fire 0, Fire 0, Fire 1, Fire 0, Fire 1, Fire 0, Fire 0,
        Fire 1, Fire 0, Fire 0, Fire 1, Fire 0, Fire 1, Fire 0, Fire 0, Fire 1, Fire 0,
        Fire 0, Fire 1, Fire 0, Fire 1, Fire 0, Fire 0, Fire 1, Fire 0,
        KeyDown ''Escape'', Fire 0]
     \<lparr>level = \<lparr>totalLevels = 11, levelNum = 0, board = fst (boardFromLayout layout0 0),
                block = createBlock (5, 1) 45, winTile = fst (snd (boardFromLayout layout0 0))\<rparr>,
      scene = map objectId (fst (boardFromLayout layout0 0)) @ [45],
      nextObjectId = 46, animationPlaying = False, buttonLock = False, pauseVisible = False,
      timers = []\<rparr>
   = Inr \<lparr>level = \<lparr>totalLevels = 11, levelNum = 0, board = fst (boardFromLayout layout0 0),
                    block = rotateAroundWorldAxis (createBlock (5, 1) 45)
                              \<lparr>vx = 9 / 2, vy = 0, vz = 0\<rparr> zAxis ninetyDegRad,
                    winTile = fst (snd (boardFromLayout layout0 0))\<rparr>,
          scene = map objectId (fst (boardFromLayout layout0 0)) @ [45],
          nextObjectId = 46, animationPlaying = False, buttonLock = True, pauseVisible = False,
          timers = [FadeOutAnimation 1 9, UnlockButton]\<rparr>"
proof -
  let ?lvl = "\<lambda>b. \<lparr>totalLevels = 11, levelNum = 0, board = fst (boardFromLayout layout0 0),
                     block = b, winTile = fst (snd (boardFromLayout layout0 0))\<rparr>"
  let ?b1 = "rotateAroundWorldAxis (createBlock (5, 1) 45) \<lparr>vx = 9 / 2, vy = 0, vz = 0\<rparr> zAxis
               ninetyDegRad"
  let ?g0 = "\<lparr>level = ?lvl (createBlock (5, 1) 45),
               scene = map objectId (fst (boardFromLayout layout0 0)) @ [45],
               nextObjectId = 46, animationPlaying = False, buttonLock = False,
               pauseVisible = False, timers = []\<rparr>"
  let ?ga = "\<lparr>level = ?lvl (createBlock (5, 1) 45),
               scene = map objectId (fst (boardFromLayout layout0 0)) @ [45],
               nextObjectId = 46, animationPlaying = True, buttonLock = True,
               pauseVisible = True,
               timers = [RotationAnimation \<lparr>vx = 9 / 2, vy = 0, vz = 0\<rparr> zAxis ninetyDegRad 0,
                         FadeOutAnimation 1 20, UnlockButton]\<rparr>"
  let ?gb = "\<lparr>level = ?lvl ?b1,
               scene = map objectId (fst (boardFromLayout layout0 0)) @ [45],
               nextObjectId = 46, animationPlaying = False, buttonLock = True,
               pauseVisible = True, timers = [FadeOutAnimation 1 10, UnlockButton]\<rparr>"
  let ?g1 = "\<lparr>level = ?lvl ?b1,
               scene = map objectId (fst (boardFromLayout layout0 0)) @ [45],
               nextObjectId = 46, animationPlaying = False, buttonLock = True,
               pauseVisible = False, timers = [FadeOutAnimation 1 9, UnlockButton]\<rparr>"
  have a: "run [KeyDown ''KeyA'', KeyDown ''Escape'', Click next_level_button] ?g0 = Inr ?ga"
    using level0_valid_negX by (simp add: run_defs level0_switch_negX)
  have b: "run [Fire 0, Fire 0, Fire 1, Fire 0, Fire 0, Fire 1, Fire 0, Fire 1, Fire 0, Fire 0,
             Fire 1, Fire 0, Fire 0, Fire 1, Fire 0, Fire 1, Fire 0, Fire 0, Fire 1, Fire 0,
             Fire 0, Fire 1, Fire 0, Fire 1, Fire 0, Fire 0, Fire 1, Fire 0] ?ga = Inr ?gb"
    by (simp add: run_defs rotateAroundWorldAxis_compose [OF unitVector_axes(3)]
        checkForWin_def blockPos_def layout0_winTile level0_first_cells)
  have c: "run [KeyDown ''Escape'', Fire 0] ?gb = Inr ?g1"
    by (simp add: run_defs)
  have "run ([KeyDown ''KeyA'', KeyDown ''Escape'', Click next_level_button]
             @ [Fire 0, Fire 0, Fire 1, Fire 0, Fire 0, Fire 1, Fire 0, Fire 1, Fire 0, Fire 0,
                Fire 1, Fire 0, Fire 0, Fire 1, Fire 0, Fire 1, Fire 0, Fire 0, Fire 1, Fire 0,
                Fire 0, Fire 1, Fire 0, Fire 1, Fire 0, Fire 0, Fire 1, Fire 0]
             @ [KeyDown ''Escape'', Fire 0]) ?g0
        = run ([Fire 0, Fire 0, Fire 1, Fire 0, Fire 0, Fire 1, Fire 0, Fire 1, Fire 0, Fire 0,
                Fire 1, Fire 0, Fire 0, Fire 1, Fire 0, Fire 1, Fire 0, Fire 0, Fire 1, Fire 0,
                Fire 0, Fire 1, Fire 0, Fire 1, Fire 0, Fire 0, Fire 1, Fire 0]
             @ [KeyDown ''Escape'', Fire 0]) ?ga"
    by (rule run_append [OF a])
  also have "\<dots> = run [KeyDown ''Escape'', Fire 0] ?gb"
    by (rule run_append [OF b])
  also have "\<dots> = Inr ?g1"
    by (rule c)
  finally show ?thesis
    by (simp only: append.simps)
qed

text \<open>
  C8 fails on the program. The flag is one boolean shared by all animations, and
  \<open>fadeOutInLevel\<close> sets it without asking whether an animation is playing. A run from the
  start of the game, with the time of each event in milliseconds:
  \<^item> 0: the key A is pressed; the roll towards \<open>-x\<close> is accepted and its interval is
    registered (it fires every 15 ms, eighteen times, until 270);
  \<^item> 5: Escape shows the pause window; 10: the button for the next level is clicked, and
    the fade-out interval is registered (it fires every 25 ms, from 35 on) and the flag is
    set again;
  \<^item> 15 to 270: the rotation interval fires eighteen times and the fade-out interval ten
    times in between; the last run of the rotation interval resets the flag, while the fade
    goes on;
  \<^item> 280: Escape hides the pause window; 285: the fade-out interval fires;
  \<^item> 290: the key A is pressed again.
  At 290 the fade-out interval is still registered (the level will change at 535), the flag
  is down and the pause window is hidden: \<open>handleBlockMovement\<close> accepts the roll and registers
  a new rotation interval while the fade is in flight.
\<close>

theorem roll_started_during_fade:
  "\<exists>g0 g1. initLevel = Inr g0
     \<and> run [KeyDown ''KeyA'', KeyDown ''Escape'', Click next_level_button,
             Fire 0, Fire 0, Fire 1, Fire 0, Fire 0, Fire 1, Fire 0, Fire 1, Fire 0, Fire 0,
             Fire 1, Fire 0, Fire 0, Fire 1, Fire 0, Fire 1, Fire 0, Fire 0, Fire 1, Fire 0,
             Fire 0, Fire 1, Fire 0, Fire 1, Fire 0, Fire 0, Fire 1, Fire 0,
             KeyDown ''Escape'', Fire 0] g0 = Inr g1
     \<and> timers g1 = [FadeOutAnimation 1 9, UnlockButton]
     \<and> \<not> animationPlaying g1 \<and> \<not> pauseVisible g1
     \<and> handle (KeyDown ''KeyA'') g1
         = Inr (animateRotation \<lparr>vx = 5 / 2, vy = 0, vz = 0\<rparr> zAxis ninetyDegRad g1)
     \<and> timers (animateRotation \<lparr>vx = 5 / 2, vy = 0, vz = 0\<rparr> zAxis ninetyDegRad g1)
         = [FadeOutAnimation 1 9, UnlockButton,
            RotationAnimation \<lparr>vx = 5 / 2, vy = 0, vz = 0\<rparr> zAxis ninetyDegRad 0]"
proof -
  let ?lvl = "\<lparr>totalLevels = 11, levelNum = 0, board = fst (boardFromLayout layout0 0),
               block = rotateAroundWorldAxis (createBlock (5, 1) 45)
                         \<lparr>vx = 9 / 2, vy = 0, vz = 0\<rparr> zAxis ninetyDegRad,
               winTile = fst (snd (boardFromLayout layout0 0))\<rparr>"
  let ?g0 = "\<lparr>level = \<lparr>totalLevels = 11, levelNum = 0, board = fst (boardFromLayout layout0 0),
                         block = createBlock (5, 1) 45,
                         winTile = fst (snd (boardFromLayout layout0 0))\<rparr>,
               scene = map objectId (fst (boardFromLayout layout0 0)) @ [45],
               nextObjectId = 46, animationPlaying = False, buttonLock = False,
               pauseVisible = False, timers = []\<rparr>"
  let ?g1 = "\<lparr>level = ?lvl, scene = map objectId (fst (boardFromLayout layout0 0)) @ [45],
               nextObjectId = 46, animationPlaying = False, buttonLock = True,
               pauseVisible = False, timers = [FadeOutAnimation 1 9, UnlockButton]\<rparr>"
  have r: "run [KeyDown ''KeyA'', KeyDown ''Escape'', Click next_level_button,
             Fire 0, Fire 0, Fire 1, Fire 0, Fire 0, Fire 1, Fire 0, Fire 1, Fire 0, Fire 0,
             Fire 1, Fire 0, Fire 0, Fire 1, Fire 0, Fire 1, Fire 0, Fire 0, Fire 1, Fire 0,
             Fire 0, Fire 1, Fire 0, Fire 1, Fire 0, Fire 0, Fire 1, Fire 0,
             KeyDown ''Escape'', Fire 0] ?g0 = Inr ?g1"
    by (rule level0_trace_to_fade)
  have d: "handle (KeyDown ''KeyA'') ?g1
           = Inr (animateRotation \<lparr>vx = 5 / 2, vy = 0, vz = 0\<rparr> zAxis ninetyDegRad ?g1)"
    using level0_second_valid
    by (simp add: handle_def keydown_def handleBlockMovement_def level0_second_switch)
  have e: "timers (animateRotation \<lparr>vx = 5 / 2, vy = 0, vz = 0\<rparr> zAxis ninetyDegRad ?g1)
           = [FadeOutAnimation 1 9, UnlockButton,
              RotationAnimation \<lparr>vx = 5 / 2, vy = 0, vz = 0\<rparr> zAxis ninetyDegRad 0]"
    by (simp add: animateRotation_def add_timer_def)
  have t: "timers ?g1 = [FadeOutAnimation 1 9, UnlockButton]"
    by simp
  have f: "\<not> animationPlaying ?g1" "\<not> pauseVisible ?g1"
    by simp_all
  show ?thesis
    by (rule exI [of _ ?g0], rule exI [of _ ?g1]) (intro conjI initLevel_0 r t f d e)
qed

subsection \<open>The level changes during the roll\<close>

text \<open>The second level, built when the counter of object identities stands at 46.\<close>

lemma layout1_next: "snd (snd (boardFromLayout layout1 46)) = 101"
  by (simp add: boardFromLayout_def layout1_def Let_def)

lemma Level_new_1:
  "Level_new 1 46 =
     Inr (\<lparr>totalLevels = 11, levelNum = 1, board = fst (boardFromLayout layout1 46),
           block = createBlock (1, 1) 101, winTile = fst (snd (boardFromLayout layout1 46))\<rparr>, 102)"
  using layout1_next
  by (auto simp: Level_new_def LAYOUTS_def BLOCK_POSITIONS_def LEVELS_def split: prod.split)

lemma layout1_winTile: "fst (snd (boardFromLayout layout1 46)) \<noteq> None"
  by (simp add: boardFromLayout_def layout1_def Let_def)

text \<open>
  A block standing on \<open>(1,1)\<close> and turned by a ninth of a quarter turn about the edge at
  \<open>x = 5 / 2\<close> is at height \<open>cos (pi / 18) - 3 / 2 * sin (pi / 18)\<close>, strictly between
  \<open>1 / 2\<close> and \<open>1\<close>.
\<close>

lemma tilted_not_atRest:
  "\<not> atRest (rotateAroundWorldAxis (createBlock (1, 1) 101) \<lparr>vx = 5 / 2, vy = 0, vz = 0\<rparr> zAxis
              (ninetyDegRad / 9))"
proof -
  let ?t = "pi / 18"
  let ?b = "rotateAroundWorldAxis (createBlock (1, 1) 101) \<lparr>vx = 5 / 2, vy = 0, vz = 0\<rparr> zAxis
              (ninetyDegRad / 9)"
  have y: "vy (position ?b) = cos ?t - 3 / 2 * sin ?t"
    by (simp add: position_rotate_zAxis createBlock_def Mesh_new_def ninetyDegRad_def)
  have s0: "0 < sin ?t"
    by (rule sin_gt_zero) (use pi_gt_zero in simp_all)
  have "sin ?t \<le> ?t"
    by (rule sin_x_le_x) simp
  then have s1: "sin ?t < 2 / 9"
    using pi_less_4 by simp
  have "cos (pi / 6) < cos ?t"
    by (rule cos_monotone_0_pi) (use pi_gt_zero in simp_all)
  moreover have "5 / 3 < sqrt 3"
    by (rule real_less_rsqrt) (simp add: power2_eq_square)
  ultimately have c1: "5 / 6 < cos ?t"
    by (simp add: cos_30)
  have c2: "cos ?t \<le> 1"
    by simp
  have "1 / 2 < vy (position ?b)" "vy (position ?b) < 1"
    using s0 s1 c1 c2 unfolding y by linarith+
  then show ?thesis
    using standingD(1) [of ?b] lyingAlongXD(1) [of ?b] lyingAlongZD(1) [of ?b]
    unfolding atRest_def by linarith
qed

lemma scene_remove_single: "objectId b = n \<Longrightarrow> scene_remove [b] [n] = []"
  by (simp add: scene_remove_def)

text \<open>
  The roll started during the fade, up to the run of the fade-out interval that changes the
  level: sixteen runs of the rotation interval have turned the block of the first level, which
  is then removed.
\<close>

lemma level0_trace_to_change:
  "run [Fire 2, Fire 0, Fire 2, Fire 0, Fire 2, Fire 2, Fire 0, Fire 2, Fire 2, Fire 0,
        Fire 2, Fire 0, Fire 2, Fire 2, Fire 0, Fire 2, Fire 2, Fire 0, Fire 2, Fire 0,
        Fire 2, Fire 2, Fire 0, Fire 2, Fire 2, Fire 0]
     \<lparr>level = \<lparr>totalLevels = 11, levelNum = 0, board = fst (boardFromLayout layout0 0),
                block = rotateAroundWorldAxis (createBlock (5, 1) 45)
                          \<lparr>vx = 9 / 2, vy = 0, vz = 0\<rparr> zAxis ninetyDegRad,
                winTile = fst (snd (boardFromLayout layout0 0))\<rparr>,
      scene = map objectId (fst (boardFromLayout layout0 0)) @ [45],
      nextObjectId = 46, animationPlaying = True, buttonLock = True, pauseVisible = False,
      timers = [FadeOutAnimation 1 9, UnlockButton,
                RotationAnimation \<lparr>vx = 5 / 2, vy = 0, vz = 0\<rparr> zAxis ninetyDegRad 0]\<rparr>
   = Inr \<lparr>level = \<lparr>totalLevels = 11, levelNum = 1, board = fst (boardFromLayout layout1 46),
                    block = createBlock (1, 1) 101,
                    winTile = fst (snd (boardFromLayout layout1 46))\<rparr>,
          scene = map objectId (fst (boardFromLayout layout1 46)) @ [101],
          nextObjectId = 102, animationPlaying = True, buttonLock = True, pauseVisible = False,
          timers = [UnlockButton,
                    RotationAnimation \<lparr>vx = 5 / 2, vy = 0, vz = 0\<rparr> zAxis ninetyDegRad 16,
                    FadeInAnimation (- 1)]\<rparr>"
  by (simp add: run_defs changeLevel_def scene_remove_prefix objectId_rotate Level_new_1
      scene_add_def scene_remove_single createBlock_def Mesh_new_def)

text \<open>
  The run goes on after the roll at 290. The rotation interval fires from 305 on, every 15 ms;
  the fade-out interval changes the level at 535, after the sixteenth run of the rotation
  interval; the two runs that are left, at 545 and 560, turn the block of the new level. The
  game is then on level 1 with no rotation registered, and the block has been turned by a
  ninth of a quarter turn about an edge of the old level: it is in none of the three resting
  poses.
\<close>

lemma level_changed_during_roll:
  "\<exists>g0 g'. initLevel = Inr g0
     \<and> run ([KeyDown ''KeyA'', KeyDown ''Escape'', Click next_level_button,
              Fire 0, Fire 0, Fire 1, Fire 0, Fire 0, Fire 1, Fire 0, Fire 1, Fire 0, Fire 0,
              Fire 1, Fire 0, Fire 0, Fire 1, Fire 0, Fire 1, Fire 0, Fire 0, Fire 1, Fire 0,
              Fire 0, Fire 1, Fire 0, Fire 1, Fire 0, Fire 0, Fire 1, Fire 0,
              KeyDown ''Escape'', Fire 0]
             @ [KeyDown ''KeyA'']
             @ [Fire 2, Fire 0, Fire 2, Fire 0, Fire 2, Fire 2, Fire 0, Fire 2, Fire 2, Fire 0,
                Fire 2, Fire 0, Fire 2, Fire 2, Fire 0, Fire 2, Fire 2, Fire 0, Fire 2, Fire 0,
                Fire 2, Fire 2, Fire 0, Fire 2, Fire 2, Fire 0]
             @ [Fire 1, Fire 1]) g0 = Inr g'
     \<and> levelNum (level g') = 1
     \<and> block (level g')
         = rotateAroundWorldAxis (createBlock (1, 1) 101) \<lparr>vx = 5 / 2, vy = 0, vz = 0\<rparr> zAxis
             (ninetyDegRad / 9)
     \<and> \<not> atRest (block (level g'))"
proof -
  let ?P = "\<lparr>vx = 5 / 2, vy = 0, vz = 0\<rparr>"
  let ?lvl0 = "\<lparr>totalLevels = 11, levelNum = 0, board = fst (boardFromLayout layout0 0),
                block = rotateAroundWorldAxis (createBlock (5, 1) 45)
                          \<lparr>vx = 9 / 2, vy = 0, vz = 0\<rparr> zAxis ninetyDegRad,
                winTile = fst (snd (boardFromLayout layout0 0))\<rparr>"
  let ?g0 = "\<lparr>level = \<lparr>totalLevels = 11, levelNum = 0, board = fst (boardFromLayout layout0 0),
                block = createBlock (5, 1) 45, winTile = fst (snd (boardFromLayout layout0 0))\<rparr>,
      scene = map objectId (fst (boardFromLayout layout0 0)) @ [45],
      nextObjectId = 46, animationPlaying = False, buttonLock = False, pauseVisible = False,
      timers = []\<rparr>"
  let ?g1 = "\<lparr>level = ?lvl0, scene = map objectId (fst (boardFromLayout layout0 0)) @ [45],
               nextObjectId = 46, animationPlaying = False, buttonLock = True,
               pauseVisible = False, timers = [FadeOutAnimation 1 9, UnlockButton]\<rparr>"
  let ?g2 = "\<lparr>level = ?lvl0, scene = map objectId (fst (boardFromLayout layout0 0)) @ [45],
               nextObjectId = 46, animationPlaying = True, buttonLock = True,
               pauseVisible = False,
               timers = [FadeOutAnimation 1 9, UnlockButton,
                         RotationAnimation ?P zAxis ninetyDegRad 0]\<rparr>"
  let ?g3 = "\<lparr>level = \<lparr>totalLevels = 11, levelNum = 1,
                         board = fst (boardFromLayout layout1 46),
                         block = createBlock (1, 1) 101,
                         winTile = fst (snd (boardFromLayout layout1 46))\<rparr>,
               scene = map objectId (fst (boardFromLayout layout1 46)) @ [101],
               nextObjectId = 102, animationPlaying = True, buttonLock = True,
               pauseVisible = False,
               timers = [UnlockButton, RotationAnimation ?P zAxis ninetyDegRad 16,
                         FadeInAnimation (- 1)]\<rparr>"
  let ?e1 = "[KeyDown ''KeyA'', KeyDown ''Escape'', Click next_level_button,
              Fire 0, Fire 0, Fire 1, Fire 0, Fire 0, Fire 1, Fire 0, Fire 1, Fire 0, Fire 0,
              Fire 1, Fire 0, Fire 0, Fire 1, Fire 0, Fire 1, Fire 0, Fire 0, Fire 1, Fire 0,
              Fire 0, Fire 1, Fire 0, Fire 1, Fire 0, Fire 0, Fire 1, Fire 0,
              KeyDown ''Escape'', Fire 0]"
  let ?e2 = "[Fire 2, Fire 0, Fire 2, Fire 0, Fire 2, Fire 2, Fire 0, Fire 2, Fire 2, Fire 0,
              Fire 2, Fire 0, Fire 2, Fire 2, Fire 0, Fire 2, Fire 2, Fire 0, Fire 2, Fire 0,
              Fire 2, Fire 2, Fire 0, Fire 2, Fire 2, Fire 0]"
  have d: "run [KeyDown ''KeyA''] ?g1 = Inr ?g2"
    using level0_second_valid
    by (simp add: handle_def keydown_def handleBlockMovement_def level0_second_switch
        animateRotation_def add_timer_def)
  obtain g' where q: "run (replicate 2 (Fire 1)) ?g3 = Inr g'"
    and l: "level g' = (level ?g3)\<lparr>block :=
              ((\<lambda>b. rotateAroundWorldAxis b ?P zAxis (ninetyDegRad / 18)) ^^ 2)
                (block (level ?g3))\<rparr>"
    using run_rotation_ticks [of 1 ?g3 ?P zAxis ninetyDegRad 16 2] layout1_winTile
    by auto
  have q': "run [Fire 1, Fire 1] ?g3 = Inr g'"
    using q by (simp add: numeral_2_eq_2)
  have "run (?e1 @ [KeyDown ''KeyA''] @ ?e2 @ [Fire 1, Fire 1]) ?g0
        = run ([KeyDown ''KeyA''] @ ?e2 @ [Fire 1, Fire 1]) ?g1"
    by (rule run_append [OF level0_trace_to_fade])
  also have "\<dots> = run (?e2 @ [Fire 1, Fire 1]) ?g2"
    by (rule run_append [OF d])
  also have "\<dots> = run [Fire 1, Fire 1] ?g3"
    by (rule run_append [OF level0_trace_to_change])
  also have "\<dots> = Inr g'"
    by (rule q')
  finally have r: "run (?e1 @ [KeyDown ''KeyA''] @ ?e2 @ [Fire 1, Fire 1]) ?g0 = Inr g'" .
  have n: "levelNum (level g') = 1"
    by (simp add: l)
  have b: "block (level g') = rotateAroundWorldAxis (createBlock (1, 1) 101) ?P zAxis
                                (ninetyDegRad / 9)"
    by (simp add: l numeral_2_eq_2 rotateAroundWorldAxis_compose [OF unitVector_axes(3)])
  have t: "\<not> atRest (block (level g'))"
    unfolding b by (rule tilted_not_atRest)
  show ?thesis
    by (rule exI [of _ ?g0], rule exI [of _ g']) (intro conjI initLevel_0 r n b t)
qed

section \<open>Claim about the reachable block states\<close>

text \<open>Bounds on the square root of 3, and the second level as the first run builds it.\<close>

lemma sqrt3_bounds: "173 / 100 < sqrt 3" "sqrt 3 < 7 / 4"
proof -
  show "173 / 100 < sqrt 3"
    by (rule real_less_rsqrt) (simp add: power2_eq_square)
  show "sqrt 3 < 7 / 4"
    by (rule real_less_lsqrt) (simp_all add: power2_eq_square)
qed

lemma layout1_winTile_at:
  "fst (snd (boardFromLayout layout1 46)) = Some ((createTile 8 1 63)\<lparr>visible := False\<rparr>)"
  by (simp add: boardFromLayout_def layout1_def Let_def createTile_def Mesh_new_def)

lemma layout1_tiles:
  "(0, 1) \<in> (\<lambda>tile. (vx (position tile), vz (position tile))) ` set (fst (boardFromLayout layout1 46))"
  "(1, 2) \<in> (\<lambda>tile. (vx (position tile), vz (position tile))) ` set (fst (boardFromLayout layout1 46))"
  by (simp_all add: boardFromLayout_def layout1_def Let_def createTile_def Mesh_new_def)

lemma level1_tilted_position:
  "position (rotateAroundWorldAxis (createBlock (1, 1) 101) \<lparr>vx = 5 / 2, vy = 0, vz = 0\<rparr> zAxis
     (ninetyDegRad / 3)) = \<lparr>vx = 2 - 3 * sqrt 3 / 4, vy = sqrt 3 / 2 - 3 / 4, vz = 1\<rparr>"
proof -
  have e: "ninetyDegRad / 3 = pi / 6"
    by (simp add: ninetyDegRad_def)
  show ?thesis
    unfolding position_rotate_zAxis e
    by (simp add: createBlock_def Mesh_new_def cos_30 sin_30)
qed

lemma halfRound_tilted_x: "halfRound (2 - 3 * sqrt 3 / 4) = 1 / 2"
proof -
  have "\<lfloor>2 * (2 - 3 * sqrt 3 / 4) + 1 / 2\<rfloor> = 1"
    using sqrt3_bounds by (intro floor_unique) simp_all
  then show ?thesis
    by (simp add: halfRound_floor)
qed

lemma halfRound_tilted_z: "halfRound (3 / 4 + sqrt 3 / 2) = 3 / 2"
proof -
  have "\<lfloor>2 * (3 / 4 + sqrt 3 / 2) + 1 / 2\<rfloor> = 3"
    using sqrt3_bounds by (intro floor_unique) simp_all
  then show ?thesis
    by (simp add: halfRound_floor)
qed

lemma twoPtRound_tilted_y: "twoPtRound (sqrt 3 / 2 - 3 / 4) = 3 / 25"
proof -
  have "\<lfloor>(sqrt 3 / 2 - 3 / 4) * 100 + 1 / 2\<rfloor> = 12"
    using sqrt3_bounds by (intro floor_unique) simp_all
  then show ?thesis
    by (simp add: twoPtRound_def Math_round_def)
qed

text \<open>
  The block of the second level, turned by a third of a quarter turn about the line
  \<open>x = 5 / 2\<close> of the ground: its centre is at about \<open>(0.70, 0.12, 1)\<close>, over the cells
  \<open>(0,1)\<close> and \<open>(1,1)\<close>. A roll towards \<open>+z\<close> turns it about the line \<open>z = 3 / 2\<close>, and
  its centre comes to about \<open>(0.70, 0.5, 1.62)\<close>, over the cells \<open>(0,1)\<close> and \<open>(1,2)\<close>.
\<close>

lemma halfRound_one: "halfRound 1 = 1"
  by (simp add: halfRound_def Math_round_def)

lemma halfRound_half: "halfRound (1 / 2) = 1 / 2"
  by (simp add: halfRound_def Math_round_def)

lemma not_isInt_half: "\<not> isInt (1 / 2)" "\<not> isInt (3 / 2)"
  by (simp_all add: isInt_def js_rem_def truncInt_def)

lemma level1_tilted_cells:
  "getBlockPos (rotateAroundWorldAxis (createBlock (1, 1) 101) \<lparr>vx = 5 / 2, vy = 0, vz = 0\<rparr> zAxis
     (ninetyDegRad / 3)) = [\<lparr>cx = 0, cz = 1\<rparr>, \<lparr>cx = 1, cz = 1\<rparr>]"
  unfolding getBlockPos_def level1_tilted_position Vector2XZ_halfRound_def
  by (simp add: halfRound_tilted_x halfRound_one not_isInt_half Vector2XZ_floor_def
      Vector2XZ_ceil_def Math_floor_def Math_ceil_def ceiling_def)

lemma level1_switch_posZ:
  "handleBlockMovement_switch posZ
     \<lparr>totalLevels = 11, levelNum = 1, board = fst (boardFromLayout layout1 46),
      block = rotateAroundWorldAxis (createBlock (1, 1) 101) \<lparr>vx = 5 / 2, vy = 0, vz = 0\<rparr> zAxis
                (ninetyDegRad / 3),
      winTile = fst (snd (boardFromLayout layout1 46))\<rparr>
   = (\<lparr>vx = 0, vy = 0, vz = 3 / 2\<rparr>, xAxis, 1)"
  unfolding handleBlockMovement_switch_def offsetRotPointZ_def
  by (simp add: level1_tilted_position twoPtRound_tilted_y twoPtRound_one)

lemma level1_final_position:
  "position (rotateAroundWorldAxis
       (rotateAroundWorldAxis (createBlock (1, 1) 101) \<lparr>vx = 5 / 2, vy = 0, vz = 0\<rparr> zAxis
          (ninetyDegRad / 3))
       \<lparr>vx = 0, vy = 0, vz = 3 / 2\<rparr> xAxis ninetyDegRad)
   = \<lparr>vx = 2 - 3 * sqrt 3 / 4, vy = 1 / 2, vz = 3 / 4 + sqrt 3 / 2\<rparr>"
  unfolding quarter_turn_xAxis level1_tilted_position by simp

lemma level1_final_cells:
  "getBlockPos (rotateAroundWorldAxis
       (rotateAroundWorldAxis (createBlock (1, 1) 101) \<lparr>vx = 5 / 2, vy = 0, vz = 0\<rparr> zAxis
          (ninetyDegRad / 3))
       \<lparr>vx = 0, vy = 0, vz = 3 / 2\<rparr> xAxis ninetyDegRad)
   = [\<lparr>cx = 0, cz = 1\<rparr>, \<lparr>cx = 1, cz = 2\<rparr>]"
  unfolding getBlockPos_def level1_final_position Vector2XZ_halfRound_def
  by (simp add: halfRound_tilted_x halfRound_tilted_z not_isInt_half Vector2XZ_floor_def
      Vector2XZ_ceil_def Math_floor_def Math_ceil_def ceiling_def)

lemma level1_valid_posZ:
  "isValidRotation
     \<lparr>totalLevels = 11, levelNum = 1, board = fst (boardFromLayout layout1 46),
      block = rotateAroundWorldAxis (createBlock (1, 1) 101) \<lparr>vx = 5 / 2, vy = 0, vz = 0\<rparr> zAxis
                (ninetyDegRad / 3),
      winTile = fst (snd (boardFromLayout layout1 46))\<rparr>
     \<lparr>vx = 0, vy = 0, vz = 3 / 2\<rparr> xAxis ninetyDegRad"
  unfolding isValidRotation_iff
  using layout1_tiles by (simp add: getRotatedClone_def level1_final_cells tileCoordinates_def)

subsection \<open>The run\<close>

text \<open>
  The fade-out interval fires at 310 and 335, and the key A is pressed at 350: the second roll
  of the first level is accepted, as the flag is down.
\<close>

lemma level0_trace_second_roll:
  "run [Fire 0, Fire 0, KeyDown ''KeyA'']
     \<lparr>level = \<lparr>totalLevels = 11, levelNum = 0, board = fst (boardFromLayout layout0 0),
                block = rotateAroundWorldAxis (createBlock (5, 1) 45)
                          \<lparr>vx = 9 / 2, vy = 0, vz = 0\<rparr> zAxis ninetyDegRad,
                winTile = fst (snd (boardFromLayout layout0 0))\<rparr>,
      scene = map objectId (fst (boardFromLayout layout0 0)) @ [45],
      nextObjectId = 46, animationPlaying = False, buttonLock = True, pauseVisible = False,
      timers = [FadeOutAnimation 1 9, UnlockButton]\<rparr>
   = Inr \<lparr>level = \<lparr>totalLevels = 11, levelNum = 0, board = fst (boardFromLayout layout0 0),
                     block = rotateAroundWorldAxis (createBlock (5, 1) 45)
                               \<lparr>vx = 9 / 2, vy = 0, vz = 0\<rparr> zAxis ninetyDegRad,
                     winTile = fst (snd (boardFromLayout layout0 0))\<rparr>,
           scene = map objectId (fst (boardFromLayout layout0 0)) @ [45],
           nextObjectId = 46, animationPlaying = True, buttonLock = True, pauseVisible = False,
           timers = [FadeOutAnimation 1 7, UnlockButton,
                     RotationAnimation \<lparr>vx = 5 / 2, vy = 0, vz = 0\<rparr> zAxis ninetyDegRad 0]\<rparr>"
  using level0_second_valid
  by (simp add: run_defs level0_second_switch)

text \<open>
  Up to 535 the rotation interval fires twelve times and the fade-out interval eight times; its
  last run changes the level. The rotation interval is still registered, with six runs to go.
\<close>

lemma level0_trace_to_change_twelve:
  "run [Fire 0, Fire 2, Fire 2, Fire 0, Fire 2, Fire 0, Fire 2, Fire 2, Fire 0, Fire 2,
        Fire 2, Fire 0, Fire 2, Fire 0, Fire 2, Fire 2, Fire 0, Fire 2, Fire 2, Fire 0]
     \<lparr>level = \<lparr>totalLevels = 11, levelNum = 0, board = fst (boardFromLayout layout0 0),
                block = rotateAroundWorldAxis (createBlock (5, 1) 45)
                          \<lparr>vx = 9 / 2, vy = 0, vz = 0\<rparr> zAxis ninetyDegRad,
                winTile = fst (snd (boardFromLayout layout0 0))\<rparr>,
      scene = map objectId (fst (boardFromLayout layout0 0)) @ [45],
      nextObjectId = 46, animationPlaying = True, buttonLock = True, pauseVisible = False,
      timers = [FadeOutAnimation 1 7, UnlockButton,
                RotationAnimation \<lparr>vx = 5 / 2, vy = 0, vz = 0\<rparr> zAxis ninetyDegRad 0]\<rparr>
   = Inr \<lparr>level = \<lparr>totalLevels = 11, levelNum = 1, board = fst (boardFromLayout layout1 46),
                     block = createBlock (1, 1) 101,
                     winTile = fst (snd (boardFromLayout layout1 46))\<rparr>,
           scene = map objectId (fst (boardFromLayout layout1 46)) @ [101],
           nextObjectId = 102, animationPlaying = True, buttonLock = True, pauseVisible = False,
           timers = [UnlockButton,
                     RotationAnimation \<lparr>vx = 5 / 2, vy = 0, vz = 0\<rparr> zAxis ninetyDegRad 12,
                     FadeInAnimation (- 1)]\<rparr>"
  by (simp add: run_defs changeLevel_def scene_remove_prefix objectId_rotate
      Level_new_1 scene_add_def scene_remove_single createBlock_def Mesh_new_def)

text \<open>
  The six runs that are left, from 545 to 620, turn the block of the second level by a third of
  a quarter turn about the edge of the first level's roll; the last one resets the flag.
\<close>

lemma level1_trace_tilted:
  "run [Fire 1, Fire 1, Fire 2, Fire 1, Fire 2, Fire 1, Fire 1, Fire 2, Fire 1]
     \<lparr>level = \<lparr>totalLevels = 11, levelNum = 1, board = fst (boardFromLayout layout1 46),
                block = createBlock (1, 1) 101,
                winTile = fst (snd (boardFromLayout layout1 46))\<rparr>,
      scene = map objectId (fst (boardFromLayout layout1 46)) @ [101],
      nextObjectId = 102, animationPlaying = True, buttonLock = True, pauseVisible = False,
      timers = [UnlockButton,
                RotationAnimation \<lparr>vx = 5 / 2, vy = 0, vz = 0\<rparr> zAxis ninetyDegRad 12,
                FadeInAnimation (- 1)]\<rparr>
   = Inr \<lparr>level = \<lparr>totalLevels = 11, levelNum = 1, board = fst (boardFromLayout layout1 46),
                     block = rotateAroundWorldAxis (createBlock (1, 1) 101)
                               \<lparr>vx = 5 / 2, vy = 0, vz = 0\<rparr> zAxis (ninetyDegRad / 3),
                     winTile = fst (snd (boardFromLayout layout1 46))\<rparr>,
           scene = map objectId (fst (boardFromLayout layout1 46)) @ [101],
           nextObjectId = 102, animationPlaying = False, buttonLock = True, pauseVisible = False,
           timers = [UnlockButton, FadeInAnimation 2]\<rparr>"
  by (simp add: run_defs rotateAroundWorldAxis_compose [OF unitVector_axes(3)]
      checkForWin_def blockPos_def layout1_winTile_at level1_tilted_cells)

text \<open>
  The key S at 630: the roll towards \<open>+z\<close> is accepted.
\<close>

lemma level1_trace_key:
  "run [KeyDown ''KeyS'']
     \<lparr>level = \<lparr>totalLevels = 11, levelNum = 1, board = fst (boardFromLayout layout1 46),
                block = rotateAroundWorldAxis (createBlock (1, 1) 101)
                          \<lparr>vx = 5 / 2, vy = 0, vz = 0\<rparr> zAxis (ninetyDegRad / 3),
                winTile = fst (snd (boardFromLayout layout1 46))\<rparr>,
      scene = map objectId (fst (boardFromLayout layout1 46)) @ [101],
      nextObjectId = 102, animationPlaying = False, buttonLock = True, pauseVisible = False,
      timers = [UnlockButton, FadeInAnimation 2]\<rparr>
   = Inr \<lparr>level = \<lparr>totalLevels = 11, levelNum = 1, board = fst (boardFromLayout layout1 46),
                     block = rotateAroundWorldAxis (createBlock (1, 1) 101)
                               \<lparr>vx = 5 / 2, vy = 0, vz = 0\<rparr> zAxis (ninetyDegRad / 3),
                     winTile = fst (snd (boardFromLayout layout1 46))\<rparr>,
           scene = map objectId (fst (boardFromLayout layout1 46)) @ [101],
           nextObjectId = 102, animationPlaying = True, buttonLock = True, pauseVisible = False,
           timers = [UnlockButton, FadeInAnimation 2,
                     RotationAnimation \<lparr>vx = 0, vy = 0, vz = 3 / 2\<rparr> xAxis ninetyDegRad 0]\<rparr>"
  using level1_valid_posZ
  by (simp add: run_defs level1_switch_posZ)

text \<open>
  The eighteen runs of its rotation interval, from 645 to 900, with the runs of the fade-in
  interval in between.
\<close>

lemma level1_trace_roll:
  "run [Fire 1, Fire 2, Fire 1, Fire 2, Fire 2, Fire 1, Fire 2, Fire 2, Fire 1, Fire 2,
        Fire 1, Fire 2, Fire 2, Fire 1, Fire 2, Fire 2, Fire 1, Fire 2, Fire 1, Fire 2,
        Fire 2, Fire 1, Fire 2, Fire 2, Fire 1, Fire 2, Fire 1, Fire 2, Fire 2]
     \<lparr>level = \<lparr>totalLevels = 11, levelNum = 1, board = fst (boardFromLayout layout1 46),
                block = rotateAroundWorldAxis (createBlock (1, 1) 101)
                          \<lparr>vx = 5 / 2, vy = 0, vz = 0\<rparr> zAxis (ninetyDegRad / 3),
                winTile = fst (snd (boardFromLayout layout1 46))\<rparr>,
      scene = map objectId (fst (boardFromLayout layout1 46)) @ [101],
      nextObjectId = 102, animationPlaying = True, buttonLock = True, pauseVisible = False,
      timers = [UnlockButton, FadeInAnimation 2,
                RotationAnimation \<lparr>vx = 0, vy = 0, vz = 3 / 2\<rparr> xAxis ninetyDegRad 0]\<rparr>
   = Inr \<lparr>level = \<lparr>totalLevels = 11, levelNum = 1, board = fst (boardFromLayout layout1 46),
                     block = rotateAroundWorldAxis
                               (rotateAroundWorldAxis (createBlock (1, 1) 101)
                                  \<lparr>vx = 5 / 2, vy = 0, vz = 0\<rparr> zAxis (ninetyDegRad / 3))
                               \<lparr>vx = 0, vy = 0, vz = 3 / 2\<rparr> xAxis ninetyDegRad,
                     winTile = fst (snd (boardFromLayout layout1 46))\<rparr>,
           scene = map objectId (fst (boardFromLayout layout1 46)) @ [101],
           nextObjectId = 102, animationPlaying = False, buttonLock = True, pauseVisible = False,
           timers = [UnlockButton, FadeInAnimation 13]\<rparr>"
  by (simp add: run_defs rotateAroundWorldAxis_compose [OF unitVector_axes(1)]
      checkForWin_def blockPos_def layout1_winTile_at level1_final_cells)

text \<open>
  The fade-in interval runs to its end at 1085 and the button lock is released at 1010: no
  timer is left.
\<close>

lemma level1_trace_rest:
  "run [Fire 1, Fire 1, Fire 1, Fire 1, Fire 0, Fire 0, Fire 0, Fire 0, Fire 0]
     \<lparr>level = \<lparr>totalLevels = 11, levelNum = 1, board = fst (boardFromLayout layout1 46),
                block = rotateAroundWorldAxis
                          (rotateAroundWorldAxis (createBlock (1, 1) 101)
                             \<lparr>vx = 5 / 2, vy = 0, vz = 0\<rparr> zAxis (ninetyDegRad / 3))
                          \<lparr>vx = 0, vy = 0, vz = 3 / 2\<rparr> xAxis ninetyDegRad,
                winTile = fst (snd (boardFromLayout layout1 46))\<rparr>,
      scene = map objectId (fst (boardFromLayout layout1 46)) @ [101],
      nextObjectId = 102, animationPlaying = False, buttonLock = True, pauseVisible = False,
      timers = [UnlockButton, FadeInAnimation 13]\<rparr>
   = Inr \<lparr>level = \<lparr>totalLevels = 11, levelNum = 1, board = fst (boardFromLayout layout1 46),
                     block = rotateAroundWorldAxis
                               (rotateAroundWorldAxis (createBlock (1, 1) 101)
                                  \<lparr>vx = 5 / 2, vy = 0, vz = 0\<rparr> zAxis (ninetyDegRad / 3))
                               \<lparr>vx = 0, vy = 0, vz = 3 / 2\<rparr> xAxis ninetyDegRad,
                     winTile = fst (snd (boardFromLayout layout1 46))\<rparr>,
           scene = map objectId (fst (boardFromLayout layout1 46)) @ [101],
           nextObjectId = 102, animationPlaying = False, buttonLock = False, pauseVisible = False,
           timers = []\<rparr>"
  by (simp add: run_defs)

text \<open>
  C6 fails on the program. The callback of the rotation interval turns \<open>level.block\<close>, the
  block of the level that is current when it fires, and the level can change while the
  interval is registered: \<open>fadeOutInLevel\<close> sets the flag without testing it, and the last run
  of an earlier rotation resets it. A run from the start of the game, with the time of each
  event in milliseconds:
  \<^item> 0 to 285 as in the run of the claim about the busy flag: the key A at 0, Escape at 5, a
    click on the button for the next level at 10, the first roll over at 270, Escape at 280;
  \<^item> 350: the key A; the second roll of the first level is accepted;
  \<^item> 535: the fade-out interval changes the level, after twelve runs of the rotation interval;
    the six runs left, from 545 to 620, turn the block of the second level, and the last one
    resets the flag. The block classifies to the cells \<open>(0,1)\<close> and \<open>(1,1)\<close>, which are
    adjacent;
  \<^item> 630: the key S; the roll towards \<open>+z\<close> is accepted, and its interval fires from 645 to
    900;
  \<^item> the button lock is released at 1010 and the fade-in interval ends at 1085.
  Then no timer is registered, no animation is playing, and the block classifies to the cells
  \<open>(0,1)\<close> and \<open>(1,2)\<close>, which are diagonal. The last roll is an accepted roll, about the
  computed point and axis, of a block whose classification is consistent.
\<close>

theorem diagonal_cells_reached:
  "\<exists>g0 g1 g2. initLevel = Inr g0
     \<and> run [KeyDown ''KeyA'', KeyDown ''Escape'', Click next_level_button, Fire 0,
             Fire 0, Fire 1, Fire 0, Fire 0, Fire 1, Fire 0, Fire 1, Fire 0, Fire 0,
             Fire 1, Fire 0, Fire 0, Fire 1, Fire 0, Fire 1, Fire 0, Fire 0, Fire 1,
             Fire 0, Fire 0, Fire 1, Fire 0, Fire 1, Fire 0, Fire 0, Fire 1, Fire 0,
             KeyDown ''Escape'', Fire 0, Fire 0, Fire 0, KeyDown ''KeyA'', Fire 0,
             Fire 2, Fire 2, Fire 0, Fire 2, Fire 0, Fire 2, Fire 2, Fire 0, Fire 2,
             Fire 2, Fire 0, Fire 2, Fire 0, Fire 2, Fire 2, Fire 0, Fire 2, Fire 2,
             Fire 0, Fire 1, Fire 1, Fire 2, Fire 1, Fire 2, Fire 1, Fire 1, Fire 2,
             Fire 1] g0 = Inr g1
     \<and> \<not> animationPlaying g1 \<and> \<not> pauseVisible g1
     \<and> getBlockPos (block (level g1)) = [\<lparr>cx = 0, cz = 1\<rparr>, \<lparr>cx = 1, cz = 1\<rparr>]
     \<and> classificationConsistent (getBlockPos (block (level g1)))
     \<and> roll posZ (level g1) = Some (level g2)
     \<and> run [KeyDown ''KeyS'', Fire 1, Fire 2, Fire 1, Fire 2, Fire 2, Fire 1, Fire 2,
             Fire 2, Fire 1, Fire 2, Fire 1, Fire 2, Fire 2, Fire 1, Fire 2, Fire 2,
             Fire 1, Fire 2, Fire 1, Fire 2, Fire 2, Fire 1, Fire 2, Fire 2, Fire 1,
             Fire 2, Fire 1, Fire 2, Fire 2, Fire 1, Fire 1, Fire 1, Fire 1, Fire 0,
             Fire 0, Fire 0, Fire 0, Fire 0] g1 = Inr g2
     \<and> \<not> animationPlaying g2 \<and> timers g2 = []
     \<and> getBlockPos (block (level g2)) = [\<lparr>cx = 0, cz = 1\<rparr>, \<lparr>cx = 1, cz = 2\<rparr>]
     \<and> \<not> classificationConsistent (getBlockPos (block (level g2)))"
proof -
  let ?g0 = "\<lparr>level = \<lparr>totalLevels = 11, levelNum = 0, board = fst (boardFromLayout layout0 0),
                      block = createBlock (5, 1) 45,
                      winTile = fst (snd (boardFromLayout layout0 0))\<rparr>,
            scene = map objectId (fst (boardFromLayout layout0 0)) @ [45],
            nextObjectId = 46, animationPlaying = False, buttonLock = False, pauseVisible = False,
            timers = []\<rparr>"
  let ?ga = "\<lparr>level = \<lparr>totalLevels = 11, levelNum = 0, board = fst (boardFromLayout layout0 0),
                      block = rotateAroundWorldAxis (createBlock (5, 1) 45)
                                \<lparr>vx = 9 / 2, vy = 0, vz = 0\<rparr> zAxis ninetyDegRad,
                      winTile = fst (snd (boardFromLayout layout0 0))\<rparr>,
            scene = map objectId (fst (boardFromLayout layout0 0)) @ [45],
            nextObjectId = 46, animationPlaying = False, buttonLock = True, pauseVisible = False,
            timers = [FadeOutAnimation 1 9, UnlockButton]\<rparr>"
  let ?gb = "\<lparr>level = \<lparr>totalLevels = 11, levelNum = 0, board = fst (boardFromLayout layout0 0),
                      block = rotateAroundWorldAxis (createBlock (5, 1) 45)
                                \<lparr>vx = 9 / 2, vy = 0, vz = 0\<rparr> zAxis ninetyDegRad,
                      winTile = fst (snd (boardFromLayout layout0 0))\<rparr>,
            scene = map objectId (fst (boardFromLayout layout0 0)) @ [45],
            nextObjectId = 46, animationPlaying = True, buttonLock = True, pauseVisible = False,
            timers = [FadeOutAnimation 1 7, UnlockButton,
                      RotationAnimation \<lparr>vx = 5 / 2, vy = 0, vz = 0\<rparr> zAxis ninetyDegRad 0]\<rparr>"
  let ?gc = "\<lparr>level = \<lparr>totalLevels = 11, levelNum = 1, board = fst (boardFromLayout layout1 46),
                      block = createBlock (1, 1) 101,
                      winTile = fst (snd (boardFromLayout layout1 46))\<rparr>,
            scene = map objectId (fst (boardFromLayout layout1 46)) @ [101],
            nextObjectId = 102, animationPlaying = True, buttonLock = True, pauseVisible = False,
            timers = [UnlockButton,
                      RotationAnimation \<lparr>vx = 5 / 2, vy = 0, vz = 0\<rparr> zAxis ninetyDegRad 12,
                      FadeInAnimation (- 1)]\<rparr>"
  let ?g1 = "\<lparr>level = \<lparr>totalLevels = 11, levelNum = 1, board = fst (boardFromLayout layout1 46),
                      block = rotateAroundWorldAxis (createBlock (1, 1) 101)
                                \<lparr>vx = 5 / 2, vy = 0, vz = 0\<rparr> zAxis (ninetyDegRad / 3),
                      winTile = fst (snd (boardFromLayout layout1 46))\<rparr>,
            scene = map objectId (fst (boardFromLayout layout1 46)) @ [101],
            nextObjectId = 102, animationPlaying = False, buttonLock = True, pauseVisible = False,
            timers = [UnlockButton, FadeInAnimation 2]\<rparr>"
  let ?gd = "\<lparr>level = \<lparr>totalLevels = 11, levelNum = 1, board = fst (boardFromLayout layout1 46),
                      block = rotateAroundWorldAxis (createBlock (1, 1) 101)
                                \<lparr>vx = 5 / 2, vy = 0, vz = 0\<rparr> zAxis (ninetyDegRad / 3),
                      winTile = fst (snd (boardFromLayout layout1 46))\<rparr>,
            scene = map objectId (fst (boardFromLayout layout1 46)) @ [101],
            nextObjectId = 102, animationPlaying = True, buttonLock = True, pauseVisible = False,
            timers = [UnlockButton, FadeInAnimation 2,
                      RotationAnimation \<lparr>vx = 0, vy = 0, vz = 3 / 2\<rparr> xAxis ninetyDegRad 0]\<rparr>"
  let ?ge = "\<lparr>level = \<lparr>totalLevels = 11, levelNum = 1, board = fst (boardFromLayout layout1 46),
                      block = rotateAroundWorldAxis
                                (rotateAroundWorldAxis (createBlock (1, 1) 101)
                                   \<lparr>vx = 5 / 2, vy = 0, vz = 0\<rparr> zAxis (ninetyDegRad / 3))
                                \<lparr>vx = 0, vy = 0, vz = 3 / 2\<rparr> xAxis ninetyDegRad,
                      winTile = fst (snd (boardFromLayout layout1 46))\<rparr>,
            scene = map objectId (fst (boardFromLayout layout1 46)) @ [101],
            nextObjectId = 102, animationPlaying = False, buttonLock = True, pauseVisible = False,
            timers = [UnlockButton, FadeInAnimation 13]\<rparr>"
  let ?g2 = "\<lparr>level = \<lparr>totalLevels = 11, levelNum = 1, board = fst (boardFromLayout layout1 46),
                      block = rotateAroundWorldAxis
                                (rotateAroundWorldAxis (createBlock (1, 1) 101)
                                   \<lparr>vx = 5 / 2, vy = 0, vz = 0\<rparr> zAxis (ninetyDegRad / 3))
                                \<lparr>vx = 0, vy = 0, vz = 3 / 2\<rparr> xAxis ninetyDegRad,
                      winTile = fst (snd (boardFromLayout layout1 46))\<rparr>,
            scene = map objectId (fst (boardFromLayout layout1 46)) @ [101],
            nextObjectId = 102, animationPlaying = False, buttonLock = False, pauseVisible = False,
            timers = []\<rparr>"
  let ?e0 = "[KeyDown ''KeyA'', KeyDown ''Escape'', Click next_level_button, Fire 0,
             Fire 0, Fire 1, Fire 0, Fire 0, Fire 1, Fire 0, Fire 1, Fire 0, Fire 0,
             Fire 1, Fire 0, Fire 0, Fire 1, Fire 0, Fire 1, Fire 0, Fire 0, Fire 1,
             Fire 0, Fire 0, Fire 1, Fire 0, Fire 1, Fire 0, Fire 0, Fire 1, Fire 0,
             KeyDown ''Escape'', Fire 0]"
  let ?e1 = "[Fire 0, Fire 0, KeyDown ''KeyA'']"
  let ?e2 = "[Fire 0, Fire 2, Fire 2, Fire 0, Fire 2, Fire 0, Fire 2, Fire 2, Fire 0,
             Fire 2, Fire 2, Fire 0, Fire 2, Fire 0, Fire 2, Fire 2, Fire 0, Fire 2,
             Fire 2, Fire 0]"
  let ?e3 = "[Fire 1, Fire 1, Fire 2, Fire 1, Fire 2, Fire 1, Fire 1, Fire 2, Fire 1]"
  let ?e4 = "[KeyDown ''KeyS'']"
  let ?e5 = "[Fire 1, Fire 2, Fire 1, Fire 2, Fire 2, Fire 1, Fire 2, Fire 2, Fire 1,
             Fire 2, Fire 1, Fire 2, Fire 2, Fire 1, Fire 2, Fire 2, Fire 1, Fire 2,
             Fire 1, Fire 2, Fire 2, Fire 1, Fire 2, Fire 2, Fire 1, Fire 2, Fire 1,
             Fire 2, Fire 2]"
  let ?e6 = "[Fire 1, Fire 1, Fire 1, Fire 1, Fire 0, Fire 0, Fire 0, Fire 0, Fire 0]"
  have "run (?e0 @ ?e1 @ ?e2 @ ?e3) ?g0 = run (?e1 @ ?e2 @ ?e3) ?ga"
    by (rule run_append [OF level0_trace_to_fade])
  also have "\<dots> = run (?e2 @ ?e3) ?gb"
    by (rule run_append [OF level0_trace_second_roll])
  also have "\<dots> = run ?e3 ?gc"
    by (rule run_append [OF level0_trace_to_change_twelve])
  also have "\<dots> = Inr ?g1"
    by (rule level1_trace_tilted)
  finally have r1: "run (?e0 @ ?e1 @ ?e2 @ ?e3) ?g0 = Inr ?g1" .
  have "run (?e4 @ ?e5 @ ?e6) ?g1 = run (?e5 @ ?e6) ?gd"
    by (rule run_append [OF level1_trace_key])
  also have "\<dots> = run ?e6 ?ge"
    by (rule run_append [OF level1_trace_roll])
  also have "\<dots> = Inr ?g2"
    by (rule level1_trace_rest)
  finally have r2: "run (?e4 @ ?e5 @ ?e6) ?g1 = Inr ?g2" .
  have a: "run [KeyDown ''KeyA'', KeyDown ''Escape'', Click next_level_button, Fire 0,
             Fire 0, Fire 1, Fire 0, Fire 0, Fire 1, Fire 0, Fire 1, Fire 0, Fire 0,
             Fire 1, Fire 0, Fire 0, Fire 1, Fire 0, Fire 1, Fire 0, Fire 0, Fire 1,
             Fire 0, Fire 0, Fire 1, Fire 0, Fire 1, Fire 0, Fire 0, Fire 1, Fire 0,
             KeyDown ''Escape'', Fire 0, Fire 0, Fire 0, KeyDown ''KeyA'', Fire 0,
             Fire 2, Fire 2, Fire 0, Fire 2, Fire 0, Fire 2, Fire 2, Fire 0, Fire 2,
             Fire 2, Fire 0, Fire 2, Fire 0, Fire 2, Fire 2, Fire 0, Fire 2, Fire 2,
             Fire 0, Fire 1, Fire 1, Fire 2, Fire 1, Fire 2, Fire 1, Fire 1, Fire 2,
             Fire 1] ?g0 = Inr ?g1"
    using r1 by (simp only: append.simps)
  have b: "run [KeyDown ''KeyS'', Fire 1, Fire 2, Fire 1, Fire 2, Fire 2, Fire 1, Fire 2,
             Fire 2, Fire 1, Fire 2, Fire 1, Fire 2, Fire 2, Fire 1, Fire 2, Fire 2,
             Fire 1, Fire 2, Fire 1, Fire 2, Fire 2, Fire 1, Fire 2, Fire 2, Fire 1,
             Fire 2, Fire 1, Fire 2, Fire 2, Fire 1, Fire 1, Fire 1, Fire 1, Fire 0,
             Fire 0, Fire 0, Fire 0, Fire 0] ?g1 = Inr ?g2"
    using r2 by (simp only: append.simps)
  have f: "\<not> animationPlaying ?g1" "\<not> pauseVisible ?g1" "\<not> animationPlaying ?g2"
    "timers ?g2 = []"
    by simp_all
  have c1: "getBlockPos (block (level ?g1)) = [\<lparr>cx = 0, cz = 1\<rparr>, \<lparr>cx = 1, cz = 1\<rparr>]"
    by (simp add: level1_tilted_cells)
  have k1: "classificationConsistent (getBlockPos (block (level ?g1)))"
    unfolding c1 by (simp add: isCell_def adjacentCells_def isInt_def js_rem_def truncInt_def)
  have c2: "getBlockPos (block (level ?g2)) = [\<lparr>cx = 0, cz = 1\<rparr>, \<lparr>cx = 1, cz = 2\<rparr>]"
    by (simp add: level1_final_cells)
  have k2: "\<not> classificationConsistent (getBlockPos (block (level ?g2)))"
    unfolding c2 by (simp add: adjacentCells_def)
  have s: "handleBlockMovement_switch posZ (level ?g1) = (\<lparr>vx = 0, vy = 0, vz = 3 / 2\<rparr>, xAxis, 1)"
    using level1_switch_posZ by simp
  have v: "isValidRotation (level ?g1) \<lparr>vx = 0, vy = 0, vz = 3 / 2\<rparr> xAxis ninetyDegRad"
    using level1_valid_posZ by simp
  have r: "roll posZ (level ?g1) = Some (level ?g2)"
    unfolding roll_def s using v by (simp add: eighteen_steps [OF unitVector_axes(1)])
  show ?thesis
    by (rule exI [of _ ?g0], rule exI [of _ ?g1], rule exI [of _ ?g2])
      (intro conjI initLevel_0 a f c1 k1 r b c2 k2)
qed

end
